theory Spec2Isabelle
  imports Complex_Main
begin

section \<open>Python values and strings\<close>

text \<open>
  A string is a list of characters with the code points 0 to 255. \<open>str.strip()\<close> removes
  the characters Python counts as white space, which in this range are: blank, tab, line
  feed, vertical tab, form feed, carriage return, the four separators 0x1C to 0x1F, the
  next-line character 0x85 and the no-break space 0xA0.
\<close>

definition is_space :: "char \<Rightarrow> bool" where
  "is_space c = (c \<in> set [CHR '' '', CHR 0x09, CHR 0x0A, CHR 0x0B, CHR 0x0C, CHR 0x0D,
                            CHR 0x1C, CHR 0x1D, CHR 0x1E, CHR 0x1F, CHR 0x85, CHR 0xA0])"

definition strip :: "string \<Rightarrow> string" where
  "strip s = rev (dropWhile is_space (rev (dropWhile is_space s)))"

text \<open>
  The case mappings of the ASCII letters. Python's \<open>str.upper()\<close> and \<open>str.lower()\<close>
  follow Unicode and are parameters of the world below; these two stand in for them
  in the examples.
\<close>

definition ascii_upper :: "string \<Rightarrow> string" where
  "ascii_upper s =
     map (\<lambda>c. let n = (of_char c :: nat) in if 97 \<le> n \<and> n \<le> 122 then char_of (n - 32) else c) s"

definition ascii_lower :: "string \<Rightarrow> string" where
  "ascii_lower s =
     map (\<lambda>c. let n = (of_char c :: nat) in if 65 \<le> n \<and> n \<le> 90 then char_of (n + 32) else c) s"

text \<open>Python's \<open>q in t\<close> on strings.\<close>

fun is_substring :: "string \<Rightarrow> string \<Rightarrow> bool" where
  "is_substring q [] = (q = [])"
| "is_substring q (c # cs) = (take (length q) (c # cs) = q \<or> is_substring q cs)"

text \<open>
  A Python value as the SDK hands it over: JSON data plus tuples. The type \<open>'f\<close> stands
  for Python's \<open>float\<close>; its operations are parameters (record \<open>float_ops\<close> below), so
  nothing is assumed about rounding, infinities or NaN. A dict is an association list
  in insertion order.
\<close>

datatype 'f pyval =
    PNone
  | PBool bool
  | PInt int
  | PFloat 'f
  | PStr string
  | PList "'f pyval list"
  | PTuple "'f pyval list"
  | PDict "(string \<times> 'f pyval) list"

section \<open>Credential lookup: \<open>_first\<close>\<close>

text \<open>
  \<open>_first(*values)\<close> is the same function in all four scripts: skip \<open>None\<close>, strip, and
  return the first value that is not empty after stripping. Config values are taken as
  already rendered by \<open>str\<close>.
\<close>

fun first :: "string option list \<Rightarrow> string option" where
  "first [] = None"
| "first (None # vs) = first vs"
| "first (Some v # vs) = (if strip v \<noteq> [] then Some (strip v) else first vs)"

section \<open>Effects: output, prompts, SDK calls, file writes, exceptions\<close>

text \<open>
  Exceptions are values. \<open>SystemExit\<close> is not a subclass of \<open>Exception\<close>; every other
  exception of the model is. \<open>exc_message\<close> is \<open>str(e)\<close>.
\<close>

datatype exc =
    SystemExit string
  | ValueError string
  | ZeroDivisionError string
  | EOFError string
  | OtherError string

fun exc_message :: "exc \<Rightarrow> string" where
  "exc_message (SystemExit m) = m"
| "exc_message (ValueError m) = m"
| "exc_message (ZeroDivisionError m) = m"
| "exc_message (EOFError m) = m"
| "exc_message (OtherError m) = m"

fun is_Exception :: "exc \<Rightarrow> bool" where
  "is_Exception (SystemExit m) = False"
| "is_Exception e = True"

datatype flow = Auto | Approval_flow | Totp_flow

text \<open>The two ways \<open>GrowwAPI.get_access_token\<close> is called: api_key with secret, api_key with totp.\<close>

datatype creds = Approval string string | Totp string string

datatype 'f event =
    Print string
  | Input string
  | Getpass string
  | Sdk_get_access_token creds
  | Sdk_client "'f pyval"
  | Sdk_method string "'f pyval list" "(string \<times> 'f pyval) list"
  | Sdk_new_feed string
  | Sdk_feed string string "'f pyval list"
  | Sdk_get_all_instruments
  | Write_file string string

text \<open>
  Cells and tables stand for the pandas \<open>DataFrame\<close> of instruments: a cell of an
  object column is a string, a missing value (\<open>NaN\<close>), or some other object given by
  its \<open>str\<close> rendering; a table has column names and rows, a row giving the cell of
  each column.
\<close>

datatype cell = CStr string | CNaN | COther string

record frame =
  frame_columns :: "string list"
  frame_rows :: "(string \<times> cell) list list"

text \<open>
  The state a program runs in: the lines still waiting on standard input, and the two
  module-level caches of \<open>groww_gradio.py\<close> (\<open>FEED_CACHE\<close> as the list of tokens that
  have a feed, \<open>INSTRUMENT_CACHE["df"]\<close>).
\<close>

record pstate =
  stdin :: "string list"
  feed_cache :: "string list"
  instrument_cache :: "frame option"

text \<open>
  A program maps a state to the events it caused, in order, the state it left, and
  either the exception that ended it or its value.
\<close>

type_synonym ('f, 'a) prog = "pstate \<Rightarrow> 'f event list \<times> pstate \<times> (exc + 'a)"

definition ret :: "'a \<Rightarrow> ('f, 'a) prog" where
  "ret x = (\<lambda>s. ([], s, Inr x))"

definition raise :: "exc \<Rightarrow> ('f, 'a) prog" where
  "raise e = (\<lambda>s. ([], s, Inl e))"

definition emit :: "'f event \<Rightarrow> ('f, unit) prog" where
  "emit ev = (\<lambda>s. ([ev], s, Inr ()))"

definition bind :: "('f, 'a) prog \<Rightarrow> ('a \<Rightarrow> ('f, 'b) prog) \<Rightarrow> ('f, 'b) prog" where
  "bind m f = (\<lambda>s. case m s of
       (es, s', Inl e) \<Rightarrow> (es, s', Inl e)
     | (es, s', Inr x) \<Rightarrow> (case f x s' of (es', r) \<Rightarrow> (es @ es', r)))"

definition seq :: "('f, unit) prog \<Rightarrow> ('f, 'b) prog \<Rightarrow> ('f, 'b) prog" where
  "seq m k = bind m (\<lambda>_. k)"

definition lift :: "exc + 'a \<Rightarrow> ('f, 'a) prog" where
  "lift r = (case r of Inl e \<Rightarrow> raise e | Inr x \<Rightarrow> ret x)"

text \<open>\<open>try: m  except Exception as e: h e\<close>. A \<open>SystemExit\<close> passes through.\<close>

definition catch :: "('f, 'a) prog \<Rightarrow> (exc \<Rightarrow> ('f, 'a) prog) \<Rightarrow> ('f, 'a) prog" where
  "catch m h = (\<lambda>s. case m s of
       (es, s', Inl e) \<Rightarrow>
         if is_Exception e then (case h e s' of (es', r) \<Rightarrow> (es @ es', r))
         else (es, s', Inl e)
     | (es, s', Inr x) \<Rightarrow> (es, s', Inr x))"

text \<open>\<open>input(prompt)\<close> and \<open>getpass(prompt)\<close>: one line of input, \<open>EOFError\<close> when there is none.\<close>

definition input_line :: "string \<Rightarrow> ('f, string) prog" where
  "input_line prompt = (\<lambda>s. case stdin s of
       [] \<Rightarrow> ([Input prompt], s, Inl (EOFError ''EOF when reading a line''))
     | l # ls \<Rightarrow> ([Input prompt], s\<lparr>stdin := ls\<rparr>, Inr l))"

definition getpass :: "string \<Rightarrow> ('f, string) prog" where
  "getpass prompt = (\<lambda>s. case stdin s of
       [] \<Rightarrow> ([Getpass prompt], s, Inl (EOFError []))
     | l # ls \<Rightarrow> ([Getpass prompt], s\<lparr>stdin := ls\<rparr>, Inr l))"

text \<open>
  The operations on Python floats the scripts use, as parameters: the zero test behind
  truthiness and behind \<open>ZeroDivisionError\<close>, \<open>float(int)\<close> (\<open>None\<close>: \<open>OverflowError\<close>),
  \<open>float(str)\<close> (\<open>None\<close>: \<open>ValueError\<close>), subtraction, division by a non-zero float,
  multiplication, and the constant \<open>100.0\<close>.
\<close>

record 'f float_ops =
  fzero :: "'f \<Rightarrow> bool"
  float_of_int :: "int \<Rightarrow> 'f option"
  float_of_str :: "string \<Rightarrow> 'f option"
  fsub :: "'f \<Rightarrow> 'f \<Rightarrow> 'f"
  fdiv :: "'f \<Rightarrow> 'f \<Rightarrow> 'f"
  fmul :: "'f \<Rightarrow> 'f \<Rightarrow> 'f"
  hundred :: "'f"

text \<open>
  Everything outside the scripts: the loaded \<open>.secrets.toml\<close>, the process environment,
  \<open>pyotp.TOTP(s).now()\<close> (\<open>None\<close> when it raises \<open>binascii.Error\<close> or \<open>ValueError\<close>),
  the SDK (a call on the client made from a token, or on its feed, returns a value or
  raises an \<open>Exception\<close>, \<open>Inl\<close> of its message; the first argument is the token the
  client was made from), \<open>hasattr\<close> and \<open>callable\<close> on the client, \<open>json.loads\<close>
  (\<open>Inl\<close>: the text \<open>{e.msg} at pos {e.pos}\<close> of its \<open>JSONDecodeError\<close>), the regular
  expression engine behind pandas' \<open>str.contains\<close> (compiling a pattern gives the
  predicate "the pattern is found in this text", or raises), \<open>str.upper()\<close> and
  \<open>str.lower()\<close> (Unicode case mappings), \<open>str\<close> on a value that is
  not a string, the text \<open>_print_response\<close> prints for a value (\<open>json.dumps\<close> with
  indent 2, or \<open>str\<close> when that raises \<open>TypeError\<close>), and the local-time text of a
  timestamp.
\<close>

record 'f world =
  cfg :: "string \<Rightarrow> string option"
  env :: "string \<Rightarrow> string option"
  pyotp_now :: "string \<Rightarrow> string option"
  get_access_token :: "creds \<Rightarrow> string + 'f pyval"
  new_client :: "'f pyval \<Rightarrow> string option"
  sdk_call :: "'f pyval \<Rightarrow> string \<Rightarrow> 'f pyval list \<Rightarrow> (string \<times> 'f pyval) list \<Rightarrow> string + 'f pyval"
  new_feed :: "string \<Rightarrow> string option"
  feed_call :: "string \<Rightarrow> string \<Rightarrow> 'f pyval list \<Rightarrow> string + 'f pyval"
  get_all_instruments :: "'f pyval \<Rightarrow> string + frame"
  has_attr :: "string \<Rightarrow> bool"
  is_callable :: "string \<Rightarrow> bool"
  json_loads :: "string \<Rightarrow> string + 'f pyval"
  re_compile :: "string \<Rightarrow> string + (string \<Rightarrow> bool)"
  py_upper :: "string \<Rightarrow> string"
  py_lower :: "string \<Rightarrow> string"
  py_repr :: "'f pyval \<Rightarrow> string"
  response_text :: "'f pyval \<Rightarrow> string"
  strftime_local :: "'f \<Rightarrow> string option"
  fops :: "'f float_ops"

text \<open>An SDK answer as a program: the value, or the exception with the given message.\<close>

definition sdk_result :: "string + 'a \<Rightarrow> ('f, 'a) prog" where
  "sdk_result r = (case r of Inl m \<Rightarrow> raise (OtherError m) | Inr x \<Rightarrow> ret x)"

definition sdk_get_access_token :: "'f world \<Rightarrow> creds \<Rightarrow> ('f, 'f pyval) prog" where
  "sdk_get_access_token w c =
     seq (emit (Sdk_get_access_token c)) (sdk_result (get_access_token w c))"

definition GrowwAPI :: "'f world \<Rightarrow> 'f pyval \<Rightarrow> ('f, unit) prog" where
  "GrowwAPI w token = seq (emit (Sdk_client token))
     (case new_client w token of Some m \<Rightarrow> raise (OtherError m) | None \<Rightarrow> ret ())"

section \<open>Truthiness, \<open>or\<close>, \<open>dict.get\<close>, \<open>str\<close>\<close>

fun truthy :: "'f float_ops \<Rightarrow> 'f pyval \<Rightarrow> bool" where
  "truthy ops PNone = False"
| "truthy ops (PBool b) = b"
| "truthy ops (PInt i) = (i \<noteq> 0)"
| "truthy ops (PFloat x) = (\<not> fzero ops x)"
| "truthy ops (PStr s) = (s \<noteq> [])"
| "truthy ops (PList xs) = (xs \<noteq> [])"
| "truthy ops (PTuple xs) = (xs \<noteq> [])"
| "truthy ops (PDict kvs) = (kvs \<noteq> [])"

definition py_or :: "'f float_ops \<Rightarrow> 'f pyval \<Rightarrow> 'f pyval \<Rightarrow> 'f pyval" where
  "py_or ops a b = (if truthy ops a then a else b)"

definition dict_get :: "(string \<times> 'f pyval) list \<Rightarrow> string \<Rightarrow> 'f pyval" where
  "dict_get d k = (case map_of d k of Some v \<Rightarrow> v | None \<Rightarrow> PNone)"

definition py_str :: "'f world \<Rightarrow> 'f pyval \<Rightarrow> string" where
  "py_str w v = (case v of PStr s \<Rightarrow> s | _ \<Rightarrow> py_repr w v)"

text \<open>Truthiness of an optional string: \<open>None\<close> and the empty string are false.\<close>

fun truthy_str :: "string option \<Rightarrow> bool" where
  "truthy_str None = False"
| "truthy_str (Some s) = (s \<noteq> [])"

section \<open>The CLI authenticator (\<open>groww_auth.py\<close>)\<close>

definition redact :: "string \<Rightarrow> string" where
  "redact v = (if length v \<le> 6 + 4 then ''***''
               else take 6 v @ ''...'' @ drop (length v - 4) v)"

text \<open>
  \<open>_normalize_access_token\<close>: a string is returned as it is; in a dict the first truthy
  of four keys is taken if it is a string that is not blank; everything else is
  \<open>str(value).strip()\<close>.
\<close>

definition token_candidate :: "'f float_ops \<Rightarrow> (string \<times> 'f pyval) list \<Rightarrow> 'f pyval" where
  "token_candidate ops d =
     py_or ops (py_or ops (py_or ops (dict_get d ''access_token'') (dict_get d ''token''))
                          (dict_get d ''accessToken''))
               (dict_get d ''jwt'')"

definition normalize_access_token :: "'f world \<Rightarrow> 'f pyval \<Rightarrow> string" where
  "normalize_access_token w v = (case v of
       PStr s \<Rightarrow> s
     | PDict d \<Rightarrow> (case token_candidate (fops w) d of
           PStr c \<Rightarrow> if strip c \<noteq> [] then strip c else strip (py_str w v)
         | _ \<Rightarrow> strip (py_str w v))
     | _ \<Rightarrow> strip (py_str w v))"

definition auth_invalid_totp_secret :: string where
  "auth_invalid_totp_secret =
     ''Invalid `totp_secret`: it must be the Base32 TOTP secret from the QR setup. '' @
     ''If you don't have that, remove/blank `totp_secret` and pass a 6-digit OTP using --totp.''"

text \<open>\<open>_totp_now_from_secret\<close> of \<open>groww_auth.py\<close> and \<open>groww_smoketest.py\<close>.\<close>

definition auth_totp_now_from_secret :: "'f world \<Rightarrow> string \<Rightarrow> exc + string" where
  "auth_totp_now_from_secret w totp_secret = (case pyotp_now w totp_secret of
       Some code \<Rightarrow> Inr code
     | None \<Rightarrow> Inl (ValueError auth_invalid_totp_secret))"

record auth_args =
  flow_arg :: flow
  totp_arg :: "string option"
  totp_token_arg :: "string option"
  print_token :: bool
  save_token :: bool

definition note_api_key :: string where
  "note_api_key = ''Note: using `api_key` from .secrets.toml as `totp_token` (rename it to `totp_token` to remove this message).''"

definition note_secret :: string where
  "note_secret = ''Note: using `secret` from .secrets.toml as `totp_secret` (rename it to `totp_secret` to remove this message).''"

definition note_fallback :: string where
  "note_fallback = ''Note: `totp_secret` looks invalid; falling back to approval flow. '' @
     ''Fix `totp_secret` (Base32 from QR) or run with --flow totp --totp <6-digit>.''"

definition note_totp_cfg :: string where
  "note_totp_cfg = ''Note: using `totp` from .secrets.toml; it expires quickly, prefer `totp_secret` or --totp.''"

text \<open>
  Lines 121 to 166 of \<open>main\<close>, entered when \<open>use_totp\<close> holds. The value is the token
  object of the TOTP call, or \<open>None\<close> when \<open>use_totp\<close> was switched off on the way.
  The two exit messages are parameters, since the smoke test runs the same steps with
  other texts.
\<close>

definition totp_steps ::
  "'f world \<Rightarrow> string \<Rightarrow> string \<Rightarrow> flow \<Rightarrow> string option \<Rightarrow> string option \<Rightarrow> string option \<Rightarrow>
   string option \<Rightarrow> string option \<Rightarrow> string option \<Rightarrow> ('f, 'f pyval option) prog" where
  "totp_steps w missing_token missing_totp fl legacy_api_key legacy_secret totp_token0 totp0
      totp_secret0 totp_from_cfg =
   bind (if \<not> truthy_str totp_token0 \<and> truthy_str legacy_api_key
         then seq (emit (Print note_api_key)) (ret legacy_api_key)
         else ret totp_token0) (\<lambda>totp_token.
   case totp_token of
     None \<Rightarrow> raise (SystemExit missing_token)
   | Some tok \<Rightarrow>
     if tok = [] then raise (SystemExit missing_token) else
     bind (if \<not> truthy_str totp0 \<and> \<not> truthy_str totp_secret0 \<and> truthy_str legacy_secret
           then seq (emit (Print note_secret)) (ret legacy_secret)
           else ret totp_secret0) (\<lambda>totp_secret.
     bind (case totp_secret of
             None \<Rightarrow> ret (True, totp0)
           | Some sec \<Rightarrow>
             if \<not> truthy_str totp0 \<and> sec \<noteq> []
             then (case auth_totp_now_from_secret w sec of
                     Inr code \<Rightarrow> ret (True, Some code)
                   | Inl e \<Rightarrow>
                       if fl = Auto then seq (emit (Print note_fallback)) (ret (False, totp0))
                       else raise (SystemExit (exc_message e)))
             else ret (True, totp0)) (\<lambda>(use_totp, totp1).
     bind (if use_totp \<and> \<not> truthy_str totp1 \<and> truthy_str totp_from_cfg
           then seq (emit (Print note_totp_cfg)) (ret totp_from_cfg)
           else ret totp1) (\<lambda>totp.
     if use_totp then
       (case totp of
          None \<Rightarrow> raise (SystemExit missing_totp)
        | Some code \<Rightarrow>
            if code = [] then raise (SystemExit missing_totp)
            else bind (sdk_get_access_token w (Totp tok code)) (\<lambda>obj. ret (Some obj)))
     else ret None))))"

definition auth_missing_totp_token :: string where
  "auth_missing_totp_token = ''Missing totp_token. Put it in .secrets.toml or set GROWW_TOTP_TOKEN.''"

definition auth_missing_totp :: string where
  "auth_missing_totp = ''Missing totp/totp_secret. Put `totp_secret` in .secrets.toml (recommended) '' @
     ''or set GROWW_TOTP_SECRET, or paste a one-time `totp` / set GROWW_TOTP.''"

definition auth_missing_approval_api_key :: string where
  "auth_missing_approval_api_key =
     ''Missing approval_api_key. Put it in .secrets.toml (recommended) or set GROWW_APPROVAL_API_KEY.''"

definition auth_missing_approval_secret :: string where
  "auth_missing_approval_secret =
     ''Missing approval_secret. Put it in .secrets.toml (recommended) or set GROWW_APPROVAL_SECRET.''"

definition auth_empty_token :: string where
  "auth_empty_token =
     ''Got an empty access token back from the API; double-check your credentials and approvals.''"

text \<open>Lines 168 to 179: the approval flow.\<close>

definition auth_approval_steps ::
  "'f world \<Rightarrow> string option \<Rightarrow> string option \<Rightarrow> ('f, 'f pyval) prog" where
  "auth_approval_steps w approval_api_key approval_secret =
     (case approval_api_key of
        None \<Rightarrow> raise (SystemExit auth_missing_approval_api_key)
      | Some k \<Rightarrow>
        if k = [] then raise (SystemExit auth_missing_approval_api_key) else
        (case approval_secret of
           None \<Rightarrow> raise (SystemExit auth_missing_approval_secret)
         | Some s \<Rightarrow>
           if s = [] then raise (SystemExit auth_missing_approval_secret)
           else sdk_get_access_token w (Approval k s)))"

text \<open>Lines 181 to 200: normalise, check, build the client, save and print.\<close>

definition auth_finish :: "'f world \<Rightarrow> auth_args \<Rightarrow> 'f pyval \<Rightarrow> ('f, int) prog" where
  "auth_finish w args access_token_obj =
     (let access_token = normalize_access_token w access_token_obj in
      if access_token = [] then raise (SystemExit auth_empty_token) else
      seq (GrowwAPI w (PStr access_token))
     (seq (if save_token args
           then emit (Write_file ''.access_token'' (strip access_token @ [CHR 0x0A]))
           else ret ())
     (seq (if print_token args then emit (Print access_token)
           else emit (Print (''Access token: '' @ redact access_token)))
          (ret 0))))"

record resolved =
  legacy_api_key :: "string option"
  legacy_secret :: "string option"
  approval_api_key :: "string option"
  approval_secret :: "string option"
  totp_token :: "string option"
  totp_from_env :: "string option"
  totp_from_cfg :: "string option"
  totp :: "string option"
  totp_secret :: "string option"

text \<open>Lines 95 to 115 of \<open>main\<close>: what each variable holds before the flow is chosen.\<close>

definition auth_resolve :: "'f world \<Rightarrow> auth_args \<Rightarrow> resolved" where
  "auth_resolve w args =
     (let legacy_api_key = first [cfg w ''api_key'', env w ''GROWW_API_KEY''];
          legacy_secret = first [cfg w ''secret'', env w ''GROWW_API_SECRET''];
          totp_from_env = first [env w ''GROWW_TOTP'']
      in \<lparr> legacy_api_key = legacy_api_key,
           legacy_secret = legacy_secret,
           approval_api_key = first [cfg w ''approval_api_key'', legacy_api_key,
                                     env w ''GROWW_APPROVAL_API_KEY''],
           approval_secret = first [cfg w ''approval_secret'', legacy_secret,
                                    env w ''GROWW_APPROVAL_SECRET''],
           totp_token = first [totp_token_arg args, cfg w ''totp_token'', env w ''GROWW_TOTP_TOKEN''],
           totp_from_env = totp_from_env,
           totp_from_cfg = first [cfg w ''totp''],
           totp = first [totp_arg args, totp_from_env],
           totp_secret = first [cfg w ''totp_secret'', env w ''GROWW_TOTP_SECRET''] \<rparr>)"

definition use_totp_initially :: "flow \<Rightarrow> resolved \<Rightarrow> bool" where
  "use_totp_initially fl r =
     (fl = Totp_flow \<or>
      (fl = Auto \<and> truthy_str (totp_token r) \<and> (truthy_str (totp r) \<or> truthy_str (totp_secret r))))"

definition auth_main :: "'f world \<Rightarrow> auth_args \<Rightarrow> ('f, int) prog" where
  "auth_main w args =
     (let r = auth_resolve w args in
      bind (if use_totp_initially (flow_arg args) r
            then totp_steps w auth_missing_totp_token auth_missing_totp (flow_arg args)
                   (legacy_api_key r) (legacy_secret r) (totp_token r) (totp r) (totp_secret r)
                   (totp_from_cfg r)
            else ret None) (\<lambda>from_totp.
      bind (case from_totp of
              Some obj \<Rightarrow> ret obj
            | None \<Rightarrow> auth_approval_steps w (approval_api_key r) (approval_secret r))
           (auth_finish w args)))"

section \<open>The smoke test (\<open>groww_smoketest.py\<close>)\<close>

text \<open>
  \<open>_normalize_token\<close> of \<open>groww_gradio.py\<close>, which is also what the last lines of the smoke
  test's \<open>_get_access_token\<close> compute: as \<open>_normalize_access_token\<close>, but a string is
  stripped.
\<close>

definition normalize_token :: "'f world \<Rightarrow> 'f pyval \<Rightarrow> string" where
  "normalize_token w v = (case v of
       PStr s \<Rightarrow> strip s
     | PDict d \<Rightarrow> (case token_candidate (fops w) d of
           PStr c \<Rightarrow> if strip c \<noteq> [] then strip c else strip (py_str w v)
         | _ \<Rightarrow> strip (py_str w v))
     | _ \<Rightarrow> strip (py_str w v))"

definition smoke_missing_totp_token :: string where
  "smoke_missing_totp_token = ''Missing totp_token. Add it to .secrets.toml or set GROWW_TOTP_TOKEN.''"

definition smoke_missing_totp :: string where
  "smoke_missing_totp =
     ''Missing totp/totp_secret. Add totp_secret to .secrets.toml, or pass --totp, or set GROWW_TOTP.''"

definition smoke_missing_approval :: string where
  "smoke_missing_approval =
     ''Missing approval credentials. Add approval_api_key + approval_secret to .secrets.toml '' @
     ''(or api_key + secret), or set GROWW_APPROVAL_API_KEY/GROWW_APPROVAL_SECRET.''"

text \<open>Lines 55 to 73: as in the authenticator, but there is no \<open>--totp-token\<close> argument here.\<close>

definition smoke_resolve :: "'f world \<Rightarrow> string option \<Rightarrow> resolved" where
  "smoke_resolve w totp_override =
     (let legacy_api_key = first [cfg w ''api_key'', env w ''GROWW_API_KEY''];
          legacy_secret = first [cfg w ''secret'', env w ''GROWW_API_SECRET''];
          totp_from_env = first [env w ''GROWW_TOTP'']
      in \<lparr> legacy_api_key = legacy_api_key,
           legacy_secret = legacy_secret,
           approval_api_key = first [cfg w ''approval_api_key'', legacy_api_key,
                                     env w ''GROWW_APPROVAL_API_KEY''],
           approval_secret = first [cfg w ''approval_secret'', legacy_secret,
                                    env w ''GROWW_APPROVAL_SECRET''],
           totp_token = first [cfg w ''totp_token'', env w ''GROWW_TOTP_TOKEN''],
           totp_from_env = totp_from_env,
           totp_from_cfg = first [cfg w ''totp''],
           totp = first [totp_override, totp_from_env],
           totp_secret = first [cfg w ''totp_secret'', env w ''GROWW_TOTP_SECRET''] \<rparr>)"

definition smoke_approval_steps ::
  "'f world \<Rightarrow> string option \<Rightarrow> string option \<Rightarrow> ('f, 'f pyval) prog" where
  "smoke_approval_steps w api_key secret =
     (case api_key of
        None \<Rightarrow> raise (SystemExit smoke_missing_approval)
      | Some k \<Rightarrow>
        (case secret of
           None \<Rightarrow> raise (SystemExit smoke_missing_approval)
         | Some s \<Rightarrow>
           if k = [] \<or> s = [] then raise (SystemExit smoke_missing_approval)
           else sdk_get_access_token w (Approval k s)))"

text \<open>
  \<open>_get_access_token(flow, totp_override)\<close>. Lines 76 to 116 are the steps of the
  authenticator with other exit texts.
\<close>

definition smoke_get_access_token :: "'f world \<Rightarrow> flow \<Rightarrow> string option \<Rightarrow> ('f, string) prog" where
  "smoke_get_access_token w fl totp_override =
     (let r = smoke_resolve w totp_override in
      bind (if use_totp_initially fl r
            then totp_steps w smoke_missing_totp_token smoke_missing_totp fl
                   (legacy_api_key r) (legacy_secret r) (totp_token r) (totp r) (totp_secret r)
                   (totp_from_cfg r)
            else ret None) (\<lambda>from_totp.
      bind (case from_totp of
              Some obj \<Rightarrow> ret obj
            | None \<Rightarrow> smoke_approval_steps w (approval_api_key r) (approval_secret r))
           (\<lambda>token_obj. ret (normalize_token w token_obj))))"

section \<open>The interactive CLI (\<open>groww_cli.py\<close>)\<close>

record cli_args =
  cli_flow :: flow
  cli_approval_api_key :: "string option"
  cli_approval_secret :: "string option"
  cli_totp_token :: "string option"
  cli_totp :: "string option"
  cli_args_json :: "string option"
  cli_kwargs_json :: "string option"

definition cli_invalid_totp_secret :: string where
  "cli_invalid_totp_secret =
     ''Invalid TOTP secret: it must be Base32 from the QR setup. '' @
     ''If you don't have it, paste the 6-digit OTP when prompted.''"

text \<open>\<open>_totp_now_from_secret\<close> of the CLI exits instead of raising \<open>ValueError\<close>.\<close>

definition cli_totp_now_from_secret :: "'f world \<Rightarrow> string \<Rightarrow> exc + string" where
  "cli_totp_now_from_secret w secret = (case pyotp_now w secret of
       Some code \<Rightarrow> Inr code
     | None \<Rightarrow> Inl (SystemExit cli_invalid_totp_secret))"

definition choose_prompt :: string where
  "choose_prompt = ''Choose flow: [1] approval (api_key+secret), [2] totp: ''"

text \<open>
  The \<open>while True\<close> loop of \<open>_choose_flow\<close>, by recursion on the lines of input that are
  left: each round reads one line; when the input is exhausted \<open>input\<close> raises.
\<close>

fun choose_loop :: "string list \<Rightarrow> 'f event list \<times> string list \<times> (exc + flow)" where
  "choose_loop [] = ([Input choose_prompt], [], Inl (EOFError ''EOF when reading a line''))"
| "choose_loop (l # ls) =
     (let choice = strip l in
      if choice = ''1'' \<or> choice = ''approval'' then ([Input choose_prompt], ls, Inr Approval_flow)
      else if choice = ''2'' \<or> choice = ''totp'' then ([Input choose_prompt], ls, Inr Totp_flow)
      else (case choose_loop ls of
              (es, rest, r) \<Rightarrow> (Input choose_prompt # Print ''Please enter 1 or 2.'' # es, rest, r)))"

definition choose_flow :: "bool \<Rightarrow> bool \<Rightarrow> ('f, flow) prog" where
  "choose_flow available_approval available_totp =
     (if available_approval then ret Approval_flow
      else if available_totp then ret Totp_flow
      else (\<lambda>s. case choose_loop (stdin s) of (es, rest, r) \<Rightarrow> (es, s\<lparr>stdin := rest\<rparr>, r)))"

text \<open>\<open>if not v: v = getpass(prompt)\<close>.\<close>

definition or_getpass :: "string option \<Rightarrow> string \<Rightarrow> ('f, string) prog" where
  "or_getpass v prompt = (case v of
       None \<Rightarrow> getpass prompt
     | Some x \<Rightarrow> if x = [] then getpass prompt else ret x)"

record cli_resolved =
  r_approval_api_key :: "string option"
  r_approval_secret :: "string option"
  r_totp_token :: "string option"
  r_totp_secret :: "string option"
  r_totp :: "string option"

text \<open>Lines 206 to 227 of \<open>_get_access_token\<close>.\<close>

definition cli_resolve :: "'f world \<Rightarrow> cli_args \<Rightarrow> cli_resolved" where
  "cli_resolve w args =
     \<lparr> r_approval_api_key = first [cli_approval_api_key args, cfg w ''approval_api_key'',
          cfg w ''api_key'', env w ''GROWW_APPROVAL_API_KEY'', env w ''GROWW_API_KEY''],
       r_approval_secret = first [cli_approval_secret args, cfg w ''approval_secret'',
          cfg w ''secret'', env w ''GROWW_APPROVAL_SECRET'', env w ''GROWW_API_SECRET''],
       r_totp_token = first [cli_totp_token args, cfg w ''totp_token'', env w ''GROWW_TOTP_TOKEN''],
       r_totp_secret = first [cfg w ''totp_secret'', env w ''GROWW_TOTP_SECRET''],
       r_totp = first [cli_totp args, env w ''GROWW_TOTP''] \<rparr>"

text \<open>Lines 229 to 251. The value is what \<open>GrowwAPI.get_access_token\<close> returned.\<close>

definition cli_get_access_token :: "'f world \<Rightarrow> cli_args \<Rightarrow> ('f, 'f pyval) prog" where
  "cli_get_access_token w args =
     (let r = cli_resolve w args;
          available_approval = (truthy_str (r_approval_api_key r) \<and> truthy_str (r_approval_secret r));
          available_totp = (truthy_str (r_totp_token r) \<and>
                            (truthy_str (r_totp r) \<or> truthy_str (r_totp_secret r)))
      in bind (if cli_flow args = Auto then choose_flow available_approval available_totp
               else ret (cli_flow args)) (\<lambda>fl.
         if fl = Approval_flow then
           bind (or_getpass (r_approval_api_key r) ''approval api_key: '') (\<lambda>k.
           bind (or_getpass (r_approval_secret r) ''approval secret: '') (\<lambda>sec.
           sdk_get_access_token w (Approval k sec)))
         else
           bind (or_getpass (r_totp_token r) ''totp_token (TOTP API key): '') (\<lambda>tok.
           bind (if \<not> truthy_str (r_totp r) \<and> truthy_str (r_totp_secret r)
                 then (case r_totp_secret r of
                         Some sec \<Rightarrow> bind (lift (cli_totp_now_from_secret w sec)) (\<lambda>code. ret (Some code))
                       | None \<Rightarrow> ret (r_totp r))
                 else ret (r_totp r)) (\<lambda>totp1.
           bind (or_getpass totp1 ''current 6-digit OTP: '') (\<lambda>code.
           sdk_get_access_token w (Totp tok code))))))"

text \<open>The set literal \<open>trading_methods\<close> of \<open>_confirm_if_trading\<close>.\<close>

definition trading_methods :: "string list" where
  "trading_methods = [''place_order'', ''modify_order'', ''cancel_order'',
     ''create_smart_order'', ''modify_smart_order'', ''cancel_smart_order'']"

definition confirm_prompt :: string where
  "confirm_prompt = ''Trading action requested. Type PLACE to continue: ''"

definition confirm_if_trading :: "string \<Rightarrow> ('f, unit) prog" where
  "confirm_if_trading method_name =
     (if method_name \<in> set trading_methods
      then bind (input_line confirm_prompt) (\<lambda>line.
             if strip line \<noteq> ''PLACE'' then raise (SystemExit ''Aborted.'') else ret ())
      else ret ())"

text \<open>\<open>_parse_json(value, default=...)\<close> of the CLI: an invalid text ends the program.\<close>

definition cli_parse_json :: "'f world \<Rightarrow> string option \<Rightarrow> 'f pyval \<Rightarrow> exc + 'f pyval" where
  "cli_parse_json w v dflt = (case v of
       None \<Rightarrow> Inr dflt
     | Some t \<Rightarrow> if t = [] then Inr dflt
                 else (case json_loads w t of
                         Inl m \<Rightarrow> Inl (SystemExit (''Invalid JSON: '' @ m))
                       | Inr x \<Rightarrow> Inr x))"

definition sdk_method ::
  "'f world \<Rightarrow> 'f pyval \<Rightarrow> string \<Rightarrow> 'f pyval list \<Rightarrow> (string \<times> 'f pyval) list \<Rightarrow> ('f, 'f pyval) prog" where
  "sdk_method w token name args kwargs =
     seq (emit (Sdk_method name args kwargs)) (sdk_result (sdk_call w token name args kwargs))"

definition print_response :: "'f world \<Rightarrow> 'f pyval \<Rightarrow> ('f, unit) prog" where
  "print_response w v = emit (Print (response_text w v))"

text \<open>
  Lines 331 to 350 of \<open>main\<close>, for a client made from \<open>token\<close>: the branch
  \<open>if args.call:\<close>, taken when \<open>--call\<close> was given a text that is not empty. Otherwise
  \<open>main\<close> goes on to its menu loop, which is the parameter \<open>menu\<close> here.
\<close>

definition cli_call ::
  "'f world \<Rightarrow> 'f pyval \<Rightarrow> cli_args \<Rightarrow> string option \<Rightarrow> ('f, int) prog \<Rightarrow> ('f, int) prog" where
  "cli_call w token args call menu =
     (if \<not> truthy_str call then menu
      else
       (let method_name = strip (the call) in
        if take 1 method_name = ''_'' \<or> \<not> has_attr w method_name
        then raise (SystemExit (''Unknown method: '' @ method_name))
        else if \<not> is_callable w method_name
        then raise (SystemExit (''Attribute is not callable: '' @ method_name))
        else
          seq (confirm_if_trading method_name)
         (bind (lift (cli_parse_json w (cli_args_json args) (PList []))) (\<lambda>call_args.
          bind (lift (cli_parse_json w (cli_kwargs_json args) (PDict []))) (\<lambda>call_kwargs.
          case call_args of
            PList xs \<Rightarrow>
              (case call_kwargs of
                 PDict kws \<Rightarrow>
                   bind (sdk_method w token method_name xs kws) (\<lambda>result.
                   seq (print_response w result) (ret 0))
               | _ \<Rightarrow> raise (SystemExit ''--kwargs must be a JSON object''))
          | _ \<Rightarrow> raise (SystemExit ''--args must be a JSON array''))))))"

section \<open>Reshaping data (\<open>groww_gradio.py\<close>)\<close>

subsection \<open>\<open>_prune_nulls\<close>\<close>

text \<open>\<open>d[k] = v\<close> on a dict in insertion order: replace in place, or append a new key.\<close>

fun dict_set :: "(string \<times> 'v) list \<Rightarrow> string \<Rightarrow> 'v \<Rightarrow> (string \<times> 'v) list" where
  "dict_set [] k v = [(k, v)]"
| "dict_set ((k', v') # d) k v = (if k' = k then (k, v) # d else (k', v') # dict_set d k v)"

text \<open>
  \<open>prune_items\<close> is the \<open>for key, item in value.items()\<close> loop with its accumulator
  \<open>cleaned\<close>; \<open>prune_list\<close> is the list comprehension. Tuples and scalars are returned
  as they are.
\<close>

fun prune_nulls :: "'f pyval \<Rightarrow> 'f pyval"
  and prune_list :: "'f pyval list \<Rightarrow> 'f pyval list"
  and prune_items :: "(string \<times> 'f pyval) list \<Rightarrow> (string \<times> 'f pyval) list \<Rightarrow> (string \<times> 'f pyval) list"
where
  "prune_nulls (PDict kvs) = PDict (prune_items kvs [])"
| "prune_nulls (PList xs) = PList (prune_list xs)"
| "prune_nulls PNone = PNone"
| "prune_nulls (PBool b) = PBool b"
| "prune_nulls (PInt i) = PInt i"
| "prune_nulls (PFloat x) = PFloat x"
| "prune_nulls (PStr s) = PStr s"
| "prune_nulls (PTuple xs) = PTuple xs"
| "prune_list [] = []"
| "prune_list (x # xs) = (if x = PNone then prune_list xs else prune_nulls x # prune_list xs)"
| "prune_items [] cleaned = cleaned"
| "prune_items ((key, item) # kvs) cleaned =
     (if item = PNone then prune_items kvs cleaned
      else prune_items kvs (dict_set cleaned key (prune_nulls item)))"

subsection \<open>\<open>float(value)\<close>\<close>

text \<open>
  \<open>float\<close> on a value: a float, or \<open>TypeError\<close>/\<open>ValueError\<close> (which the callers
  catch), or \<open>OverflowError\<close> for an integer beyond the float range (which they do not).
\<close>

datatype 'f conv = Conv 'f | Conv_error | Conv_overflow

fun py_float :: "'f float_ops \<Rightarrow> 'f pyval \<Rightarrow> 'f conv" where
  "py_float ops PNone = Conv_error"
| "py_float ops (PBool b) =
     (case float_of_int ops (if b then 1 else 0) of Some x \<Rightarrow> Conv x | None \<Rightarrow> Conv_overflow)"
| "py_float ops (PInt i) =
     (case float_of_int ops i of Some x \<Rightarrow> Conv x | None \<Rightarrow> Conv_overflow)"
| "py_float ops (PFloat x) = Conv x"
| "py_float ops (PStr s) =
     (case float_of_str ops s of Some x \<Rightarrow> Conv x | None \<Rightarrow> Conv_error)"
| "py_float ops (PList xs) = Conv_error"
| "py_float ops (PTuple xs) = Conv_error"
| "py_float ops (PDict kvs) = Conv_error"

definition overflow_error :: exc where
  "overflow_error = OtherError ''int too large to convert to float''"

subsection \<open>\<open>_extract_candles\<close>, \<open>_format_ts\<close>, \<open>_candles_to_rows\<close>\<close>

fun is_list :: "'f pyval \<Rightarrow> bool" where
  "is_list (PList xs) = True"
| "is_list v = False"

definition candle_keys :: "string list" where
  "candle_keys = [''candles'', ''data'', ''candle_data'', ''historical_data'', ''result'']"

definition extract_candles :: "'f pyval \<Rightarrow> 'f pyval list" where
  "extract_candles data = (case data of
       PDict d \<Rightarrow> (case find is_list (map (dict_get d) candle_keys) of
                     Some (PList xs) \<Rightarrow> xs
                   | _ \<Rightarrow> [])
     | PList xs \<Rightarrow> xs
     | _ \<Rightarrow> [])"

text \<open>
  The clock side of \<open>_format_ts\<close> is a parameter of the world: \<open>strftime_local w ts\<close> is the text of
  \<open>datetime.fromtimestamp(ts).strftime("%Y-%m-%d %H:%M:%S")\<close> after the millisecond
  heuristic, or \<open>None\<close> when \<open>fromtimestamp\<close> raises one of the three exceptions caught.
\<close>

definition format_ts :: "'f world \<Rightarrow> 'f pyval \<Rightarrow> exc + 'f pyval" where
  "format_ts w v =
     (if v = PNone then Inr PNone
      else (case py_float (fops w) v of
              Conv_error \<Rightarrow> Inr (PStr (py_str w v))
            | Conv_overflow \<Rightarrow> Inl overflow_error
            | Conv ts \<Rightarrow> (case strftime_local w ts of
                             Some t \<Rightarrow> Inr (PStr t)
                           | None \<Rightarrow> Inr (PStr (py_str w v)))))"

text \<open>\<open>candle[i] if len(candle) > i else None\<close>.\<close>

definition at_or_none :: "'f pyval list \<Rightarrow> nat \<Rightarrow> 'f pyval" where
  "at_or_none xs i = (if i < length xs then xs ! i else PNone)"

definition dict_row :: "'f float_ops \<Rightarrow> (string \<times> 'f pyval) list \<Rightarrow> 'f pyval \<Rightarrow> 'f pyval" where
  "dict_row ops c ts = PDict
     [(''timestamp'', ts),
      (''open'', py_or ops (dict_get c ''open'') (dict_get c ''o'')),
      (''high'', py_or ops (dict_get c ''high'') (dict_get c ''h'')),
      (''low'', py_or ops (dict_get c ''low'') (dict_get c ''l'')),
      (''close'', py_or ops (dict_get c ''close'') (dict_get c ''c'')),
      (''volume'', py_or ops (dict_get c ''volume'') (dict_get c ''v''))]"

definition seq_row :: "'f pyval list \<Rightarrow> 'f pyval \<Rightarrow> 'f pyval" where
  "seq_row c ts = PDict
     [(''timestamp'', ts),
      (''open'', at_or_none c 1),
      (''high'', at_or_none c 2),
      (''low'', at_or_none c 3),
      (''close'', at_or_none c 4),
      (''volume'', at_or_none c 5)]"

definition dict_timestamp :: "'f float_ops \<Rightarrow> (string \<times> 'f pyval) list \<Rightarrow> 'f pyval" where
  "dict_timestamp ops c =
     py_or ops (py_or ops (py_or ops (dict_get c ''timestamp'') (dict_get c ''time''))
                          (dict_get c ''t''))
               (dict_get c ''date'')"

text \<open>One round of the loop: the row for a candle, \<open>None\<close> for a candle that is skipped.\<close>

definition candle_row ::
  "'f world \<Rightarrow> 'f pyval \<Rightarrow> exc + 'f pyval option" where
  "candle_row w candle = (case candle of
       PDict c \<Rightarrow> (case format_ts w (dict_timestamp (fops w) c) of
                     Inl e \<Rightarrow> Inl e
                   | Inr ts \<Rightarrow> Inr (Some (dict_row (fops w) c ts)))
     | PList c \<Rightarrow> (case format_ts w (at_or_none c 0) of
                     Inl e \<Rightarrow> Inl e
                   | Inr ts \<Rightarrow> Inr (Some (seq_row c ts)))
     | PTuple c \<Rightarrow> (case format_ts w (at_or_none c 0) of
                      Inl e \<Rightarrow> Inl e
                    | Inr ts \<Rightarrow> Inr (Some (seq_row c ts)))
     | _ \<Rightarrow> Inr None)"

fun rows_loop ::
  "'f world \<Rightarrow> 'f pyval list \<Rightarrow> exc + 'f pyval list" where
  "rows_loop w [] = Inr []"
| "rows_loop w (candle # cs) =
     (case candle_row w candle of
        Inl e \<Rightarrow> Inl e
      | Inr None \<Rightarrow> rows_loop w cs
      | Inr (Some row) \<Rightarrow> (case rows_loop w cs of
                             Inl e \<Rightarrow> Inl e
                           | Inr rows \<Rightarrow> Inr (row # rows)))"

definition candles_to_rows ::
  "'f world \<Rightarrow> 'f pyval \<Rightarrow> exc + 'f pyval list" where
  "candles_to_rows w data = rows_loop w (extract_candles data)"

subsection \<open>\<open>_parse_candle_close\<close> and the arithmetic of \<open>backtest_simple\<close>\<close>

definition to_close :: "'f float_ops \<Rightarrow> 'f pyval \<Rightarrow> exc + 'f option" where
  "to_close ops v = (case py_float ops v of
       Conv x \<Rightarrow> Inr (Some x)
     | Conv_error \<Rightarrow> Inr None
     | Conv_overflow \<Rightarrow> Inl overflow_error)"

definition parse_candle_close :: "'f float_ops \<Rightarrow> 'f pyval \<Rightarrow> exc + 'f option" where
  "parse_candle_close ops candle = (case candle of
       PDict d \<Rightarrow> (case map_of d ''close'' of
                     Some v \<Rightarrow> to_close ops v
                   | None \<Rightarrow> (case map_of d ''c'' of
                                Some v \<Rightarrow> to_close ops v
                              | None \<Rightarrow> Inr None))
     | PList xs \<Rightarrow> if 5 \<le> length xs then to_close ops (xs ! 4) else Inr None
     | PTuple xs \<Rightarrow> if 5 \<le> length xs then to_close ops (xs ! 4) else Inr None
     | _ \<Rightarrow> Inr None)"

text \<open>\<open>closes = [c for c in (_parse_candle_close(x) for x in candles) if c is not None]\<close>.\<close>

fun closes_of :: "'f float_ops \<Rightarrow> 'f pyval list \<Rightarrow> exc + 'f list" where
  "closes_of ops [] = Inr []"
| "closes_of ops (x # xs) =
     (case parse_candle_close ops x of
        Inl e \<Rightarrow> Inl e
      | Inr None \<Rightarrow> closes_of ops xs
      | Inr (Some c) \<Rightarrow> (case closes_of ops xs of
                           Inl e \<Rightarrow> Inl e
                         | Inr cs \<Rightarrow> Inr (c # cs)))"

definition error_dict :: "string \<Rightarrow> 'f pyval" where
  "error_dict m = PDict [(''error'', PStr m)]"

definition not_enough :: string where
  "not_enough = ''Not enough candle data to compute backtest summary.''"

text \<open>Lines 870 to 881: from the fetched data to the summary, an error dict, or an exception.\<close>

definition backtest_summary :: "'f float_ops \<Rightarrow> 'f pyval \<Rightarrow> exc + 'f pyval" where
  "backtest_summary ops data =
     (case closes_of ops (extract_candles data) of
        Inl e \<Rightarrow> Inl e
      | Inr closes \<Rightarrow>
          if length closes < 2 then Inr (error_dict not_enough)
          else (let start_close = hd closes; end_close = last closes in
                if fzero ops start_close then Inl (ZeroDivisionError ''float division by zero'')
                else Inr (PDict
                  [(''count'', PInt (int (length closes))),
                   (''start_close'', PFloat start_close),
                   (''end_close'', PFloat end_close),
                   (''return_pct'',
                      PFloat (fmul ops (fdiv ops (fsub ops end_close start_close) start_close)
                                       (hundred ops)))])))"

section \<open>The web UI (\<open>groww_gradio.py\<close>)\<close>

subsection \<open>\<open>connect\<close>\<close>

definition gradio_invalid_totp_secret :: string where
  "gradio_invalid_totp_secret =
     ''Invalid TOTP secret: it must be Base32 from the QR setup. '' @
     ''If you don't have it, paste the 6-digit OTP manually.''"

definition gradio_totp_now_from_secret :: "'f world \<Rightarrow> string \<Rightarrow> exc + string" where
  "gradio_totp_now_from_secret w secret = (case pyotp_now w secret of
       Some code \<Rightarrow> Inr code
     | None \<Rightarrow> Inl (ValueError gradio_invalid_totp_secret))"

definition get_client :: "'f world \<Rightarrow> string \<Rightarrow> ('f, unit) prog" where
  "get_client w token = GrowwAPI w (PStr token)"

record form =
  form_flow :: flow
  use_secrets :: bool
  form_approval_api_key :: string
  form_approval_secret :: string
  form_totp_token :: string
  form_totp_secret :: string
  form_totp :: string

text \<open>Lines 155 to 165: the form value first, then the secrets file if it is used.\<close>

definition form_cfg :: "'f world \<Rightarrow> form \<Rightarrow> string \<Rightarrow> string option" where
  "form_cfg w f = (if use_secrets f then cfg w else (\<lambda>k. None))"

definition connect_resolve :: "'f world \<Rightarrow> form \<Rightarrow> cli_resolved" where
  "connect_resolve w f =
     \<lparr> r_approval_api_key = first [Some (form_approval_api_key f),
          form_cfg w f ''approval_api_key'', form_cfg w f ''api_key''],
       r_approval_secret = first [Some (form_approval_secret f),
          form_cfg w f ''approval_secret'', form_cfg w f ''secret''],
       r_totp_token = first [Some (form_totp_token f), form_cfg w f ''totp_token''],
       r_totp_secret = first [Some (form_totp_secret f), form_cfg w f ''totp_secret''],
       r_totp = first [Some (form_totp f), form_cfg w f ''totp''] \<rparr>"

definition connected_status :: "string \<Rightarrow> string" where
  "connected_status token =
     ''Connected. Token: '' @
     (if 12 < length token then take 6 token @ ''...'' @ drop (length token - 4) token else ''***'')"

text \<open>Lines 186 to 189.\<close>

definition connect_finish :: "'f world \<Rightarrow> 'f pyval \<Rightarrow> ('f, string \<times> string) prog" where
  "connect_finish w token_obj =
     (let token = normalize_token w token_obj in
      seq (get_client w token) (ret (token, connected_status token)))"

text \<open>The body of the \<open>try\<close>, lines 171 to 189.\<close>

definition connect_body :: "'f world \<Rightarrow> flow \<Rightarrow> cli_resolved \<Rightarrow> ('f, string \<times> string) prog" where
  "connect_body w fl r =
     (if fl = Approval_flow then
        (case (r_approval_api_key r, r_approval_secret r) of
           (Some k, Some s) \<Rightarrow>
             if k = [] \<or> s = [] then ret ([], ''Missing approval api_key/secret.'')
             else bind (sdk_get_access_token w (Approval k s)) (connect_finish w)
         | _ \<Rightarrow> ret ([], ''Missing approval api_key/secret.''))
      else
        (case r_totp_token r of
           None \<Rightarrow> ret ([], ''Missing totp_token.'')
         | Some tok \<Rightarrow>
             if tok = [] then ret ([], ''Missing totp_token.'')
             else if truthy_str (r_totp r) then
               (case r_totp r of
                  Some code \<Rightarrow> bind (sdk_get_access_token w (Totp tok code)) (connect_finish w)
                | None \<Rightarrow> ret ([], ''Missing totp or totp_secret.''))
             else
               (case r_totp_secret r of
                  None \<Rightarrow> ret ([], ''Missing totp or totp_secret.'')
                | Some sec \<Rightarrow>
                    if sec = [] then ret ([], ''Missing totp or totp_secret.'')
                    else bind (lift (gradio_totp_now_from_secret w sec)) (\<lambda>code.
                         bind (sdk_get_access_token w (Totp tok code)) (connect_finish w)))))"

definition connect :: "'f world \<Rightarrow> form \<Rightarrow> ('f, string \<times> string) prog" where
  "connect w f =
     (let r = connect_resolve w f;
          fl = (if form_flow f = Auto
                then (if truthy_str (r_approval_api_key r) \<and> truthy_str (r_approval_secret r)
                      then Approval_flow else Totp_flow)
                else form_flow f)
      in catch (connect_body w fl r) (\<lambda>e. ret ([], ''Auth error: '' @ exc_message e)))"

subsection \<open>The handlers that return JSON\<close>

definition not_connected :: "'f pyval" where
  "not_connected = error_dict ''Not connected''"

text \<open>
  The frame every handler shares:
  \<open>if not token: return {"error": "Not connected"}\<close>, then
  \<open>try: body  except Exception as e: return {"error": str(e)}\<close>.
\<close>

definition handler :: "string \<Rightarrow> ('f, 'f pyval) prog \<Rightarrow> ('f, 'f pyval) prog" where
  "handler token body =
     (if token = [] then ret not_connected
      else catch body (\<lambda>e. ret (error_dict (exc_message e))))"

text \<open>\<open>_get_client(token).name(**kwargs)\<close> and \<open>_get_client(token).name(*args, **kwargs)\<close>.\<close>

definition client_call ::
  "'f world \<Rightarrow> string \<Rightarrow> string \<Rightarrow> 'f pyval list \<Rightarrow> (string \<times> 'f pyval) list \<Rightarrow> ('f, 'f pyval) prog" where
  "client_call w token name args kwargs =
     seq (get_client w token) (sdk_method w (PStr token) name args kwargs)"

definition timeout10 :: "string \<times> 'f pyval" where
  "timeout10 = (''timeout'', PInt 10)"

definition str_or_none :: "string \<Rightarrow> 'f pyval" where
  "str_or_none s = (if s = [] then PNone else PStr s)"

definition int_or :: "int \<Rightarrow> int \<Rightarrow> 'f pyval" where
  "int_or i d = (if i = 0 then PInt d else PInt i)"

definition int_or_none :: "int \<Rightarrow> 'f pyval" where
  "int_or_none i = (if i = 0 then PNone else PInt i)"

fun split_on :: "char \<Rightarrow> string \<Rightarrow> string list" where
  "split_on c [] = [[]]"
| "split_on c (x # xs) =
     (if x = c then [] # split_on c xs
      else (case split_on c xs of
              y # ys \<Rightarrow> (x # y) # ys
            | [] \<Rightarrow> [[x]]))"

definition format_exchange_symbols :: "'f world \<Rightarrow> string \<Rightarrow> string \<Rightarrow> string list" where
  "format_exchange_symbols w symbols exchange =
     map (\<lambda>sym. if CHR '':'' \<in> set sym \<or> CHR ''_'' \<in> set sym then sym else exchange @ ''_'' @ sym)
       (filter (\<lambda>sym. sym \<noteq> [])
          (map (\<lambda>raw. py_upper w (strip raw)) (split_on CHR '','' symbols)))"

definition symbols_tuple :: "'f world \<Rightarrow> string \<Rightarrow> string \<Rightarrow> 'f pyval" where
  "symbols_tuple w symbols exchange = PTuple (map PStr (format_exchange_symbols w symbols exchange))"

definition get_quote :: "'f world \<Rightarrow> string \<Rightarrow> string \<Rightarrow> string \<Rightarrow> string \<Rightarrow> ('f, 'f pyval) prog" where
  "get_quote w token trading_symbol exchange segment =
     handler token (client_call w token ''get_quote'' []
       [(''trading_symbol'', PStr (py_upper w (strip trading_symbol))), (''exchange'', PStr exchange),
        (''segment'', PStr segment), timeout10])"

text \<open>\<open>isinstance(result, dict) and "error" not in result\<close>.\<close>

definition is_success_dict :: "'f pyval \<Rightarrow> bool" where
  "is_success_dict v = (case v of PDict d \<Rightarrow> map_of d ''error'' = None | _ \<Rightarrow> False)"

definition get_quote_clean :: "'f world \<Rightarrow> string \<Rightarrow> string \<Rightarrow> string \<Rightarrow> string \<Rightarrow> ('f, 'f pyval) prog" where
  "get_quote_clean w token trading_symbol exchange segment =
     bind (get_quote w token trading_symbol exchange segment) (\<lambda>result.
       if is_success_dict result then ret (prune_nulls result) else ret result)"

definition get_ltp :: "'f world \<Rightarrow> string \<Rightarrow> string \<Rightarrow> string \<Rightarrow> string \<Rightarrow> ('f, 'f pyval) prog" where
  "get_ltp w token symbols exchange segment =
     handler token (client_call w token ''get_ltp''
       [symbols_tuple w symbols exchange, PStr segment] [timeout10])"

definition get_ohlc :: "'f world \<Rightarrow> string \<Rightarrow> string \<Rightarrow> string \<Rightarrow> string \<Rightarrow> ('f, 'f pyval) prog" where
  "get_ohlc w token symbols exchange segment =
     handler token (client_call w token ''get_ohlc''
       [symbols_tuple w symbols exchange, PStr segment] [timeout10])"

definition get_profile :: "'f world \<Rightarrow> string \<Rightarrow> ('f, 'f pyval) prog" where
  "get_profile w token = handler token (client_call w token ''get_user_profile'' [] [timeout10])"

definition get_holdings :: "'f world \<Rightarrow> string \<Rightarrow> ('f, 'f pyval) prog" where
  "get_holdings w token =
     handler token (client_call w token ''get_holdings_for_user'' [] [timeout10])"

definition get_positions :: "'f world \<Rightarrow> string \<Rightarrow> string \<Rightarrow> ('f, 'f pyval) prog" where
  "get_positions w token segment =
     handler token (client_call w token ''get_positions_for_user'' []
       [(''segment'', str_or_none segment), timeout10])"

definition get_margin :: "'f world \<Rightarrow> string \<Rightarrow> ('f, 'f pyval) prog" where
  "get_margin w token =
     handler token (client_call w token ''get_available_margin_details'' [] [timeout10])"

definition get_order_list :: "'f world \<Rightarrow> string \<Rightarrow> int \<Rightarrow> int \<Rightarrow> string \<Rightarrow> ('f, 'f pyval) prog" where
  "get_order_list w token page page_size segment =
     handler token (client_call w token ''get_order_list'' []
       [(''page'', int_or page 0), (''page_size'', int_or page_size 25),
        (''segment'', str_or_none segment), timeout10])"

definition get_order_detail :: "'f world \<Rightarrow> string \<Rightarrow> string \<Rightarrow> string \<Rightarrow> ('f, 'f pyval) prog" where
  "get_order_detail w token segment order_id =
     handler token (client_call w token ''get_order_detail'' []
       [(''segment'', PStr segment), (''groww_order_id'', PStr (strip order_id)), timeout10])"

definition get_order_status :: "'f world \<Rightarrow> string \<Rightarrow> string \<Rightarrow> string \<Rightarrow> ('f, 'f pyval) prog" where
  "get_order_status w token segment order_id =
     handler token (client_call w token ''get_order_status'' []
       [(''segment'', PStr segment), (''groww_order_id'', PStr (strip order_id)), timeout10])"

definition get_order_status_by_reference ::
  "'f world \<Rightarrow> string \<Rightarrow> string \<Rightarrow> string \<Rightarrow> ('f, 'f pyval) prog" where
  "get_order_status_by_reference w token segment reference_id =
     handler token (client_call w token ''get_order_status_by_reference'' []
       [(''segment'', PStr segment), (''order_reference_id'', PStr (strip reference_id)),
        timeout10])"

definition get_trade_list_for_order ::
  "'f world \<Rightarrow> string \<Rightarrow> string \<Rightarrow> string \<Rightarrow> int \<Rightarrow> int \<Rightarrow> ('f, 'f pyval) prog" where
  "get_trade_list_for_order w token segment order_id page page_size =
     handler token (client_call w token ''get_trade_list_for_order'' []
       [(''groww_order_id'', PStr (strip order_id)), (''segment'', PStr segment),
        (''page'', int_or page 0), (''page_size'', int_or page_size 25), timeout10])"

definition get_smart_order_list ::
  "'f world \<Rightarrow> string \<Rightarrow> string \<Rightarrow> string \<Rightarrow> string \<Rightarrow> int \<Rightarrow> int \<Rightarrow> string \<Rightarrow> string \<Rightarrow>
   ('f, 'f pyval) prog" where
  "get_smart_order_list w token smart_order_type segment status page page_size
      start_date_time end_date_time =
     handler token (client_call w token ''get_smart_order_list'' []
       [(''smart_order_type'', str_or_none smart_order_type), (''segment'', str_or_none segment),
        (''status'', str_or_none status), (''page'', int_or_none page),
        (''page_size'', int_or_none page_size),
        (''start_date_time'', str_or_none start_date_time),
        (''end_date_time'', str_or_none end_date_time), timeout10])"

definition get_smart_order ::
  "'f world \<Rightarrow> string \<Rightarrow> string \<Rightarrow> string \<Rightarrow> string \<Rightarrow> ('f, 'f pyval) prog" where
  "get_smart_order w token segment smart_order_type smart_order_id =
     handler token (client_call w token ''get_smart_order'' []
       [(''segment'', PStr segment), (''smart_order_type'', PStr smart_order_type),
        (''smart_order_id'', PStr (strip smart_order_id)), timeout10])"

text \<open>\<open>_parse_json\<close> of the web UI: blank text is \<open>None\<close>, invalid text raises \<open>ValueError\<close>.\<close>

definition gradio_parse_json :: "'f world \<Rightarrow> string \<Rightarrow> exc + 'f pyval" where
  "gradio_parse_json w v =
     (if strip v = [] then Inr PNone
      else (case json_loads w v of
              Inl m \<Rightarrow> Inl (ValueError (''Invalid JSON: '' @ m))
            | Inr x \<Rightarrow> Inr x))"

definition get_order_margin_details ::
  "'f world \<Rightarrow> string \<Rightarrow> string \<Rightarrow> string \<Rightarrow> ('f, 'f pyval) prog" where
  "get_order_margin_details w token segment orders_json =
     handler token
       (bind (lift (gradio_parse_json w orders_json)) (\<lambda>orders.
          if \<not> is_list orders
          then ret (error_dict ''orders_json must be a JSON list of order dicts'')
          else client_call w token ''get_order_margin_details'' []
                 [(''segment'', PStr segment), (''orders'', orders), timeout10]))"

definition get_instrument_by_exchange_and_trading_symbol ::
  "'f world \<Rightarrow> string \<Rightarrow> string \<Rightarrow> string \<Rightarrow> ('f, 'f pyval) prog" where
  "get_instrument_by_exchange_and_trading_symbol w token exchange trading_symbol =
     handler token (client_call w token ''get_instrument_by_exchange_and_trading_symbol'' []
       [(''exchange'', PStr exchange), (''trading_symbol'', PStr (py_upper w (strip trading_symbol)))])"

definition get_instrument_by_exchange_token ::
  "'f world \<Rightarrow> string \<Rightarrow> string \<Rightarrow> ('f, 'f pyval) prog" where
  "get_instrument_by_exchange_token w token exchange_token =
     handler token (client_call w token ''get_instrument_by_exchange_token'' []
       [(''exchange_token'', PStr (strip exchange_token))])"

definition get_instrument_by_groww_symbol ::
  "'f world \<Rightarrow> string \<Rightarrow> string \<Rightarrow> ('f, 'f pyval) prog" where
  "get_instrument_by_groww_symbol w token groww_symbol =
     handler token (client_call w token ''get_instrument_by_groww_symbol'' []
       [(''groww_symbol'', PStr (strip groww_symbol))])"

definition get_expiries ::
  "'f world \<Rightarrow> string \<Rightarrow> string \<Rightarrow> string \<Rightarrow> int \<Rightarrow> int \<Rightarrow> ('f, 'f pyval) prog" where
  "get_expiries w token exchange underlying_symbol year month =
     handler token (client_call w token ''get_expiries'' []
       [(''exchange'', PStr exchange),
        (''underlying_symbol'', PStr (py_upper w (strip underlying_symbol))),
        (''year'', int_or_none year), (''month'', int_or_none month), timeout10])"

definition get_contracts ::
  "'f world \<Rightarrow> string \<Rightarrow> string \<Rightarrow> string \<Rightarrow> string \<Rightarrow> ('f, 'f pyval) prog" where
  "get_contracts w token exchange underlying_symbol expiry_date =
     handler token (client_call w token ''get_contracts'' []
       [(''exchange'', PStr exchange),
        (''underlying_symbol'', PStr (py_upper w (strip underlying_symbol))),
        (''expiry_date'', PStr (strip expiry_date)), timeout10])"

definition get_option_chain ::
  "'f world \<Rightarrow> string \<Rightarrow> string \<Rightarrow> string \<Rightarrow> string \<Rightarrow> ('f, 'f pyval) prog" where
  "get_option_chain w token exchange underlying expiry_date =
     handler token (client_call w token ''get_option_chain'' []
       [(''exchange'', PStr exchange), (''underlying'', PStr (py_upper w (strip underlying))),
        (''expiry_date'', PStr (strip expiry_date)), timeout10])"

definition get_greeks ::
  "'f world \<Rightarrow> string \<Rightarrow> string \<Rightarrow> string \<Rightarrow> string \<Rightarrow> string \<Rightarrow> ('f, 'f pyval) prog" where
  "get_greeks w token exchange underlying trading_symbol expiry =
     handler token (client_call w token ''get_greeks'' []
       [(''exchange'', PStr exchange), (''underlying'', PStr (py_upper w (strip underlying))),
        (''trading_symbol'', PStr (py_upper w (strip trading_symbol))),
        (''expiry'', PStr (strip expiry))])"

subsection \<open>\<open>call_method\<close> and its trading gate\<close>

definition trading_blocked :: string where
  "trading_blocked = ''Trading action blocked. Enable 'Allow trading actions' to proceed.''"

text \<open>\<open>_require_no_trading\<close>, with its own set literal.\<close>

definition gradio_trading_methods :: "string list" where
  "gradio_trading_methods = [''place_order'', ''modify_order'', ''cancel_order'',
     ''create_smart_order'', ''modify_smart_order'', ''cancel_smart_order'']"

definition require_no_trading :: "string \<Rightarrow> bool \<Rightarrow> exc + unit" where
  "require_no_trading method_name allow_trading =
     (if method_name \<in> set gradio_trading_methods \<and> \<not> allow_trading
      then Inl (ValueError trading_blocked) else Inr ())"

text \<open>The body of the \<open>try\<close> of \<open>call_method\<close>, lines 491 to 507.\<close>

definition call_method_body ::
  "'f world \<Rightarrow> string \<Rightarrow> string \<Rightarrow> string \<Rightarrow> string \<Rightarrow> bool \<Rightarrow> ('f, 'f pyval) prog" where
  "call_method_body w token method_name args_json kwargs_json allow_trading =
     seq (get_client w token)
       (if \<not> has_attr w method_name then ret (error_dict (''Unknown method: '' @ method_name))
        else if \<not> is_callable w method_name
        then ret (error_dict (''Not callable: '' @ method_name))
        else
          seq (lift (require_no_trading method_name allow_trading))
         (bind (if strip args_json \<noteq> [] then lift (gradio_parse_json w args_json)
                else ret (PList [])) (\<lambda>args.
          bind (if strip kwargs_json \<noteq> [] then lift (gradio_parse_json w kwargs_json)
                else ret (PDict [])) (\<lambda>kwargs.
          case args of
            PList xs \<Rightarrow>
              (case kwargs of
                 PDict kws \<Rightarrow> sdk_method w (PStr token) method_name xs kws
               | _ \<Rightarrow> ret (error_dict ''--kwargs must be JSON object''))
          | _ \<Rightarrow> ret (error_dict ''--args must be JSON array'')))))"

definition call_method ::
  "'f world \<Rightarrow> string \<Rightarrow> string \<Rightarrow> string \<Rightarrow> string \<Rightarrow> bool \<Rightarrow> ('f, 'f pyval) prog" where
  "call_method w token method_name args_json kwargs_json allow_trading =
     (if token = [] then ret not_connected
      else if strip method_name = [] then ret (error_dict ''Method name is required'')
      else catch (call_method_body w token method_name args_json kwargs_json allow_trading)
             (\<lambda>e. ret (error_dict (exc_message e))))"

subsection \<open>The feed handlers\<close>

text \<open>\<open>_get_feed\<close>: the feed of a token is made once and kept in \<open>FEED_CACHE\<close>.\<close>

definition get_feed :: "'f world \<Rightarrow> string \<Rightarrow> ('f, unit) prog" where
  "get_feed w token = (\<lambda>s.
     if token \<in> set (feed_cache s) then ret () s
     else bind (get_client w token) (\<lambda>_.
          bind (seq (emit (Sdk_new_feed token))
                  (case new_feed w token of Some m \<Rightarrow> raise (OtherError m) | None \<Rightarrow> ret ()))
            (\<lambda>_ s'. ([], s'\<lparr>feed_cache := token # feed_cache s'\<rparr>, Inr ()))) s)"

definition feed_method :: "'f world \<Rightarrow> string \<Rightarrow> string \<Rightarrow> 'f pyval list \<Rightarrow> ('f, 'f pyval) prog" where
  "feed_method w token name args =
     seq (emit (Sdk_feed token name args)) (sdk_result (feed_call w token name args))"

text \<open>
  \<open>_lookup_instrument\<close> followed by \<open>instrument.get("exchange_token")\<close>: the token typed
  into the form, or the one the SDK knows for the symbol; a lookup result that is not a
  dict has no \<open>get\<close>.
\<close>

definition lookup_exchange_token ::
  "'f world \<Rightarrow> string \<Rightarrow> string \<Rightarrow> string \<Rightarrow> string \<Rightarrow> ('f, 'f pyval) prog" where
  "lookup_exchange_token w token exchange trading_symbol exchange_token =
     (if exchange_token \<noteq> [] then ret (PStr exchange_token)
      else bind (sdk_method w (PStr token) ''get_instrument_by_exchange_and_trading_symbol'' []
                  [(''exchange'', PStr exchange),
                   (''trading_symbol'', PStr (py_upper w (strip trading_symbol)))]) (\<lambda>instrument.
           case instrument of
             PDict d \<Rightarrow> ret (dict_get d ''exchange_token'')
           | _ \<Rightarrow> raise (OtherError ''object has no attribute get'')))"

definition instrument_list :: "string \<Rightarrow> string \<Rightarrow> 'f pyval \<Rightarrow> 'f pyval" where
  "instrument_list exchange segment exchange_token =
     PList [PDict [(''exchange'', PStr exchange), (''segment'', PStr segment),
                   (''exchange_token'', exchange_token)]]"

definition feed_subscribe ::
  "string \<Rightarrow> 'f world \<Rightarrow> string \<Rightarrow> string \<Rightarrow> string \<Rightarrow> string \<Rightarrow> string \<Rightarrow> ('f, 'f pyval) prog" where
  "feed_subscribe name w token exchange segment trading_symbol exchange_token =
     handler token
       (seq (get_client w token)
       (bind (lookup_exchange_token w token exchange trading_symbol exchange_token) (\<lambda>tok.
        seq (get_feed w token)
            (feed_method w token name [instrument_list exchange segment tok]))))"

definition feed_get :: "string \<Rightarrow> 'f world \<Rightarrow> string \<Rightarrow> ('f, 'f pyval) prog" where
  "feed_get name w token = handler token (seq (get_feed w token) (feed_method w token name []))"

definition feed_unsubscribe ::
  "string \<Rightarrow> 'f world \<Rightarrow> string \<Rightarrow> string \<Rightarrow> string \<Rightarrow> string \<Rightarrow> ('f, 'f pyval) prog" where
  "feed_unsubscribe name w token exchange segment exchange_token =
     handler token
       (seq (get_feed w token)
            (feed_method w token name
               [instrument_list exchange segment (PStr (strip exchange_token))]))"

definition feed_subscribe_ltp ::
  "'f world \<Rightarrow> string \<Rightarrow> string \<Rightarrow> string \<Rightarrow> string \<Rightarrow> string \<Rightarrow> ('f, 'f pyval) prog" where
  "feed_subscribe_ltp = feed_subscribe ''subscribe_ltp''"

definition feed_get_ltp :: "'f world \<Rightarrow> string \<Rightarrow> ('f, 'f pyval) prog" where
  "feed_get_ltp = feed_get ''get_ltp''"

definition feed_unsubscribe_ltp ::
  "'f world \<Rightarrow> string \<Rightarrow> string \<Rightarrow> string \<Rightarrow> string \<Rightarrow> ('f, 'f pyval) prog" where
  "feed_unsubscribe_ltp = feed_unsubscribe ''unsubscribe_ltp''"

definition feed_subscribe_market_depth ::
  "'f world \<Rightarrow> string \<Rightarrow> string \<Rightarrow> string \<Rightarrow> string \<Rightarrow> string \<Rightarrow> ('f, 'f pyval) prog" where
  "feed_subscribe_market_depth = feed_subscribe ''subscribe_market_depth''"

definition feed_get_market_depth :: "'f world \<Rightarrow> string \<Rightarrow> ('f, 'f pyval) prog" where
  "feed_get_market_depth = feed_get ''get_market_depth''"

definition feed_unsubscribe_market_depth ::
  "'f world \<Rightarrow> string \<Rightarrow> string \<Rightarrow> string \<Rightarrow> string \<Rightarrow> ('f, 'f pyval) prog" where
  "feed_unsubscribe_market_depth = feed_unsubscribe ''unsubscribe_market_depth''"

definition feed_subscribe_index_value ::
  "'f world \<Rightarrow> string \<Rightarrow> string \<Rightarrow> string \<Rightarrow> string \<Rightarrow> string \<Rightarrow> ('f, 'f pyval) prog" where
  "feed_subscribe_index_value = feed_subscribe ''subscribe_index_value''"

definition feed_get_index_value :: "'f world \<Rightarrow> string \<Rightarrow> ('f, 'f pyval) prog" where
  "feed_get_index_value = feed_get ''get_index_value''"

definition feed_unsubscribe_index_value ::
  "'f world \<Rightarrow> string \<Rightarrow> string \<Rightarrow> string \<Rightarrow> string \<Rightarrow> ('f, 'f pyval) prog" where
  "feed_unsubscribe_index_value = feed_unsubscribe ''unsubscribe_index_value''"

subsection \<open>\<open>backtest_simple\<close> and \<open>get_historical\<close>\<close>

definition historical_kwargs ::
  "'f world \<Rightarrow> string \<Rightarrow> string \<Rightarrow> string \<Rightarrow> string \<Rightarrow> string \<Rightarrow> int \<Rightarrow> (string \<times> 'f pyval) list" where
  "historical_kwargs w trading_symbol exchange segment start_time end_time interval_minutes =
     [(''trading_symbol'', PStr (py_upper w (strip trading_symbol))), (''exchange'', PStr exchange),
      (''segment'', PStr segment), (''start_time'', PStr start_time),
      (''end_time'', PStr end_time), (''interval_in_minutes'', int_or_none interval_minutes),
      (''timeout'', PInt 15)]"

definition backtest_simple ::
  "'f world \<Rightarrow> string \<Rightarrow> string \<Rightarrow> string \<Rightarrow> string \<Rightarrow> string \<Rightarrow> string \<Rightarrow> int \<Rightarrow>
   ('f, 'f pyval) prog" where
  "backtest_simple w token trading_symbol exchange segment start_time end_time interval_minutes =
     handler token
       (bind (client_call w token ''get_historical_candle_data'' []
                (historical_kwargs w trading_symbol exchange segment start_time end_time
                   interval_minutes)) (\<lambda>data.
        lift (backtest_summary (fops w) data)))"

record historical_form =
  h_method :: string
  h_trading_symbol :: string
  h_groww_symbol :: string
  h_exchange :: string
  h_segment :: string
  h_interval_minutes :: int
  h_candle_interval :: string
  h_start_time :: string
  h_end_time :: string
  h_use_relative :: bool
  h_relative_amount :: int
  h_relative_unit :: string

text \<open>
  \<open>get_historical\<close>. \<open>_relative_range\<close> reads the clock and subtracts a \<open>timedelta\<close>, which
  raises for an amount out of range; it is a parameter (\<open>Inl\<close>: the message of the
  exception), and it runs before the \<open>try\<close>.
\<close>

definition get_historical ::
  "'f world \<Rightarrow> (int \<Rightarrow> string \<Rightarrow> string + string \<times> string) \<Rightarrow> string \<Rightarrow> historical_form \<Rightarrow>
   ('f, 'f pyval \<times> 'f pyval list) prog" where
  "get_historical w relative_range token f =
     (if token = [] then ret (not_connected, [])
      else
        bind (if h_use_relative f
              then (case relative_range (h_relative_amount f) (h_relative_unit f) of
                      Inl m \<Rightarrow> raise (OtherError m)
                    | Inr se \<Rightarrow> ret se)
              else ret (h_start_time f, h_end_time f)) (\<lambda>(start_time, end_time).
        catch
          (bind (if h_method f = ''historical_candles_v2''
                 then client_call w token ''get_historical_candles'' []
                        [(''exchange'', PStr (h_exchange f)), (''segment'', PStr (h_segment f)),
                         (''groww_symbol'', PStr (strip (h_groww_symbol f))),
                         (''start_time'', PStr start_time), (''end_time'', PStr end_time),
                         (''candle_interval'', PStr (h_candle_interval f)),
                         (''timeout'', PInt 15)]
                 else client_call w token ''get_historical_candle_data'' []
                        (historical_kwargs w (h_trading_symbol f) (h_exchange f) (h_segment f)
                           start_time end_time (h_interval_minutes f))) (\<lambda>data.
           bind (lift (candles_to_rows w data)) (\<lambda>rows. ret (data, rows))))
          (\<lambda>e. ret (error_dict (exc_message e), []))))"

section \<open>Instrument search\<close>

text \<open>
  The pandas operations the two searches use, on tables whose columns hold objects:
  \<open>row_get\<close> reads a cell (a missing one is \<open>NaN\<close>); \<open>.str.upper()\<close> gives \<open>NaN\<close> for a
  cell that is not a string; \<open>.astype(str)\<close> renders \<open>NaN\<close> as \<open>nan\<close>; \<open>df[col]\<close> raises
  \<open>KeyError\<close> for a column that is not there; \<open>head(n)\<close> keeps the first \<open>n\<close> rows and,
  for a negative \<open>n\<close>, all rows but the last \<open>-n\<close>.
\<close>

definition row_get :: "(string \<times> cell) list \<Rightarrow> string \<Rightarrow> cell" where
  "row_get r c = (case map_of r c of Some x \<Rightarrow> x | None \<Rightarrow> CNaN)"

definition str_upper :: "'f world \<Rightarrow> cell \<Rightarrow> cell" where
  "str_upper w x = (case x of CStr s \<Rightarrow> CStr (py_upper w s) | _ \<Rightarrow> CNaN)"

definition astype_str :: "cell \<Rightarrow> string" where
  "astype_str x = (case x of CStr s \<Rightarrow> s | CNaN \<Rightarrow> ''nan'' | COther t \<Rightarrow> t)"

definition head :: "int \<Rightarrow> frame \<Rightarrow> frame" where
  "head n df =
     (if 0 \<le> n then df\<lparr>frame_rows := take (nat n) (frame_rows df)\<rparr>
      else df\<lparr>frame_rows := take (length (frame_rows df) - nat (- n)) (frame_rows df)\<rparr>)"

definition key_error :: "string \<Rightarrow> exc" where
  "key_error c = OtherError ([CHR 0x27] @ c @ [CHR 0x27])"

text \<open>\<open>df[df[col].str.upper() == value.upper()]\<close>.\<close>

definition where_upper_eq :: "'f world \<Rightarrow> frame \<Rightarrow> string \<Rightarrow> string \<Rightarrow> exc + frame" where
  "where_upper_eq w df col v =
     (if col \<notin> set (frame_columns df) then Inl (key_error col)
      else Inr (df\<lparr>frame_rows :=
                  filter (\<lambda>r. str_upper w (row_get r col) = CStr (py_upper w v)) (frame_rows df)\<rparr>))"

text \<open>\<open>if value: filtered = filtered[...]\<close>, for an optional or possibly empty filter.\<close>

definition apply_filter :: "'f world \<Rightarrow> frame \<Rightarrow> string \<Rightarrow> string option \<Rightarrow> exc + frame" where
  "apply_filter w df col v = (case v of
       None \<Rightarrow> Inr df
     | Some x \<Rightarrow> if x = [] then Inr df else where_upper_eq w df col x)"

text \<open>
  \<open>df[col].astype(str).str.lower().str.contains(q, na=False)\<close>: one truth value per row,
  or the exception of a pattern that does not compile.
\<close>

definition contains_mask :: "'f world \<Rightarrow> frame \<Rightarrow> string \<Rightarrow> string \<Rightarrow> exc + bool list" where
  "contains_mask w df col q = (case re_compile w q of
       Inl m \<Rightarrow> Inl (OtherError m)
     | Inr found \<Rightarrow> Inr (map (\<lambda>r. found (py_lower w (astype_str (row_get r col)))) (frame_rows df)))"

text \<open>
  The loop \<open>for col in cols: if col in filtered.columns: ... mask = m if mask is None else
  (mask | m)\<close>, with its accumulator \<open>mask\<close> as \<open>acc\<close>.
\<close>

fun mask_loop ::
  "'f world \<Rightarrow> frame \<Rightarrow> string \<Rightarrow> string list \<Rightarrow> bool list option \<Rightarrow> exc + bool list option" where
  "mask_loop w df q [] acc = Inr acc"
| "mask_loop w df q (col # cols) acc =
     (if col \<in> set (frame_columns df) then
        (case contains_mask w df col q of
           Inl e \<Rightarrow> Inl e
         | Inr m \<Rightarrow> mask_loop w df q cols
                     (Some (case acc of None \<Rightarrow> m | Some old \<Rightarrow> map2 (\<or>) old m)))
      else mask_loop w df q cols acc)"

text \<open>\<open>df[mask]\<close>.\<close>

definition select_rows :: "frame \<Rightarrow> bool list \<Rightarrow> frame" where
  "select_rows df m = df\<lparr>frame_rows := map fst (filter snd (zip (frame_rows df) m))\<rparr>"

definition cli_search_cols :: "string list" where
  "cli_search_cols = [''trading_symbol'', ''groww_symbol'', ''name'', ''isin'',
     ''exchange_token'', ''underlying_symbol'']"

text \<open>\<open>_search_instruments\<close> of \<open>groww_cli.py\<close>.\<close>

definition cli_search_instruments ::
  "'f world \<Rightarrow> frame \<Rightarrow> string \<Rightarrow> string option \<Rightarrow> string option \<Rightarrow> int \<Rightarrow> exc + frame" where
  "cli_search_instruments w df query exchange segment limit =
     (let q = py_lower w (strip query) in
      if q = [] then Inr (head 0 df)
      else (case apply_filter w df ''exchange'' exchange of
              Inl e \<Rightarrow> Inl e
            | Inr by_exchange \<Rightarrow>
              (case apply_filter w by_exchange ''segment'' segment of
                 Inl e \<Rightarrow> Inl e
               | Inr filtered \<Rightarrow>
                 (case mask_loop w filtered q cli_search_cols None of
                    Inl e \<Rightarrow> Inl e
                  | Inr None \<Rightarrow> Inr (head 0 filtered)
                  | Inr (Some m) \<Rightarrow> Inr (head limit (select_rows filtered m))))))"

datatype search_result = Text string | Table frame

definition gradio_search_cols :: "string list" where
  "gradio_search_cols = [''trading_symbol'', ''groww_symbol'', ''name'', ''isin'']"

definition gradio_view_cols :: "string list" where
  "gradio_view_cols = [''trading_symbol'', ''groww_symbol'', ''name'', ''isin'',
     ''exchange_token'', ''exchange'', ''segment'', ''instrument_type'']"

text \<open>\<open>view[cols]\<close>: the table with the listed columns only.\<close>

definition project :: "frame \<Rightarrow> string list \<Rightarrow> frame" where
  "project df cols =
     \<lparr> frame_columns = cols,
       frame_rows = map (\<lambda>r. map (\<lambda>c. (c, row_get r c)) cols) (frame_rows df) \<rparr>"

text \<open>Lines 691 to 724 of \<open>search_instruments\<close>, from the cached table on.\<close>

definition gradio_search_table ::
  "'f world \<Rightarrow> frame \<Rightarrow> string \<Rightarrow> string \<Rightarrow> string \<Rightarrow> int \<Rightarrow> exc + search_result" where
  "gradio_search_table w df query exchange segment limit =
     (let q = py_lower w (strip query) in
      if q = [] then Inr (Text ''Enter a search term.'')
      else (case apply_filter w df ''exchange'' (Some exchange) of
              Inl e \<Rightarrow> Inl e
            | Inr by_exchange \<Rightarrow>
              (case apply_filter w by_exchange ''segment'' (Some segment) of
                 Inl e \<Rightarrow> Inl e
               | Inr filtered \<Rightarrow>
                 (let cols = filter (\<lambda>c. c \<in> set (frame_columns filtered)) gradio_view_cols in
                  case mask_loop w filtered q gradio_search_cols None of
                    Inl e \<Rightarrow> Inl e
                  | Inr None \<Rightarrow> Inr (Text ''No instruments found.'')
                  | Inr (Some m) \<Rightarrow>
                      (let view = head limit (select_rows filtered m) in
                       if frame_rows view = [] then Inr (Text ''No instruments found.'')
                       else Inr (Table (project view cols)))))))"

text \<open>Lines 688 to 690: the table of all instruments is fetched once and kept.\<close>

definition cached_instruments :: "'f world \<Rightarrow> string \<Rightarrow> ('f, frame) prog" where
  "cached_instruments w token = (\<lambda>s. case instrument_cache s of
       Some df \<Rightarrow> ret df s
     | None \<Rightarrow> bind (seq (emit Sdk_get_all_instruments)
                        (sdk_result (get_all_instruments w (PStr token))))
                 (\<lambda>df s'. ([], s'\<lparr>instrument_cache := Some df\<rparr>, Inr df)) s)"

definition search_instruments ::
  "'f world \<Rightarrow> string \<Rightarrow> string \<Rightarrow> string \<Rightarrow> string \<Rightarrow> int \<Rightarrow> ('f, search_result) prog" where
  "search_instruments w token query exchange segment limit =
     (if token = [] then ret (Text ''Not connected'')
      else catch
        (seq (get_client w token)
        (bind (cached_instruments w token) (\<lambda>df.
         lift (gradio_search_table w df query exchange segment limit))))
        (\<lambda>e. ret (Text (''Error: '' @ exc_message e))))"

section \<open>The handlers as the UI wires them\<close>

text \<open>
  A click in the UI: which handler runs, on which inputs. The first argument of every
  handler is the stored token. \<open>click\<close> runs the handler; the result keeps the shape
  in which the handler returns it.
\<close>

datatype request =
    Get_quote string string string string
  | Get_quote_clean string string string string
  | Get_ltp string string string string
  | Get_ohlc string string string string
  | Get_profile string
  | Get_holdings string
  | Get_positions string string
  | Get_margin string
  | Get_order_list string int int string
  | Get_order_detail string string string
  | Get_order_status string string string
  | Get_order_status_by_reference string string string
  | Get_trade_list_for_order string string string int int
  | Get_smart_order_list string string string string int int string string
  | Get_smart_order string string string string
  | Get_order_margin_details string string string
  | Get_instrument_by_exchange_and_trading_symbol string string string
  | Get_instrument_by_exchange_token string string
  | Get_instrument_by_groww_symbol string string
  | Get_expiries string string string int int
  | Get_contracts string string string string
  | Get_option_chain string string string string
  | Get_greeks string string string string string
  | Call_method string string string string bool
  | Feed_subscribe_ltp string string string string string
  | Feed_get_ltp string
  | Feed_unsubscribe_ltp string string string string
  | Feed_subscribe_market_depth string string string string string
  | Feed_get_market_depth string
  | Feed_unsubscribe_market_depth string string string string
  | Feed_subscribe_index_value string string string string string
  | Feed_get_index_value string
  | Feed_unsubscribe_index_value string string string string
  | Backtest_simple string string string string string string int
  | Search_instruments string string string string int
  | Get_historical string historical_form

datatype 'f ui_result =
    Json "'f pyval"
  | Search search_result
  | Data_and_rows "'f pyval" "'f pyval list"

definition as_json :: "('f, 'f pyval) prog \<Rightarrow> ('f, 'f ui_result) prog" where
  "as_json m = bind m (\<lambda>v. ret (Json v))"

primrec token_of :: "request \<Rightarrow> string" where
  "token_of (Get_quote t a b c) = t"
| "token_of (Get_quote_clean t a b c) = t"
| "token_of (Get_ltp t a b c) = t"
| "token_of (Get_ohlc t a b c) = t"
| "token_of (Get_profile t) = t"
| "token_of (Get_holdings t) = t"
| "token_of (Get_positions t a) = t"
| "token_of (Get_margin t) = t"
| "token_of (Get_order_list t i j a) = t"
| "token_of (Get_order_detail t a b) = t"
| "token_of (Get_order_status t a b) = t"
| "token_of (Get_order_status_by_reference t a b) = t"
| "token_of (Get_trade_list_for_order t a b i j) = t"
| "token_of (Get_smart_order_list t a b c i j d e) = t"
| "token_of (Get_smart_order t a b c) = t"
| "token_of (Get_order_margin_details t a b) = t"
| "token_of (Get_instrument_by_exchange_and_trading_symbol t a b) = t"
| "token_of (Get_instrument_by_exchange_token t a) = t"
| "token_of (Get_instrument_by_groww_symbol t a) = t"
| "token_of (Get_expiries t a b i j) = t"
| "token_of (Get_contracts t a b c) = t"
| "token_of (Get_option_chain t a b c) = t"
| "token_of (Get_greeks t a b c d) = t"
| "token_of (Call_method t a b c f) = t"
| "token_of (Feed_subscribe_ltp t a b c d) = t"
| "token_of (Feed_get_ltp t) = t"
| "token_of (Feed_unsubscribe_ltp t a b c) = t"
| "token_of (Feed_subscribe_market_depth t a b c d) = t"
| "token_of (Feed_get_market_depth t) = t"
| "token_of (Feed_unsubscribe_market_depth t a b c) = t"
| "token_of (Feed_subscribe_index_value t a b c d) = t"
| "token_of (Feed_get_index_value t) = t"
| "token_of (Feed_unsubscribe_index_value t a b c) = t"
| "token_of (Backtest_simple t a b c d e i) = t"
| "token_of (Search_instruments t a b c i) = t"
| "token_of (Get_historical t f) = t"

definition returns_json :: "request \<Rightarrow> bool" where
  "returns_json r = (case r of
       Search_instruments t a b c i \<Rightarrow> False
     | Get_historical t f \<Rightarrow> False
     | _ \<Rightarrow> True)"

primrec click ::
  "'f world \<Rightarrow> (int \<Rightarrow> string \<Rightarrow> string + string \<times> string) \<Rightarrow> request \<Rightarrow> ('f, 'f ui_result) prog" where
  "click w rr (Get_quote t a b c) = as_json (get_quote w t a b c)"
| "click w rr (Get_quote_clean t a b c) = as_json (get_quote_clean w t a b c)"
| "click w rr (Get_ltp t a b c) = as_json (get_ltp w t a b c)"
| "click w rr (Get_ohlc t a b c) = as_json (get_ohlc w t a b c)"
| "click w rr (Get_profile t) = as_json (get_profile w t)"
| "click w rr (Get_holdings t) = as_json (get_holdings w t)"
| "click w rr (Get_positions t a) = as_json (get_positions w t a)"
| "click w rr (Get_margin t) = as_json (get_margin w t)"
| "click w rr (Get_order_list t i j a) = as_json (get_order_list w t i j a)"
| "click w rr (Get_order_detail t a b) = as_json (get_order_detail w t a b)"
| "click w rr (Get_order_status t a b) = as_json (get_order_status w t a b)"
| "click w rr (Get_order_status_by_reference t a b) =
     as_json (get_order_status_by_reference w t a b)"
| "click w rr (Get_trade_list_for_order t a b i j) =
     as_json (get_trade_list_for_order w t a b i j)"
| "click w rr (Get_smart_order_list t a b c i j d e) =
     as_json (get_smart_order_list w t a b c i j d e)"
| "click w rr (Get_smart_order t a b c) = as_json (get_smart_order w t a b c)"
| "click w rr (Get_order_margin_details t a b) = as_json (get_order_margin_details w t a b)"
| "click w rr (Get_instrument_by_exchange_and_trading_symbol t a b) =
     as_json (get_instrument_by_exchange_and_trading_symbol w t a b)"
| "click w rr (Get_instrument_by_exchange_token t a) =
     as_json (get_instrument_by_exchange_token w t a)"
| "click w rr (Get_instrument_by_groww_symbol t a) =
     as_json (get_instrument_by_groww_symbol w t a)"
| "click w rr (Get_expiries t a b i j) = as_json (get_expiries w t a b i j)"
| "click w rr (Get_contracts t a b c) = as_json (get_contracts w t a b c)"
| "click w rr (Get_option_chain t a b c) = as_json (get_option_chain w t a b c)"
| "click w rr (Get_greeks t a b c d) = as_json (get_greeks w t a b c d)"
| "click w rr (Call_method t a b c f) = as_json (call_method w t a b c f)"
| "click w rr (Feed_subscribe_ltp t a b c d) = as_json (feed_subscribe_ltp w t a b c d)"
| "click w rr (Feed_get_ltp t) = as_json (feed_get_ltp w t)"
| "click w rr (Feed_unsubscribe_ltp t a b c) = as_json (feed_unsubscribe_ltp w t a b c)"
| "click w rr (Feed_subscribe_market_depth t a b c d) =
     as_json (feed_subscribe_market_depth w t a b c d)"
| "click w rr (Feed_get_market_depth t) = as_json (feed_get_market_depth w t)"
| "click w rr (Feed_unsubscribe_market_depth t a b c) =
     as_json (feed_unsubscribe_market_depth w t a b c)"
| "click w rr (Feed_subscribe_index_value t a b c d) =
     as_json (feed_subscribe_index_value w t a b c d)"
| "click w rr (Feed_get_index_value t) = as_json (feed_get_index_value w t)"
| "click w rr (Feed_unsubscribe_index_value t a b c) =
     as_json (feed_unsubscribe_index_value w t a b c)"
| "click w rr (Backtest_simple t a b c d e i) = as_json (backtest_simple w t a b c d e i)"
| "click w rr (Search_instruments t a b c i) =
     bind (search_instruments w t a b c i) (\<lambda>r. ret (Search r))"
| "click w rr (Get_historical t f) =
     bind (get_historical w rr t f) (\<lambda>(d, rows). ret (Data_and_rows d rows))"

section \<open>Notions used to state the properties\<close>

text \<open>An event that writes a file; a run that ended without an exception.\<close>

definition is_write :: "'f event \<Rightarrow> bool" where
  "is_write ev = (case ev of Write_file p c \<Rightarrow> True | _ \<Rightarrow> False)"

fun succeeded :: "exc + 'a \<Rightarrow> bool" where
  "succeeded (Inr x) = True"
| "succeeded (Inl e) = False"

text \<open>
  Three properties of a program, each closed under sequencing: all its events satisfy
  \<open>P\<close>; it leaves the state as it found it; when it returns \<open>x\<close> after events
  \<open>es\<close>, then \<open>R x es\<close>. \<open>from_sdk\<close>: the token object was returned by a call of
  \<open>GrowwAPI.get_access_token\<close> among the events.
\<close>

definition events_all :: "('f event \<Rightarrow> bool) \<Rightarrow> ('f, 'a) prog \<Rightarrow> bool" where
  "events_all P m = (\<forall>s es s' r. m s = (es, s', r) \<longrightarrow> (\<forall>ev \<in> set es. P ev))"

definition keeps_state :: "('f, 'a) prog \<Rightarrow> bool" where
  "keeps_state m = (\<forall>s es s' r. m s = (es, s', r) \<longrightarrow> s' = s)"

definition yields :: "('a \<Rightarrow> 'f event list \<Rightarrow> bool) \<Rightarrow> ('f, 'a) prog \<Rightarrow> bool" where
  "yields R m = (\<forall>s es s' x. m s = (es, s', Inr x) \<longrightarrow> R x es)"

definition from_sdk :: "'f world \<Rightarrow> 'f pyval \<Rightarrow> 'f event list \<Rightarrow> bool" where
  "from_sdk w obj es = (\<exists>c. Sdk_get_access_token c \<in> set es \<and> get_access_token w c = Inr obj)"

text \<open>
  What lines 122 to 136 of the authenticator (77 to 90 of the smoke test) leave in
  \<open>totp_token\<close> and \<open>totp_secret\<close>, the notes they print, and the situation in which
  a TOTP code is derived from a secret that \<open>pyotp\<close> rejects: there is a token, there is
  no one-time code, and the secret in effect is rejected.
\<close>

definition effective_totp_token :: "resolved \<Rightarrow> string option" where
  "effective_totp_token r =
     (if \<not> truthy_str (totp_token r) \<and> truthy_str (legacy_api_key r) then legacy_api_key r
      else totp_token r)"

definition effective_totp_secret :: "resolved \<Rightarrow> string option" where
  "effective_totp_secret r =
     (if \<not> truthy_str (totp r) \<and> \<not> truthy_str (totp_secret r) \<and> truthy_str (legacy_secret r)
      then legacy_secret r else totp_secret r)"

definition legacy_notes :: "resolved \<Rightarrow> 'f event list" where
  "legacy_notes r =
     (if \<not> truthy_str (totp_token r) \<and> truthy_str (legacy_api_key r)
      then [Print note_api_key] else []) @
     (if truthy_str (effective_totp_token r) \<and> \<not> truthy_str (totp r) \<and>
         \<not> truthy_str (totp_secret r) \<and> truthy_str (legacy_secret r)
      then [Print note_secret] else [])"

definition derivation_fails :: "'f world \<Rightarrow> resolved \<Rightarrow> bool" where
  "derivation_fails w r =
     (truthy_str (effective_totp_token r) \<and> \<not> truthy_str (totp r) \<and>
      (case effective_totp_secret r of
         Some sec \<Rightarrow> sec \<noteq> [] \<and> pyotp_now w sec = None
       | None \<Rightarrow> False))"

text \<open>
  The two notices that ask for a key of the secrets file to be renamed; a program whose
  every run consists of the events \<open>pre\<close> followed by events that all satisfy \<open>P\<close>; and
  the shape of a run of the authenticator: the events \<open>pre\<close>, then events none of which
  is a rename notice, and at the very end, only under \<open>--print-token\<close>, the line with
  the token that \<open>GrowwAPI.get_access_token\<close> returned in this run, whatever its text.
\<close>

definition is_rename_note :: "'f event \<Rightarrow> bool" where
  "is_rename_note ev = (ev = Print note_api_key \<or> ev = Print note_secret)"

definition notes_then :: "'f event list \<Rightarrow> ('f event \<Rightarrow> bool) \<Rightarrow> ('f, 'a) prog \<Rightarrow> bool" where
  "notes_then pre P m = (\<forall>s. \<exists>rest. fst (m s) = pre @ rest \<and> list_all P rest)"

definition notes_and_token ::
  "'f world \<Rightarrow> auth_args \<Rightarrow> 'f event list \<Rightarrow> 'f event list \<Rightarrow> bool" where
  "notes_and_token w args pre es =
     (\<exists>mid fin. es = pre @ mid @ fin \<and> list_all (\<lambda>ev. \<not> is_rename_note ev) mid \<and>
        (fin = [] \<or>
         print_token args \<and>
         (\<exists>obj. from_sdk w obj es \<and> fin = [Print (normalize_access_token w obj)])))"







text \<open>A request for a line of input; a call of a method of the SDK client.\<close>

definition is_input :: "'f event \<Rightarrow> bool" where
  "is_input ev = (case ev of Input p \<Rightarrow> True | _ \<Rightarrow> False)"

definition is_sdk_method :: "'f event \<Rightarrow> bool" where
  "is_sdk_method ev = (case ev of Sdk_method n a k \<Rightarrow> True | _ \<Rightarrow> False)"


text \<open>
  For the claim about \<open>_prune_nulls\<close>: a value that is or holds \<open>None\<close> at some depth
  (in a list, a tuple or a dict); a JSON value (no tuple at any depth); a value whose
  dicts have each key once, as every Python dict has; and the pruning as the claim words
  it: drop the entries and elements that are \<open>None\<close>, keep the others with their keys and
  in their order, pruned in turn.
\<close>

fun has_null :: "'f pyval \<Rightarrow> bool" where
  "has_null PNone = True"
| "has_null (PList xs) = list_ex has_null xs"
| "has_null (PTuple xs) = list_ex has_null xs"
| "has_null (PDict kvs) = list_ex has_null (map snd kvs)"
| "has_null v = False"

fun json_like :: "'f pyval \<Rightarrow> bool" where
  "json_like (PTuple xs) = False"
| "json_like (PList xs) = list_all json_like xs"
| "json_like (PDict kvs) = list_all json_like (map snd kvs)"
| "json_like v = True"

fun distinct_keys :: "'f pyval \<Rightarrow> bool" where
  "distinct_keys (PDict kvs) = (distinct (map fst kvs) \<and> list_all distinct_keys (map snd kvs))"
| "distinct_keys (PList xs) = list_all distinct_keys xs"
| "distinct_keys v = True"

fun without_nulls :: "'f pyval \<Rightarrow> 'f pyval" where
  "without_nulls (PDict kvs) =
     PDict (map (\<lambda>kv. (fst kv, without_nulls (snd kv))) (filter (\<lambda>kv. snd kv \<noteq> PNone) kvs))"
| "without_nulls (PList xs) = PList (map without_nulls (filter (\<lambda>x. x \<noteq> PNone) xs))"
| "without_nulls v = v"








text \<open>
  For the claim about \<open>backtest_simple\<close>: the value \<open>_parse_candle_close\<close> reads as the
  close of a candle (under \<open>close\<close>, else under \<open>c\<close>, of a dict; position 4 of a list or
  tuple of at least five), the close as a number when \<open>float\<close> accepts it, a close that
  \<open>float\<close> rejects with \<open>OverflowError\<close>, and the closes that parse, in series order.
\<close>

definition close_value :: "'f pyval \<Rightarrow> 'f pyval option" where
  "close_value c = (case c of
       PDict d \<Rightarrow> (case map_of d ''close'' of Some v \<Rightarrow> Some v | None \<Rightarrow> map_of d ''c'')
     | PList xs \<Rightarrow> if 5 \<le> length xs then Some (xs ! 4) else None
     | PTuple xs \<Rightarrow> if 5 \<le> length xs then Some (xs ! 4) else None
     | _ \<Rightarrow> None)"

definition parsed_close :: "'f float_ops \<Rightarrow> 'f pyval \<Rightarrow> 'f option" where
  "parsed_close ops c = (case close_value c of
       Some v \<Rightarrow> (case py_float ops v of Conv x \<Rightarrow> Some x | _ \<Rightarrow> None)
     | None \<Rightarrow> None)"

definition close_overflows :: "'f float_ops \<Rightarrow> 'f pyval \<Rightarrow> bool" where
  "close_overflows ops c = (case close_value c of
       Some v \<Rightarrow> py_float ops v = Conv_overflow
     | None \<Rightarrow> False)"

definition parsed_closes :: "'f float_ops \<Rightarrow> 'f pyval \<Rightarrow> 'f list" where
  "parsed_closes ops data = List.map_filter (parsed_close ops) (extract_candles data)"

section \<open>Concrete inputs\<close>

text \<open>
  A small world for evaluating the definitions: floats are rationals, the secrets file
  holds approval credentials, the SDK hands out one fixed token and answers every call
  with \<open>None\<close>.
\<close>

definition example_ops :: "rat float_ops" where
  "example_ops = \<lparr> fzero = (\<lambda>x. x = 0), float_of_int = (\<lambda>i. Some (of_int i)),
     float_of_str = (\<lambda>s. None), fsub = (\<lambda>a b. a - b), fdiv = (\<lambda>a b. a / b),
     fmul = (\<lambda>a b. a * b), hundred = 100 \<rparr>"

definition example_world :: "rat world" where
  "example_world = \<lparr>
     cfg = map_of [(''approval_api_key'', ''KEY1''), (''approval_secret'', ''SEC1'')],
     env = (\<lambda>k. None),
     pyotp_now = (\<lambda>s. None),
     get_access_token = (\<lambda>c. Inr (PStr ''eyJ0eXAiOiJKV1Qi'')),
     new_client = (\<lambda>t. None),
     sdk_call = (\<lambda>t n a k. Inr PNone),
     new_feed = (\<lambda>t. None),
     feed_call = (\<lambda>t n a. Inr PNone),
     get_all_instruments = (\<lambda>t. Inr \<lparr> frame_columns = [], frame_rows = [] \<rparr>),
     has_attr = (\<lambda>n. True),
     is_callable = (\<lambda>n. True),
     json_loads = (\<lambda>s. Inl ''Expecting value at pos 0''),
     re_compile = (\<lambda>q. Inr (is_substring q)),
     py_upper = ascii_upper,
     py_lower = ascii_lower,
     py_repr = (\<lambda>v. ''?''),
     response_text = (\<lambda>v. ''?''),
     strftime_local = (\<lambda>ts. None),
     fops = example_ops \<rparr>"

definition example_state :: pstate where
  "example_state = \<lparr> stdin = [], feed_cache = [], instrument_cache = None \<rparr>"

definition example_auth_args :: auth_args where
  "example_auth_args = \<lparr> flow_arg = Auto, totp_arg = None, totp_token_arg = None,
     print_token = False, save_token = True \<rparr>"

definition example_auth_events :: "rat event list" where
  "example_auth_events =
     [Sdk_get_access_token (Approval ''KEY1'' ''SEC1''),
      Sdk_client (PStr ''eyJ0eXAiOiJKV1Qi''),
      Write_file ''.access_token'' (''eyJ0eXAiOiJKV1Qi'' @ [CHR 0x0A]),
      Print ''Access token: eyJ0eX...V1Qi'']"

definition example_bad_world :: "rat world" where
  "example_bad_world = example_world\<lparr>
     cfg := map_of [(''approval_api_key'', ''KEY1''), (''approval_secret'', ''SEC1''),
                    (''totp_token'', ''TOK1''), (''totp_secret'', ''not base32!'')] \<rparr>"

definition example_auto_args :: auth_args where
  "example_auto_args = \<lparr> flow_arg = Auto, totp_arg = None, totp_token_arg = None,
     print_token = False, save_token = False \<rparr>"

definition example_totp_args :: auth_args where
  "example_totp_args = \<lparr> flow_arg = Totp_flow, totp_arg = None, totp_token_arg = None,
     print_token = False, save_token = False \<rparr>"

definition example_legacy_world :: "rat world" where
  "example_legacy_world = example_world\<lparr>
     cfg := map_of [(''api_key'', ''KEY1''), (''secret'', ''SEC1'')],
     pyotp_now := (\<lambda>s. Some ''123456'') \<rparr>"

definition example_approval_args :: auth_args where
  "example_approval_args = \<lparr> flow_arg = Approval_flow, totp_arg = None, totp_token_arg = None,
     print_token = False, save_token = False \<rparr>"

definition example_cli_args :: cli_args where
  "example_cli_args = \<lparr> cli_flow = Approval_flow, cli_approval_api_key = None,
     cli_approval_secret = None, cli_totp_token = None, cli_totp = None,
     cli_args_json = None, cli_kwargs_json = None \<rparr>"

definition example_form :: form where
  "example_form = \<lparr> form_flow = Approval_flow, use_secrets = True, form_approval_api_key = [],
     form_approval_secret = [], form_totp_token = [], form_totp_secret = [], form_totp = [] \<rparr>"



definition example_typed :: "string \<Rightarrow> pstate" where
  "example_typed line = \<lparr> stdin = [line], feed_cache = [], instrument_cache = None \<rparr>"

definition example_call_args :: cli_args where
  "example_call_args = \<lparr> cli_flow = Auto, cli_approval_api_key = None,
     cli_approval_secret = None, cli_totp_token = None, cli_totp = None,
     cli_args_json = None, cli_kwargs_json = None \<rparr>"

definition example_print_args :: auth_args where
  "example_print_args = \<lparr> flow_arg = Totp_flow, totp_arg = None, totp_token_arg = None,
     print_token = True, save_token = False \<rparr>"



definition example_nested :: "rat pyval" where
  "example_nested = PDict
     [(''ltp'', PNone),
      (''depth'', PList [PNone, PInt 1, PDict [(''x'', PNone), (''y'', PStr ''a'')], PNone]),
      (''ohlc'', PDict [(''open'', PInt 5), (''close'', PNone)]),
      (''symbol'', PStr ''ACME'')]"

definition example_list_world :: "rat world" where
  "example_list_world = example_world\<lparr> sdk_call := (\<lambda>t n a k. Inr (PList [PNone])) \<rparr>"

definition example_nested_world :: "rat world" where
  "example_nested_world = example_world\<lparr> sdk_call := (\<lambda>t n a k. Inr example_nested) \<rparr>"





definition example_series :: "rat pyval" where
  "example_series = PDict [(''candles'', PList
     [PList [PInt 0, PInt 9, PInt 11, PInt 9, PInt 10, PInt 500],
      PDict [(''close'', PNone), (''c'', PInt 12)],
      PList [PInt 60, PInt 10],
      PTuple [PInt 120, PInt 10, PInt 16, PInt 10, PInt 15, PInt 700]])]"

definition example_series_world :: "rat world" where
  "example_series_world = example_world\<lparr> sdk_call := (\<lambda>t n a k. Inr example_series) \<rparr>"

definition example_zero_world :: "rat world" where
  "example_zero_world = example_world\<lparr> sdk_call := (\<lambda>t n a k. Inr (PList
     [PList [PInt 0, PInt 0, PInt 0, PInt 0, PInt 0, PInt 0],
      PList [PInt 60, PInt 5, PInt 5, PInt 5, PInt 5, PInt 100]])) \<rparr>"

section \<open>Reasoning about programs\<close>

lemma bindE:
  assumes "bind m f s = (es, s', r)"
  obtains (fail) e where "m s = (es, s', Inl e)" "r = Inl e"
        | (ok) es1 s1 x es2 where "m s = (es1, s1, Inr x)" "f x s1 = (es2, s', r)" "es = es1 @ es2"
  using assms unfolding bind_def
  by (auto split: prod.splits sum.splits)

lemma seqE:
  assumes "seq m k s = (es, s', r)"
  obtains (fail) e where "m s = (es, s', Inl e)" "r = Inl e"
        | (ok) es1 s1 es2 where "m s = (es1, s1, Inr ())" "k s1 = (es2, s', r)" "es = es1 @ es2"
  using assms unfolding seq_def by (erule bindE) auto

lemma ret_eq [simp]: "ret x s = (es, s', r) \<longleftrightarrow> es = [] \<and> s' = s \<and> r = Inr x"
  by (auto simp: ret_def)
lemma raise_eq [simp]: "raise e s = (es, s', r) \<longleftrightarrow> es = [] \<and> s' = s \<and> r = Inl e"
  by (auto simp: raise_def)
lemma emit_eq [simp]: "emit ev s = (es, s', r) \<longleftrightarrow> es = [ev] \<and> s' = s \<and> r = Inr ()"
  by (auto simp: emit_def)

lemma sdk_get_access_token_eq:
  "sdk_get_access_token w c s = (es, s', r) \<longleftrightarrow>
     es = [Sdk_get_access_token c] \<and> s' = s \<and> r = (case get_access_token w c of Inl m \<Rightarrow> Inl (OtherError m) | Inr v \<Rightarrow> Inr v)"
  by (auto simp: sdk_get_access_token_def seq_def bind_def sdk_result_def ret_def raise_def emit_def split: sum.splits)

lemma GrowwAPI_eq:
  "GrowwAPI w t s = (es, s', r) \<longleftrightarrow>
     es = [Sdk_client t] \<and> s' = s \<and> r = (case new_client w t of Some m \<Rightarrow> Inl (OtherError m) | None \<Rightarrow> Inr ())"
  by (auto simp: GrowwAPI_def seq_def bind_def ret_def raise_def emit_def split: option.splits)

lemma events_all_ret: "events_all P (ret x)" by (simp add: events_all_def)

lemma events_all_raise: "events_all P (raise e)" by (simp add: events_all_def)

lemma events_all_emit: "P ev \<Longrightarrow> events_all P (emit ev)" by (simp add: events_all_def)

lemma events_all_lift: "events_all P (lift r)" by (cases r) (simp_all add: lift_def events_all_def)

lemma events_all_sdk_result: "events_all P (sdk_result r)" by (cases r) (simp_all add: sdk_result_def events_all_def)

lemma events_all_bind:
  "events_all P m \<Longrightarrow> (\<And>x. events_all P (f x)) \<Longrightarrow> events_all P (bind m f)"
  unfolding events_all_def by (fastforce elim!: bindE)

lemma events_all_seq:
  "events_all P m \<Longrightarrow> events_all P k \<Longrightarrow> events_all P (seq m k)"
  unfolding seq_def by (rule events_all_bind)

lemma keeps_state_ret: "keeps_state (ret x)" by (simp add: keeps_state_def)

lemma keeps_state_raise: "keeps_state (raise e)" by (simp add: keeps_state_def)

lemma keeps_state_emit: "keeps_state (emit ev)" by (simp add: keeps_state_def)

lemma keeps_state_lift: "keeps_state (lift r)" by (cases r) (simp_all add: lift_def keeps_state_def)

lemma keeps_state_sdk_result: "keeps_state (sdk_result r)" by (cases r) (simp_all add: sdk_result_def keeps_state_def)

lemma keeps_state_bind:
  "keeps_state m \<Longrightarrow> (\<And>x. keeps_state (f x)) \<Longrightarrow> keeps_state (bind m f)"
  unfolding keeps_state_def by (fastforce elim!: bindE)

lemma keeps_state_seq:
  "keeps_state m \<Longrightarrow> keeps_state k \<Longrightarrow> keeps_state (seq m k)"
  unfolding seq_def by (rule keeps_state_bind)

lemma yields_raise: "yields R (raise e)" by (simp add: yields_def)

lemma yields_ret: "R x [] \<Longrightarrow> yields R (ret x)" by (simp add: yields_def)

lemma yields_bind:
  "(\<And>x. yields R (f x)) \<Longrightarrow> (\<And>x es1 es2. R x es2 \<Longrightarrow> R x (es1 @ es2)) \<Longrightarrow> yields R (bind m f)"
  unfolding yields_def by (fastforce elim!: bindE)

lemma yields_seq:
  "yields R k \<Longrightarrow> (\<And>x es1 es2. R x es2 \<Longrightarrow> R x (es1 @ es2)) \<Longrightarrow> yields R (seq m k)"
  unfolding seq_def by (rule yields_bind)

lemmas prog_intros =
  events_all_ret events_all_raise events_all_emit events_all_lift events_all_sdk_result
  events_all_bind events_all_seq
  keeps_state_ret keeps_state_raise keeps_state_emit keeps_state_lift keeps_state_sdk_result
  keeps_state_bind keeps_state_seq

lemma events_all_sdk_token: "P (Sdk_get_access_token c) \<Longrightarrow> events_all P (sdk_get_access_token w c)"
  unfolding sdk_get_access_token_def by (intro prog_intros)

lemma keeps_state_sdk_token: "keeps_state (sdk_get_access_token w c)"
  unfolding sdk_get_access_token_def by (intro prog_intros)

lemma from_sdk_append: "from_sdk w obj es2 \<Longrightarrow> from_sdk w obj (es1 @ es2)"
  by (auto simp: from_sdk_def)

lemma yields_sdk_token: "yields (from_sdk w) (sdk_get_access_token w c)"
  by (auto simp: yields_def sdk_get_access_token_eq from_sdk_def split: sum.splits)

lemma bind_ret: "bind (ret x) f = f x"
  by (simp add: bind_def ret_def fun_eq_iff split: prod.splits)

lemma bind_raise: "bind (raise e) f = raise e"
  by (simp add: bind_def raise_def fun_eq_iff)

lemma bind_assoc: "bind (bind m f) g = bind m (\<lambda>x. bind (f x) g)"
  by (auto simp: bind_def fun_eq_iff split: prod.splits sum.splits)

lemma bind_emit_apply: "bind (emit ev) f s = (case f () s of (es, rest) \<Rightarrow> (ev # es, rest))"
  by (simp add: bind_def emit_def split: prod.splits)

lemma ret_apply: "ret x s = ([], s, Inr x)"
  by (simp add: ret_def)

lemma raise_apply: "raise e s = ([], s, Inl e)"
  by (simp add: raise_def)

lemmas run_simps = seq_def bind_assoc bind_ret bind_raise bind_emit_apply ret_apply raise_apply

lemma truthy_str_iff: "truthy_str v \<longleftrightarrow> (\<exists>x. v = Some x \<and> x \<noteq> [])"
  by (cases v) auto

lemma bind_run_ok:
  "m s = (es, s', Inr x) \<Longrightarrow> bind m f s = (case f x s' of (es2, rest) \<Rightarrow> (es @ es2, rest))"
  by (simp add: bind_def)

lemma bind_run_fail: "m s = (es, s', Inl e) \<Longrightarrow> bind m f s = (es, s', Inl e)"
  by (simp add: bind_def)

lemma events_all_catch:
  "events_all P m \<Longrightarrow> (\<And>e. events_all P (h e)) \<Longrightarrow> events_all P (catch m h)"
  unfolding events_all_def catch_def
  by (fastforce split: prod.splits sum.splits if_splits)

lemma events_all_run: "events_all P m \<Longrightarrow> list_all P (fst (m s))"
  by (cases "m s") (auto simp: events_all_def list_all_iff)

lemma events_all_getpass: "P (Getpass p) \<Longrightarrow> events_all P (getpass p)"
  by (auto simp: events_all_def getpass_def split: list.splits)

lemma events_all_input_line: "P (Input p) \<Longrightarrow> events_all P (input_line p)"
  by (auto simp: events_all_def input_line_def split: list.splits)

lemma events_all_GrowwAPI: "P (Sdk_client t) \<Longrightarrow> events_all P (GrowwAPI w t)"
  unfolding GrowwAPI_def by (auto intro!: prog_intros split: option.split)

lemma choose_loop_events:
  "choose_loop ls = (es, rest, r) \<Longrightarrow>
     \<forall>ev \<in> set es. ev = Input choose_prompt \<or> ev = Print ''Please enter 1 or 2.''"
  by (induction ls arbitrary: es rest r) (auto simp: Let_def split: if_splits prod.splits)

lemma events_all_choose_flow:
  assumes "P (Input choose_prompt)" "P (Print ''Please enter 1 or 2.'')"
  shows "events_all P (choose_flow a b)"
  using assms unfolding choose_flow_def events_all_def
  by (auto split: prod.splits dest!: choose_loop_events)

lemma events_all_or_getpass: "P (Getpass p) \<Longrightarrow> events_all P (or_getpass v p)"
  unfolding or_getpass_def
  by (auto intro!: prog_intros events_all_getpass split: option.split)



lemma events_all_case_option:
  "(v = None \<Longrightarrow> events_all P a) \<Longrightarrow> (\<And>x. v = Some x \<Longrightarrow> events_all P (b x)) \<Longrightarrow>
   events_all P (case v of None \<Rightarrow> a | Some x \<Rightarrow> b x)"
  by (cases v) simp_all



























lemma notes_then_events: "events_all P m \<Longrightarrow> notes_then [] P m"
  unfolding notes_then_def
proof
  fix s
  assume "events_all P m"
  then have "list_all P (fst (m s))"
    by (rule events_all_run)
  then show "\<exists>rest. fst (m s) = [] @ rest \<and> list_all P rest"
    by simp
qed

lemma notes_then_emit:
  "notes_then pre P k \<Longrightarrow> notes_then (ev # pre) P (bind (emit ev) (\<lambda>_. k))"
  unfolding notes_then_def
proof
  fix s
  assume "\<forall>s. \<exists>rest. fst (k s) = pre @ rest \<and> list_all P rest"
  then obtain rest where "fst (k s) = pre @ rest" "list_all P rest" by blast
  then show "\<exists>rest. fst (bind (emit ev) (\<lambda>_. k) s) = (ev # pre) @ rest \<and> list_all P rest"
    by (cases "k s") (auto simp: bind_def emit_def)
qed

lemma notes_then_bind:
  assumes "notes_then pre P m" "\<And>x. events_all P (f x)"
  shows "notes_then pre P (bind m f)"
  unfolding notes_then_def
proof
  fix s
  from assms(1) obtain rest where rest: "fst (m s) = pre @ rest" "list_all P rest"
    unfolding notes_then_def by blast
  obtain es s1 r where m: "m s = (es, s1, r)"
    by (cases "m s") auto
  show "\<exists>rest. fst (bind m f s) = pre @ rest \<and> list_all P rest"
  proof (cases r)
    case (Inl e)
    with m rest show ?thesis by (simp add: bind_def)
  next
    case (Inr x)
    obtain es2 s2 r2 where f: "f x s1 = (es2, s2, r2)"
      by (cases "f x s1") auto
    from assms(2) [of x] f have "list_all P es2"
      by (auto simp: events_all_def list_all_iff)
    with m rest Inr f show ?thesis by (simp add: bind_def)
  qed
qed

lemma notes_then_mono:
  "notes_then pre P m \<Longrightarrow> (\<And>ev. P ev \<Longrightarrow> Q ev) \<Longrightarrow> notes_then pre Q m"
  unfolding notes_then_def list_all_iff by blast

lemma notes_then_run:
  "notes_then pre P m \<Longrightarrow> \<exists>rest. fst (m s) = pre @ rest \<and> list_all P rest"
  by (simp add: notes_then_def)

lemma from_sdk_prefix: "from_sdk w obj es1 \<Longrightarrow> from_sdk w obj (es1 @ es2)"
  by (auto simp: from_sdk_def)

lemma sdk_method_run:
  "sdk_method w t name args kwargs s =
     ([Sdk_method name args kwargs], s,
      case sdk_call w t name args kwargs of Inl m \<Rightarrow> Inl (OtherError m) | Inr v \<Rightarrow> Inr v)"
  by (simp add: sdk_method_def seq_def bind_def emit_def sdk_result_def ret_def raise_def
           split: sum.splits)

lemma GrowwAPI_run:
  "GrowwAPI w t s =
     ([Sdk_client t], s, case new_client w t of Some m \<Rightarrow> Inl (OtherError m) | None \<Rightarrow> Inr ())"
  by (simp add: GrowwAPI_def seq_def bind_def emit_def ret_def raise_def split: option.splits)

lemma client_call_run:
  "client_call w token name args kwargs s =
     (case new_client w (PStr token) of
        Some m \<Rightarrow> ([Sdk_client (PStr token)], s, Inl (OtherError m))
      | None \<Rightarrow> ([Sdk_client (PStr token), Sdk_method name args kwargs], s,
                  case sdk_call w (PStr token) name args kwargs of
                    Inl m \<Rightarrow> Inl (OtherError m) | Inr v \<Rightarrow> Inr v))"
  by (simp add: client_call_def get_client_def seq_def bind_def GrowwAPI_run sdk_method_run
           split: option.splits sum.splits)

lemma handler_client_call_run:
  "token \<noteq> [] \<Longrightarrow> handler token (client_call w token name args kwargs) s =
     (case new_client w (PStr token) of
        Some m \<Rightarrow> ([Sdk_client (PStr token)], s, Inr (error_dict m))
      | None \<Rightarrow> ([Sdk_client (PStr token), Sdk_method name args kwargs], s,
                  case sdk_call w (PStr token) name args kwargs of
                    Inl m \<Rightarrow> Inr (error_dict m) | Inr v \<Rightarrow> Inr v))"
  by (auto simp add: handler_def catch_def client_call_run ret_def split: option.splits sum.splits)

lemma handler_not_connected: "handler [] body s = ([], s, Inr not_connected)"
  by (simp add: handler_def ret_def)

lemma is_success_dict_error [simp]: "\<not> is_success_dict (error_dict m)"
  by (simp add: is_success_dict_def error_dict_def)

lemma parse_candle_close_as_worded:
  "parse_candle_close ops c =
     (if close_overflows ops c then Inl overflow_error else Inr (parsed_close ops c))"
  by (cases c)
     (simp_all add: parse_candle_close_def close_overflows_def parsed_close_def close_value_def
        to_close_def split: option.splits conv.splits)

lemma closes_of_as_worded:
  "closes_of ops cs =
     (if list_ex (close_overflows ops) cs then Inl overflow_error
      else Inr (List.map_filter (parsed_close ops) cs))"
  by (induction cs)
     (auto simp add: parse_candle_close_as_worded map_filter_simps split: option.splits)

lemma backtest_summary_raises:
  "backtest_summary ops data = Inl e \<Longrightarrow> is_Exception e"
  by (auto simp add: backtest_summary_def closes_of_as_worded overflow_error_def Let_def
        split: if_splits)

lemma backtest_simple_run:
  "token \<noteq> [] \<Longrightarrow> new_client w (PStr token) = None \<Longrightarrow>
   sdk_call w (PStr token) ''get_historical_candle_data'' []
     (historical_kwargs w symbol exchange segment start_time end_time interval_minutes) = Inr data \<Longrightarrow>
   backtest_simple w token symbol exchange segment start_time end_time interval_minutes s =
     ([Sdk_client (PStr token),
       Sdk_method ''get_historical_candle_data'' []
         (historical_kwargs w symbol exchange segment start_time end_time interval_minutes)], s,
      case backtest_summary (fops w) data of
        Inl e \<Rightarrow> Inr (error_dict (exc_message e))
      | Inr v \<Rightarrow> Inr v)"
  by (auto simp add: backtest_simple_def handler_def catch_def bind_def client_call_run lift_def
        ret_def raise_def dest: backtest_summary_raises split: sum.splits)

section \<open>Facts about the authentication steps\<close>

lemma totp_steps_events:
  "events_all (\<lambda>ev. \<not> is_write ev) (totp_steps w m1 m2 fl lk ls tt t0 ts tc)"
  unfolding totp_steps_def
  by (auto intro!: prog_intros events_all_sdk_token simp: is_write_def
           split: option.split sum.split prod.split)

lemma totp_steps_state:
  "keeps_state (totp_steps w m1 m2 fl lk ls tt t0 ts tc)"
  unfolding totp_steps_def
  by (auto intro!: prog_intros keeps_state_sdk_token split: option.split sum.split prod.split)

lemma yields_totp_call [simp]:
  "yields (\<lambda>r es. \<forall>obj. r = Some obj \<longrightarrow> from_sdk w obj es)
     (bind (sdk_get_access_token w c) (\<lambda>obj. ret (Some obj)))"
  by (auto simp: yields_def sdk_get_access_token_eq from_sdk_def elim!: bindE split: sum.splits)

lemma totp_steps_yields:
  "yields (\<lambda>r es. \<forall>obj. r = Some obj \<longrightarrow> from_sdk w obj es) (totp_steps w m1 m2 fl lk ls tt t0 ts tc)"
  unfolding totp_steps_def
  by (auto intro!: yields_bind yields_raise yields_ret simp: from_sdk_append
           split: option.split sum.split prod.split)

lemma totp_steps_frame:
  assumes "totp_steps w m1 m2 fl lk ls tt t0 ts tc s = (es, s', r)"
  shows "s' = s \<and> filter is_write es = [] \<and>
         (\<forall>obj. r = Inr (Some obj) \<longrightarrow>
            (\<exists>c. Sdk_get_access_token c \<in> set es \<and> get_access_token w c = Inr obj))"
proof -
  from totp_steps_state assms have "s' = s"
    unfolding keeps_state_def by blast
  moreover from totp_steps_events assms have "\<forall>ev \<in> set es. \<not> is_write ev"
    unfolding events_all_def by blast
  then have "filter is_write es = []"
    by (simp add: filter_empty_conv)
  moreover from totp_steps_yields assms
  have "\<forall>obj. r = Inr (Some obj) \<longrightarrow> from_sdk w obj es"
    unfolding yields_def by blast
  ultimately show ?thesis
    unfolding from_sdk_def by simp
qed

lemma auth_approval_steps_frame:
  assumes "auth_approval_steps w k sec s = (es, s', r)"
  shows "s' = s \<and> filter is_write es = [] \<and>
         (\<forall>obj. r = Inr obj \<longrightarrow>
            (\<exists>c. Sdk_get_access_token c \<in> set es \<and> get_access_token w c = Inr obj))"
  using assms unfolding auth_approval_steps_def
  by (auto simp: sdk_get_access_token_eq is_write_def split: option.splits if_splits sum.splits)


section \<open>Credential precedence\<close>





















section \<open>An invalid TOTP secret\<close>

lemma totp_steps_invalid_secret:
  assumes "derivation_fails w r"
  shows "totp_steps w m1 m2 fl (legacy_api_key r) (legacy_secret r) (totp_token r) (totp r)
           (totp_secret r) (totp_from_cfg r) s =
         (if fl = Auto then (legacy_notes r @ [Print note_fallback], s, Inr None)
          else (legacy_notes r, s, Inl (SystemExit auth_invalid_totp_secret)))"
proof -
  from assms obtain tok sec where
    tok: "effective_totp_token r = Some tok" "tok \<noteq> []" and
    nt: "\<not> truthy_str (totp r)" and
    sec: "effective_totp_secret r = Some sec" "sec \<noteq> []" "pyotp_now w sec = None"
    unfolding derivation_fails_def by (auto simp: truthy_str_iff split: option.splits)
  let ?A = "\<not> truthy_str (totp_token r) \<and> truthy_str (legacy_api_key r)"
  let ?B = "\<not> truthy_str (totp_secret r) \<and> truthy_str (legacy_secret r)"
  have eff: "truthy_str (effective_totp_token r)"
    using tok by simp
  show ?thesis
  proof (cases ?A)
    case A: True
    then have k: "legacy_api_key r = Some tok"
      using tok by (auto simp: effective_totp_token_def split: if_splits)
    show ?thesis
    proof (cases ?B)
      case B: True
      then have l: "legacy_secret r = Some sec"
        using sec nt by (auto simp: effective_totp_secret_def split: if_splits)
      from A B nt k l tok sec eff show ?thesis
        by (simp add: totp_steps_def legacy_notes_def auth_totp_now_from_secret_def run_simps)
    next
      case B: False
      then have l: "totp_secret r = Some sec"
        using sec nt by (auto simp: effective_totp_secret_def split: if_splits)
      from A B nt k l tok sec eff show ?thesis
        by (simp add: totp_steps_def legacy_notes_def auth_totp_now_from_secret_def run_simps)
    qed
  next
    case A: False
    then have k: "totp_token r = Some tok"
      using tok by (auto simp: effective_totp_token_def split: if_splits)
    show ?thesis
    proof (cases ?B)
      case B: True
      then have l: "legacy_secret r = Some sec"
        using sec nt by (auto simp: effective_totp_secret_def split: if_splits)
      from A B nt k l tok sec eff show ?thesis
        by (simp add: totp_steps_def legacy_notes_def auth_totp_now_from_secret_def run_simps)
    next
      case B: False
      then have l: "totp_secret r = Some sec"
        using sec nt by (auto simp: effective_totp_secret_def split: if_splits)
      from A B nt k l tok sec eff show ?thesis
        by (simp add: totp_steps_def legacy_notes_def auth_totp_now_from_secret_def run_simps)
    qed
  qed
qed

lemma auto_no_legacy:
  assumes "use_totp_initially Auto r" "derivation_fails w r"
  shows "legacy_notes r = []"
  using assms
  by (auto simp: use_totp_initially_def derivation_fails_def legacy_notes_def)

text \<open>
  Claim C3. Deriving a code from a secret that \<open>pyotp\<close> rejects raises \<open>ValueError\<close>
  instead of returning a code. When \<open>main\<close> of the authenticator or \<open>_get_access_token\<close>
  of the smoke test derives the code from such a secret (\<open>derivation_fails\<close>), then under
  \<open>--flow auto\<close> the run prints the fallback note and continues exactly as the approval
  flow does, and under \<open>--flow totp\<close> it ends with \<open>SystemExit\<close> carrying the text of
  that error, after the notes about legacy keys. Each of the four statements holds on
  its own.
\<close>

theorem invalid_totp_secret_by_flow:
  "(pyotp_now w sec = None \<longrightarrow>
      auth_totp_now_from_secret w sec = Inl (ValueError auth_invalid_totp_secret)) \<and>
   (flow_arg a = Auto \<and> use_totp_initially Auto (auth_resolve w a) \<and>
    derivation_fails w (auth_resolve w a) \<longrightarrow>
      auth_main w a s =
        (case bind (auth_approval_steps w (approval_api_key (auth_resolve w a))
                      (approval_secret (auth_resolve w a))) (auth_finish w a) s of
           (es, rest) \<Rightarrow> (Print note_fallback # es, rest))) \<and>
   (flow_arg t = Totp_flow \<and> derivation_fails w (auth_resolve w t) \<longrightarrow>
      auth_main w t s =
        (legacy_notes (auth_resolve w t), s, Inl (SystemExit auth_invalid_totp_secret))) \<and>
   (use_totp_initially Auto (smoke_resolve w oa) \<and> derivation_fails w (smoke_resolve w oa) \<longrightarrow>
      smoke_get_access_token w Auto oa s =
        (case bind (smoke_approval_steps w (approval_api_key (smoke_resolve w oa))
                      (approval_secret (smoke_resolve w oa)))
                   (\<lambda>token_obj. ret (normalize_token w token_obj)) s of
           (es, rest) \<Rightarrow> (Print note_fallback # es, rest))) \<and>
   (derivation_fails w (smoke_resolve w ot) \<longrightarrow>
      smoke_get_access_token w Totp_flow ot s =
        (legacy_notes (smoke_resolve w ot), s, Inl (SystemExit auth_invalid_totp_secret)))"
proof (intro conjI impI)
  assume "pyotp_now w sec = None"
  then show "auth_totp_now_from_secret w sec = Inl (ValueError auth_invalid_totp_secret)"
    by (simp add: auth_totp_now_from_secret_def)
next
  let ?r = "auth_resolve w a"
  assume "flow_arg a = Auto \<and> use_totp_initially Auto ?r \<and> derivation_fails w ?r"
  then have a: "flow_arg a = Auto" "use_totp_initially Auto ?r" "derivation_fails w ?r"
    by simp_all
  have "totp_steps w auth_missing_totp_token auth_missing_totp Auto (legacy_api_key ?r)
          (legacy_secret ?r) (totp_token ?r) (totp ?r) (totp_secret ?r) (totp_from_cfg ?r) s =
        ([Print note_fallback], s, Inr None)"
    using totp_steps_invalid_secret [OF a(3), where fl = Auto] auto_no_legacy [OF a(2,3)]
    by simp
  then show "auth_main w a s =
      (case bind (auth_approval_steps w (approval_api_key ?r) (approval_secret ?r))
              (auth_finish w a) s of
         (es, rest) \<Rightarrow> (Print note_fallback # es, rest))"
    using a(1,2) by (simp add: auth_main_def Let_def bind_run_ok)
next
  let ?r = "auth_resolve w t"
  assume "flow_arg t = Totp_flow \<and> derivation_fails w ?r"
  then have t: "flow_arg t = Totp_flow" "derivation_fails w ?r"
    by simp_all
  have "totp_steps w auth_missing_totp_token auth_missing_totp Totp_flow (legacy_api_key ?r)
          (legacy_secret ?r) (totp_token ?r) (totp ?r) (totp_secret ?r) (totp_from_cfg ?r) s =
        (legacy_notes ?r, s, Inl (SystemExit auth_invalid_totp_secret))"
    using totp_steps_invalid_secret [OF t(2), where fl = Totp_flow] by simp
  then show "auth_main w t s = (legacy_notes ?r, s, Inl (SystemExit auth_invalid_totp_secret))"
    using t(1) by (simp add: auth_main_def Let_def use_totp_initially_def bind_run_fail)
next
  let ?r = "smoke_resolve w oa"
  assume "use_totp_initially Auto ?r \<and> derivation_fails w ?r"
  then have sa: "use_totp_initially Auto ?r" "derivation_fails w ?r"
    by simp_all
  have "totp_steps w smoke_missing_totp_token smoke_missing_totp Auto (legacy_api_key ?r)
          (legacy_secret ?r) (totp_token ?r) (totp ?r) (totp_secret ?r) (totp_from_cfg ?r) s =
        ([Print note_fallback], s, Inr None)"
    using totp_steps_invalid_secret [OF sa(2), where fl = Auto] auto_no_legacy [OF sa]
    by simp
  then show "smoke_get_access_token w Auto oa s =
      (case bind (smoke_approval_steps w (approval_api_key ?r) (approval_secret ?r))
                 (\<lambda>token_obj. ret (normalize_token w token_obj)) s of
         (es, rest) \<Rightarrow> (Print note_fallback # es, rest))"
    using sa(1) by (simp add: smoke_get_access_token_def Let_def bind_run_ok)
next
  let ?r = "smoke_resolve w ot"
  assume st: "derivation_fails w ?r"
  have "totp_steps w smoke_missing_totp_token smoke_missing_totp Totp_flow (legacy_api_key ?r)
          (legacy_secret ?r) (totp_token ?r) (totp ?r) (totp_secret ?r) (totp_from_cfg ?r) s =
        (legacy_notes ?r, s, Inl (SystemExit auth_invalid_totp_secret))"
    using totp_steps_invalid_secret [OF st, where fl = Totp_flow] by simp
  then show "smoke_get_access_token w Totp_flow ot s =
      (legacy_notes ?r, s, Inl (SystemExit auth_invalid_totp_secret))"
    by (simp add: smoke_get_access_token_def Let_def use_totp_initially_def bind_run_fail)
qed

lemma example_bad_facts:
  "pyotp_now example_bad_world ''not base32!'' = None"
  "flow_arg example_auto_args = Auto"
  "use_totp_initially Auto (auth_resolve example_bad_world example_auto_args)"
  "derivation_fails example_bad_world (auth_resolve example_bad_world example_auto_args)"
  "flow_arg example_totp_args = Totp_flow"
  "derivation_fails example_bad_world (auth_resolve example_bad_world example_totp_args)"
  "use_totp_initially Auto (smoke_resolve example_bad_world None)"
  "derivation_fails example_bad_world (smoke_resolve example_bad_world None)"
  by code_simp+

theorem invalid_totp_secret_by_flow_witness:
  "pyotp_now example_bad_world ''not base32!'' = None \<and>
   flow_arg example_auto_args = Auto \<and>
   use_totp_initially Auto (auth_resolve example_bad_world example_auto_args) \<and>
   derivation_fails example_bad_world (auth_resolve example_bad_world example_auto_args) \<and>
   flow_arg example_totp_args = Totp_flow \<and>
   derivation_fails example_bad_world (auth_resolve example_bad_world example_totp_args) \<and>
   use_totp_initially Auto (smoke_resolve example_bad_world None) \<and>
   derivation_fails example_bad_world (smoke_resolve example_bad_world None) \<and>
   auth_totp_now_from_secret example_bad_world ''not base32!'' =
     Inl (ValueError auth_invalid_totp_secret) \<and>
   auth_main example_bad_world example_auto_args example_state =
     (case bind (auth_approval_steps example_bad_world
                   (approval_api_key (auth_resolve example_bad_world example_auto_args))
                   (approval_secret (auth_resolve example_bad_world example_auto_args)))
                (auth_finish example_bad_world example_auto_args) example_state of
        (es, rest) \<Rightarrow> (Print note_fallback # es, rest)) \<and>
   auth_main example_bad_world example_totp_args example_state =
     (legacy_notes (auth_resolve example_bad_world example_totp_args), example_state,
      Inl (SystemExit auth_invalid_totp_secret)) \<and>
   smoke_get_access_token example_bad_world Auto None example_state =
     (case bind (smoke_approval_steps example_bad_world
                   (approval_api_key (smoke_resolve example_bad_world None))
                   (approval_secret (smoke_resolve example_bad_world None)))
                (\<lambda>token_obj. ret (normalize_token example_bad_world token_obj)) example_state of
        (es, rest) \<Rightarrow> (Print note_fallback # es, rest)) \<and>
   smoke_get_access_token example_bad_world Totp_flow None example_state =
     (legacy_notes (smoke_resolve example_bad_world None), example_state,
      Inl (SystemExit auth_invalid_totp_secret))"
proof -
  note f = example_bad_facts
  note inst = invalid_totp_secret_by_flow [where w = example_bad_world
    and sec = "''not base32!''" and a = example_auto_args and t = example_totp_args
    and oa = None and ot = None and s = example_state]
  show ?thesis
    using f inst by blast
qed

lemma example_bad_runs:
  "auth_main example_bad_world example_auto_args example_state =
     ([Print note_fallback, Sdk_get_access_token (Approval ''KEY1'' ''SEC1''),
       Sdk_client (PStr ''eyJ0eXAiOiJKV1Qi''), Print ''Access token: eyJ0eX...V1Qi''],
      example_state, Inr 0)"
  by code_simp

section \<open>Rename notices for legacy keys\<close>

lemma not_rename_note:
  "\<not> is_rename_note (Input p)" "\<not> is_rename_note (Getpass p)"
  "\<not> is_rename_note (Sdk_get_access_token c)" "\<not> is_rename_note (Sdk_client t)"
  "\<not> is_rename_note (Write_file f x)"
  "\<not> is_rename_note (Print ''Please enter 1 or 2.'')"
  "\<not> is_rename_note (Print (CHR ''A'' # v))"
  "\<not> is_rename_note (Print note_fallback)"
  "\<not> is_rename_note (Print note_totp_cfg)"
  by (simp_all add: is_rename_note_def note_api_key_def note_secret_def note_fallback_def
        note_totp_cfg_def)

lemma totp_rest_silent:
  "events_all (\<lambda>ev. \<not> is_rename_note ev)
     (bind (case sec of
              None \<Rightarrow> ret (True, tp)
            | Some x \<Rightarrow>
                if \<not> truthy_str tp \<and> x \<noteq> []
                then (case auth_totp_now_from_secret w x of
                        Inr code \<Rightarrow> ret (True, Some code)
                      | Inl e \<Rightarrow>
                          if fl = Auto then seq (emit (Print note_fallback)) (ret (False, tp))
                          else raise (SystemExit (exc_message e)))
                else ret (True, tp)) (\<lambda>(use_totp, totp1).
      bind (if use_totp \<and> \<not> truthy_str totp1 \<and> truthy_str tcfg
            then seq (emit (Print note_totp_cfg)) (ret tcfg)
            else ret totp1) (\<lambda>totp.
      if use_totp then
        (case totp of
           None \<Rightarrow> raise (SystemExit m2)
         | Some code \<Rightarrow>
             if code = [] then raise (SystemExit m2)
             else bind (sdk_get_access_token w (Totp tok code)) (\<lambda>obj. ret (Some obj)))
      else ret None)))"
  by (auto intro!: prog_intros events_all_sdk_token simp: not_rename_note
           split: option.split sum.split prod.split)

lemma totp_steps_notes:
  "notes_then (legacy_notes r) (\<lambda>ev. \<not> is_rename_note ev)
     (totp_steps w m1 m2 fl (legacy_api_key r) (legacy_secret r) (totp_token r) (totp r)
        (totp_secret r) (totp_from_cfg r))"
proof -
  let ?A = "\<not> truthy_str (totp_token r) \<and> truthy_str (legacy_api_key r)"
  let ?B = "\<not> truthy_str (totp r) \<and> \<not> truthy_str (totp_secret r) \<and> truthy_str (legacy_secret r)"
  show ?thesis
  proof (cases "truthy_str (effective_totp_token r)")
    case False
    then have A: "\<not> ?A"
      by (auto simp: effective_totp_token_def split: if_splits)
    from False A have n: "legacy_notes r = []"
      by (auto simp: legacy_notes_def)
    from False A have "totp_steps w m1 m2 fl (legacy_api_key r) (legacy_secret r) (totp_token r)
        (totp r) (totp_secret r) (totp_from_cfg r) = raise (SystemExit m1)"
      unfolding totp_steps_def if_not_P [OF A]
      by (cases "totp_token r") (auto simp: effective_totp_token_def bind_ret)
    then show ?thesis
      unfolding n by (simp add: notes_then_events events_all_raise)
  next
    case True
    then obtain tok where tok: "effective_totp_token r = Some tok" "tok \<noteq> []"
      by (auto simp: truthy_str_iff)
    show ?thesis
    proof (cases ?A)
      case A: True
      then have k: "legacy_api_key r = Some tok"
        using tok by (auto simp: effective_totp_token_def split: if_splits)
      show ?thesis
      proof (cases ?B)
        case B: True
        have n: "legacy_notes r = [Print note_api_key, Print note_secret]"
          using A B True by (simp add: legacy_notes_def)
        show ?thesis
          unfolding n totp_steps_def if_P [OF A] if_P [OF B]
          using k tok
          by (simp add: seq_def bind_assoc bind_ret split del: if_split)
             (intro notes_then_emit notes_then_events totp_rest_silent)
      next
        case B: False
        have n: "legacy_notes r = [Print note_api_key]"
          using A B True by (auto simp: legacy_notes_def)
        show ?thesis
          unfolding n totp_steps_def if_P [OF A] if_not_P [OF B]
          using k tok
          by (simp add: seq_def bind_assoc bind_ret split del: if_split)
             (intro notes_then_emit notes_then_events totp_rest_silent)
      qed
    next
      case A: False
      then have k: "totp_token r = Some tok"
        using tok by (auto simp: effective_totp_token_def split: if_splits)
      show ?thesis
      proof (cases ?B)
        case B: True
        have n: "legacy_notes r = [Print note_secret]"
          using A B True by (auto simp: legacy_notes_def)
        show ?thesis
          unfolding n totp_steps_def if_not_P [OF A] if_P [OF B]
          using k tok
          by (simp add: seq_def bind_assoc bind_ret split del: if_split)
             (intro notes_then_emit notes_then_events totp_rest_silent)
      next
        case B: False
        have n: "legacy_notes r = []"
          using A B True by (auto simp: legacy_notes_def)
        show ?thesis
          unfolding n totp_steps_def if_not_P [OF A] if_not_P [OF B]
          using k tok
          by (simp add: seq_def bind_assoc bind_ret split del: if_split)
             (intro notes_then_emit notes_then_events totp_rest_silent)
      qed
    qed
  qed
qed

lemma cli_get_access_token_silent:
  "events_all (\<lambda>ev. \<not> is_rename_note ev) (cli_get_access_token w args)"
  unfolding cli_get_access_token_def Let_def
  by (auto intro!: prog_intros events_all_choose_flow events_all_or_getpass events_all_sdk_token
           simp: not_rename_note split: option.split)

lemma connect_silent:
  "events_all (\<lambda>ev. \<not> is_rename_note ev) (connect w f)"
  unfolding connect_def connect_body_def connect_finish_def get_client_def Let_def
  by (auto intro!: prog_intros events_all_catch events_all_sdk_token events_all_GrowwAPI
           simp: not_rename_note split: option.split)

lemma auth_approval_steps_silent:
  "events_all (\<lambda>ev. \<not> is_rename_note ev) (auth_approval_steps w k sec)"
  unfolding auth_approval_steps_def
  by (auto intro!: prog_intros events_all_sdk_token simp: not_rename_note split: option.split)

lemma smoke_approval_steps_silent:
  "events_all (\<lambda>ev. \<not> is_rename_note ev) (smoke_approval_steps w k sec)"
  unfolding smoke_approval_steps_def
  by (auto intro!: prog_intros events_all_sdk_token simp: not_rename_note split: option.split)

lemma auth_finish_run:
  "auth_finish w a obj s =
     (let tok = normalize_access_token w obj in
      if tok = [] then ([], s, Inl (SystemExit auth_empty_token))
      else (case new_client w (PStr tok) of
              Some m \<Rightarrow> ([Sdk_client (PStr tok)], s, Inl (OtherError m))
            | None \<Rightarrow>
                ([Sdk_client (PStr tok)] @
                 (if save_token a then [Write_file ''.access_token'' (strip tok @ [CHR 0x0A])]
                  else []) @
                 [Print (if print_token a then tok else ''Access token: '' @ redact tok)],
                 s, Inr 0)))"
  by (simp add: auth_finish_def GrowwAPI_def Let_def seq_def bind_def ret_def raise_def emit_def
           split: option.splits)

lemma auth_finish_notes:
  assumes "auth_finish w a obj s = (es, s', r)"
  shows "\<exists>mid fin. es = mid @ fin \<and> list_all (\<lambda>ev. \<not> is_rename_note ev) mid \<and>
           (fin = [] \<or> print_token a \<and> fin = [Print (normalize_access_token w obj)])"
proof (cases "print_token a \<and> succeeded r")
  case False
  with assms have "es = es @ [] \<and> list_all (\<lambda>ev. \<not> is_rename_note ev) es"
    unfolding auth_finish_run Let_def
    by (auto simp: not_rename_note split: if_splits option.splits)
  then show ?thesis by blast
next
  case True
  let ?tok = "normalize_access_token w obj"
  let ?mid = "[Sdk_client (PStr ?tok)] @
     (if save_token a then [Write_file ''.access_token'' (strip ?tok @ [CHR 0x0A])] else [])"
  from True assms have "es = ?mid @ [Print ?tok]"
    unfolding auth_finish_run Let_def
    by (auto split: if_splits option.splits)
  moreover have "list_all (\<lambda>ev. \<not> is_rename_note ev) ?mid"
    by (simp add: not_rename_note)
  ultimately show ?thesis
    using True by blast
qed

lemma auth_main_notes:
  "notes_and_token w a
     (if use_totp_initially (flow_arg a) (auth_resolve w a)
      then legacy_notes (auth_resolve w a) else [])
     (fst (auth_main w a s))"
proof -
  let ?r = "auth_resolve w a"
  let ?pre = "if use_totp_initially (flow_arg a) ?r then legacy_notes ?r else []"
  let ?quiet = "list_all (\<lambda>ev :: 'a event. \<not> is_rename_note ev)"
  define m where "m = (if use_totp_initially (flow_arg a) ?r
            then totp_steps w auth_missing_totp_token auth_missing_totp (flow_arg a)
                   (legacy_api_key ?r) (legacy_secret ?r) (totp_token ?r) (totp ?r) (totp_secret ?r)
                   (totp_from_cfg ?r)
            else ret None)"
  obtain es s' res where run0: "auth_main w a s = (es, s', res)"
    by (cases "auth_main w a s") auto
  then have run: "bind m (\<lambda>from_totp.
      bind (case from_totp of Some obj \<Rightarrow> ret obj
            | None \<Rightarrow> auth_approval_steps w (approval_api_key ?r) (approval_secret ?r))
           (auth_finish w a)) s = (es, s', res)"
    unfolding auth_main_def Let_def m_def by simp
  have "notes_then ?pre (\<lambda>ev. \<not> is_rename_note ev) m"
    unfolding m_def by (auto intro: totp_steps_notes notes_then_events events_all_ret)
  then obtain rest1 where rest1: "fst (m s) = ?pre @ rest1" "?quiet rest1"
    unfolding notes_then_def by blast
  have sdk1: "\<And>es1 s1 obj. m s = (es1, s1, Inr (Some obj)) \<Longrightarrow> from_sdk w obj es1"
    unfolding m_def from_sdk_def by (auto split: if_splits dest: totp_steps_frame)
  have shape: "\<exists>mid fin. es = ?pre @ mid @ fin \<and> ?quiet mid \<and>
        (fin = [] \<or> print_token a \<and>
           (\<exists>obj. from_sdk w obj es \<and> fin = [Print (normalize_access_token w obj)]))"
    using run
  proof (cases rule: bindE)
    case (fail e)
    with rest1 have "es = ?pre @ rest1 @ []" by simp
    with rest1(2) show ?thesis by blast
  next
    case (ok es1 s1 x es2)
    from ok(1) rest1 have es1: "es1 = ?pre @ rest1" by simp
    from ok(2) show ?thesis
    proof (cases rule: bindE)
      case (fail e)
      then have "?quiet es2"
        using events_all_run [OF auth_approval_steps_silent, of w "approval_api_key ?r"
            "approval_secret ?r" s1]
        by (cases x) auto
      with es1 ok(3) rest1(2) have "es = ?pre @ (rest1 @ es2) @ [] \<and> ?quiet (rest1 @ es2)"
        by simp
      then show ?thesis by blast
    next
      case inner: (ok es3 s3 obj es4)
      have q3: "?quiet es3"
        using inner(1)
          events_all_run [OF auth_approval_steps_silent, of w "approval_api_key ?r"
            "approval_secret ?r" s1]
        by (cases x) auto
      have sdk: "from_sdk w obj (es1 @ es3)"
      proof (cases x)
        case None
        with inner(1) have "auth_approval_steps w (approval_api_key ?r) (approval_secret ?r) s1 =
            (es3, s3, Inr obj)"
          by simp
        from auth_approval_steps_frame [OF this] have "from_sdk w obj es3"
          by (simp add: from_sdk_def)
        then show ?thesis by (rule from_sdk_append)
      next
        case (Some o')
        with inner(1) have "o' = obj" "es3 = []" by simp_all
        with sdk1 [of es1 s1 obj] ok(1) Some show ?thesis by simp
      qed
      from auth_finish_notes [OF inner(2)] obtain mid fin where
        fin: "es4 = mid @ fin" "?quiet mid"
          "fin = [] \<or> print_token a \<and> fin = [Print (normalize_access_token w obj)]"
        by blast
      have es: "es = ?pre @ (rest1 @ es3 @ mid) @ fin"
        using ok(3) inner(3) es1 fin(1) by simp
      have quiet: "?quiet (rest1 @ es3 @ mid)"
        using rest1(2) q3 fin(2) by simp
      have "from_sdk w obj es"
        using sdk ok(3) inner(3) from_sdk_prefix [of w obj "es1 @ es3" es4] by simp
      with fin(3) have "fin = [] \<or> print_token a \<and>
          (\<exists>obj. from_sdk w obj es \<and> fin = [Print (normalize_access_token w obj)])"
        by blast
      with es quiet show ?thesis by blast
    qed
  qed
  then show ?thesis
    unfolding notes_and_token_def run0 by simp
qed

lemma smoke_notes:
  "notes_then
     (if use_totp_initially fl (smoke_resolve w ov)
      then legacy_notes (smoke_resolve w ov) else [])
     (\<lambda>ev. \<not> is_rename_note ev) (smoke_get_access_token w fl ov)"
  unfolding smoke_get_access_token_def Let_def
proof (rule notes_then_bind)
  let ?r = "smoke_resolve w ov"
  show "notes_then (if use_totp_initially fl ?r then legacy_notes ?r else [])
      (\<lambda>ev. \<not> is_rename_note ev)
      (if use_totp_initially fl ?r
       then totp_steps w smoke_missing_totp_token smoke_missing_totp fl
              (legacy_api_key ?r) (legacy_secret ?r) (totp_token ?r) (totp ?r) (totp_secret ?r)
              (totp_from_cfg ?r)
       else ret None)"
    by (auto intro: totp_steps_notes notes_then_events events_all_ret)
next
  fix x
  show "events_all (\<lambda>ev. \<not> is_rename_note ev)
      (bind (case x of
               None \<Rightarrow> smoke_approval_steps w (approval_api_key (smoke_resolve w ov))
                         (approval_secret (smoke_resolve w ov))
             | Some obj \<Rightarrow> ret obj) (\<lambda>token_obj. ret (normalize_token w token_obj)))"
    by (intro events_all_bind events_all_case_option events_all_ret smoke_approval_steps_silent)
qed

text \<open>
  Claim C4. Rename notices are printed by the TOTP steps of \<open>main\<close> of the CLI
  authenticator and of \<open>_get_access_token\<close> of the smoke test, and nowhere else. A run
  of either that enters these steps consists of the notices of \<open>legacy_notes\<close> (the one
  for \<open>api_key\<close> when there is no \<open>totp_token\<close> and \<open>api_key\<close> takes its place, then the
  one for \<open>secret\<close> when a token is there, there is neither a one-time code nor a
  \<open>totp_secret\<close>, and \<open>secret\<close> takes its place) followed by events none of which is a
  rename notice; a run that does not enter them, where \<open>api_key\<close> and \<open>secret\<close> may
  serve as the approval credentials, has no rename notice at all. The one line set
  aside is the last line of a run of the authenticator under \<open>--print-token\<close>: it is the
  token that was returned in this run, whatever its text. No run of
  \<open>_get_access_token\<close> of the CLI or of \<open>connect\<close> of the web UI has a rename notice.
\<close>

theorem legacy_key_notices:
  "notes_and_token w a
     (if use_totp_initially (flow_arg a) (auth_resolve w a)
      then legacy_notes (auth_resolve w a) else [])
     (fst (auth_main w a s)) \<and>
   notes_then
     (if use_totp_initially fl (smoke_resolve w ov)
      then legacy_notes (smoke_resolve w ov) else [])
     (\<lambda>ev. \<not> is_rename_note ev) (smoke_get_access_token w fl ov) \<and>
   events_all (\<lambda>ev. \<not> is_rename_note ev) (cli_get_access_token w args) \<and>
   events_all (\<lambda>ev. \<not> is_rename_note ev) (connect w f)"
  by (intro conjI auth_main_notes smoke_notes cli_get_access_token_silent connect_silent)

lemma example_legacy_facts:
  "use_totp_initially (flow_arg example_totp_args)
     (auth_resolve example_legacy_world example_totp_args)"
  "use_totp_initially Totp_flow (smoke_resolve example_legacy_world None)"
  "\<not> use_totp_initially (flow_arg example_approval_args)
       (auth_resolve example_legacy_world example_approval_args)"
  "\<not> use_totp_initially Approval_flow (smoke_resolve example_legacy_world None)"
  "\<not> print_token example_totp_args" "\<not> print_token example_approval_args"
  by code_simp+

lemma example_legacy_notes:
  "legacy_notes (auth_resolve example_legacy_world example_totp_args) =
     ([Print note_api_key, Print note_secret] :: rat event list)"
  "legacy_notes (smoke_resolve example_legacy_world None) =
     ([Print note_api_key, Print note_secret] :: rat event list)"
  by code_simp+

lemma example_legacy_runs:
  "auth_main example_legacy_world example_totp_args example_state =
     ([Print note_api_key, Print note_secret, Sdk_get_access_token (Totp ''KEY1'' ''123456''),
       Sdk_client (PStr ''eyJ0eXAiOiJKV1Qi''), Print ''Access token: eyJ0eX...V1Qi''],
      example_state, Inr 0)"
  "smoke_get_access_token example_legacy_world Totp_flow None example_state =
     ([Print note_api_key, Print note_secret, Sdk_get_access_token (Totp ''KEY1'' ''123456'')],
      example_state, Inr ''eyJ0eXAiOiJKV1Qi'')"
  "smoke_get_access_token example_legacy_world Approval_flow None example_state =
     ([Sdk_get_access_token (Approval ''KEY1'' ''SEC1'')], example_state,
      Inr ''eyJ0eXAiOiJKV1Qi'')"
  by code_simp+

theorem legacy_approval_keys_silent:
  "cfg example_legacy_world ''approval_api_key'' = None \<and>
   cfg example_legacy_world ''approval_secret'' = None \<and>
   cfg example_legacy_world ''api_key'' = Some ''KEY1'' \<and>
   cfg example_legacy_world ''secret'' = Some ''SEC1'' \<and>
   auth_main example_legacy_world example_approval_args example_state =
     ([Sdk_get_access_token (Approval ''KEY1'' ''SEC1''),
       Sdk_client (PStr ''eyJ0eXAiOiJKV1Qi''), Print ''Access token: eyJ0eX...V1Qi''],
      example_state, Inr 0) \<and>
   cli_get_access_token example_legacy_world example_cli_args example_state =
     ([Sdk_get_access_token (Approval ''KEY1'' ''SEC1'')], example_state,
      Inr (PStr ''eyJ0eXAiOiJKV1Qi'')) \<and>
   connect example_legacy_world example_form example_state =
     ([Sdk_get_access_token (Approval ''KEY1'' ''SEC1''),
       Sdk_client (PStr ''eyJ0eXAiOiJKV1Qi'')], example_state,
      Inr (''eyJ0eXAiOiJKV1Qi'', ''Connected. Token: eyJ0eX...V1Qi''))"
  by (intro conjI; code_simp)

lemma example_print_run:
  "auth_main example_legacy_world example_print_args example_state =
     ([Print note_api_key, Print note_secret, Sdk_get_access_token (Totp ''KEY1'' ''123456''),
       Sdk_client (PStr ''eyJ0eXAiOiJKV1Qi''), Print ''eyJ0eXAiOiJKV1Qi''],
      example_state, Inr 0)"
  by code_simp

lemma example_print_facts:
  "use_totp_initially (flow_arg example_print_args)
     (auth_resolve example_legacy_world example_print_args)"
  "legacy_notes (auth_resolve example_legacy_world example_print_args) =
     ([Print note_api_key, Print note_secret] :: rat event list)"
  by code_simp+

theorem legacy_key_notices_witness:
  "notes_and_token example_legacy_world example_print_args
     [Print note_api_key, Print note_secret]
     [Print note_api_key, Print note_secret, Sdk_get_access_token (Totp ''KEY1'' ''123456''),
      Sdk_client (PStr ''eyJ0eXAiOiJKV1Qi''), Print ''eyJ0eXAiOiJKV1Qi''] \<and>
   notes_and_token example_legacy_world example_approval_args []
     [Sdk_get_access_token (Approval ''KEY1'' ''SEC1''),
      Sdk_client (PStr ''eyJ0eXAiOiJKV1Qi''), Print ''Access token: eyJ0eX...V1Qi''] \<and>
   (\<exists>rest. fst (smoke_get_access_token example_legacy_world Totp_flow None example_state) =
      [Print note_api_key, Print note_secret] @ rest \<and>
      list_all (\<lambda>ev. \<not> is_rename_note ev) rest) \<and>
   list_all (\<lambda>ev. \<not> is_rename_note ev)
     (fst (smoke_get_access_token example_legacy_world Approval_flow None example_state)) \<and>
   list_all (\<lambda>ev. \<not> is_rename_note ev)
     (fst (cli_get_access_token example_legacy_world example_cli_args example_state)) \<and>
   list_all (\<lambda>ev. \<not> is_rename_note ev)
     (fst (connect example_legacy_world example_form example_state))"
proof -
  note f = example_legacy_facts
  note totp = legacy_key_notices [where a = example_print_args and w = example_legacy_world
    and s = example_state and fl = Totp_flow and ov = None and args = example_cli_args
    and f = example_form]
  note appr = legacy_key_notices [where a = example_approval_args and w = example_legacy_world
    and s = example_state and fl = Approval_flow and ov = None]
  have run: "auth_main example_legacy_world example_approval_args example_state =
     ([Sdk_get_access_token (Approval ''KEY1'' ''SEC1''),
       Sdk_client (PStr ''eyJ0eXAiOiJKV1Qi''), Print ''Access token: eyJ0eX...V1Qi''],
      example_state, Inr 0)"
    by code_simp
  from conjunct1 [OF totp] have c1:
    "notes_and_token example_legacy_world example_print_args
       [Print note_api_key, Print note_secret]
       [Print note_api_key, Print note_secret, Sdk_get_access_token (Totp ''KEY1'' ''123456''),
        Sdk_client (PStr ''eyJ0eXAiOiJKV1Qi''), Print ''eyJ0eXAiOiJKV1Qi'']"
    by (simp only: example_print_facts example_print_run fst_conv if_True)
  from conjunct1 [OF appr] f(3) have c2:
    "notes_and_token example_legacy_world example_approval_args []
       [Sdk_get_access_token (Approval ''KEY1'' ''SEC1''),
        Sdk_client (PStr ''eyJ0eXAiOiJKV1Qi''), Print ''Access token: eyJ0eX...V1Qi'']"
    by (simp only: run fst_conv if_False)
  from notes_then_run [OF conjunct1 [OF conjunct2 [OF totp]], of example_state] f(2) have c3:
    "\<exists>rest. fst (smoke_get_access_token example_legacy_world Totp_flow None example_state) =
       [Print note_api_key, Print note_secret] @ rest \<and>
       list_all (\<lambda>ev. \<not> is_rename_note ev) rest"
    by (simp only: example_legacy_notes if_True)
  from notes_then_run [OF conjunct1 [OF conjunct2 [OF appr]], of example_state] f(4) have c4:
    "list_all (\<lambda>ev. \<not> is_rename_note ev)
       (fst (smoke_get_access_token example_legacy_world Approval_flow None example_state))"
    by (auto simp only: if_False append_Nil)
  note c5 = events_all_run [OF conjunct1 [OF conjunct2 [OF conjunct2 [OF totp]]], of example_state]
  note c6 = events_all_run [OF conjunct2 [OF conjunct2 [OF conjunct2 [OF totp]]], of example_state]
  from c1 c2 c3 c4 c5 c6 show ?thesis
    by blast
qed

section \<open>The backtest summary (\<open>backtest_simple\<close>)\<close>

text \<open>
  C5. When the SDK answers the request for candles with \<open>data\<close>, \<open>backtest_simple\<close>
  returns: the error result of \<open>OverflowError\<close> when a close is an integer too large
  for a float; else the error result "not enough candle data" when fewer than two closes
  parse; else the error result of \<open>ZeroDivisionError\<close> when the first parsed close is
  zero; else the summary, in which \<open>count\<close> is the number of closes that parse,
  \<open>start_close\<close> and \<open>end_close\<close> are the first and the last of them, and \<open>return_pct\<close> is
  \<open>((end_close - start_close) / start_close) * 100.0\<close>.
\<close>

theorem backtest_simple_summary:
  "token \<noteq> [] \<and> new_client w (PStr token) = None \<and>
   sdk_call w (PStr token) ''get_historical_candle_data'' []
     [(''trading_symbol'', PStr (py_upper w (strip symbol))), (''exchange'', PStr exchange),
      (''segment'', PStr segment), (''start_time'', PStr start_time),
      (''end_time'', PStr end_time),
      (''interval_in_minutes'', if interval_minutes = 0 then PNone else PInt interval_minutes),
      (''timeout'', PInt 15)] = Inr data \<longrightarrow>
   snd (snd (backtest_simple w token symbol exchange segment start_time end_time
               interval_minutes s)) =
     Inr (let closes = parsed_closes (fops w) data in
          if list_ex (close_overflows (fops w)) (extract_candles data)
          then PDict [(''error'', PStr ''int too large to convert to float'')]
          else if length closes < 2
          then PDict [(''error'', PStr ''Not enough candle data to compute backtest summary.'')]
          else if fzero (fops w) (hd closes)
          then PDict [(''error'', PStr ''float division by zero'')]
          else PDict
            [(''count'', PInt (int (length closes))),
             (''start_close'', PFloat (hd closes)),
             (''end_close'', PFloat (last closes)),
             (''return_pct'',
                PFloat (fmul (fops w)
                  (fdiv (fops w) (fsub (fops w) (last closes) (hd closes)) (hd closes))
                  (hundred (fops w))))])"
proof (intro impI, elim conjE)
  assume t: "token \<noteq> []" and c: "new_client w (PStr token) = None"
    and d: "sdk_call w (PStr token) ''get_historical_candle_data'' []
     [(''trading_symbol'', PStr (py_upper w (strip symbol))), (''exchange'', PStr exchange),
      (''segment'', PStr segment), (''start_time'', PStr start_time),
      (''end_time'', PStr end_time),
      (''interval_in_minutes'', if interval_minutes = 0 then PNone else PInt interval_minutes),
      (''timeout'', PInt 15)] = Inr data"
  have d': "sdk_call w (PStr token) ''get_historical_candle_data'' []
     (historical_kwargs w symbol exchange segment start_time end_time interval_minutes) = Inr data"
    using d by (simp add: historical_kwargs_def int_or_none_def)
  show "snd (snd (backtest_simple w token symbol exchange segment start_time end_time
               interval_minutes s)) =
     Inr (let closes = parsed_closes (fops w) data in
          if list_ex (close_overflows (fops w)) (extract_candles data)
          then PDict [(''error'', PStr ''int too large to convert to float'')]
          else if length closes < 2
          then PDict [(''error'', PStr ''Not enough candle data to compute backtest summary.'')]
          else if fzero (fops w) (hd closes)
          then PDict [(''error'', PStr ''float division by zero'')]
          else PDict
            [(''count'', PInt (int (length closes))),
             (''start_close'', PFloat (hd closes)),
             (''end_close'', PFloat (last closes)),
             (''return_pct'',
                PFloat (fmul (fops w)
                  (fdiv (fops w) (fsub (fops w) (last closes) (hd closes)) (hd closes))
                  (hundred (fops w))))])"
    by (simp add: backtest_simple_run [OF t c d'] backtest_summary_def closes_of_as_worded
          parsed_closes_def Let_def error_dict_def not_enough_def overflow_error_def)
qed

lemma example_series_facts:
  "new_client example_series_world (PStr ''tok'') = None"
  "sdk_call example_series_world (PStr ''tok'') ''get_historical_candle_data'' []
     [(''trading_symbol'', PStr (py_upper example_series_world (strip '' acme''))),
      (''exchange'', PStr ''NSE''), (''segment'', PStr ''CASH''),
      (''start_time'', PStr ''2025-01-01 09:15:00''), (''end_time'', PStr ''2025-01-01 15:30:00''),
      (''interval_in_minutes'', if (0::int) = 0 then PNone else PInt 0),
      (''timeout'', PInt 15)] = Inr example_series"
  "parsed_closes (fops example_series_world) example_series = [10, 15]"
  "list_ex (close_overflows (fops example_series_world)) (extract_candles example_series) = False"
  "fzero (fops example_series_world) 10 = False"
  "fmul (fops example_series_world)
     (fdiv (fops example_series_world) (fsub (fops example_series_world) 15 10) 10)
     (hundred (fops example_series_world)) = 50"
  by code_simp+

theorem backtest_simple_summary_witness:
  "snd (snd (backtest_simple example_series_world ''tok'' '' acme'' ''NSE'' ''CASH''
        ''2025-01-01 09:15:00'' ''2025-01-01 15:30:00'' 0 example_state)) =
     Inr (PDict [(''count'', PInt 2), (''start_close'', PFloat 10), (''end_close'', PFloat 15),
                 (''return_pct'', PFloat 50)])"
proof -
  note t = backtest_simple_summary [where w = example_series_world and token = "''tok''"
      and symbol = "'' acme''" and exchange = "''NSE''" and segment = "''CASH''"
      and start_time = "''2025-01-01 09:15:00''" and end_time = "''2025-01-01 15:30:00''"
      and interval_minutes = 0 and data = example_series and s = example_state]
  have "''tok'' \<noteq> []" by simp
  from mp [OF t conjI [OF this conjI [OF example_series_facts(1) example_series_facts(2)]]]
  show ?thesis by (simp add: example_series_facts(3-6) Let_def)
qed

text \<open>
  Against C5 as worded: two closes parse, \<open>0\<close> and \<open>5\<close>, and \<open>backtest_simple\<close> returns
  the error result of the division by zero, not a summary.
\<close>

theorem zero_first_close_no_summary:
  "length (parsed_closes example_ops (PList
     [PList [PInt 0, PInt 0, PInt 0, PInt 0, PInt 0, PInt 0],
      PList [PInt 60, PInt 5, PInt 5, PInt 5, PInt 5, PInt 100]])) = 2 \<and>
   snd (snd (backtest_simple example_zero_world ''tok'' ''ACME'' ''NSE'' ''CASH''
        ''2025-01-01 09:15:00'' ''2025-01-01 15:30:00'' 5 example_state)) =
     Inr (PDict [(''error'', PStr ''float division by zero'')])"
  by code_simp

section \<open>Null pruning (\<open>_prune_nulls\<close>, \<open>get_quote_clean\<close>)\<close>

lemma prune_nulls_not_None: "v \<noteq> PNone \<Longrightarrow> prune_nulls v \<noteq> PNone"
  by (cases v) simp_all

lemma dict_set_values:
  "list_all P (map snd d) \<Longrightarrow> P v \<Longrightarrow> list_all P (map snd (dict_set d k v))"
  by (induction d) auto

lemma dict_set_fresh: "k \<notin> fst ` set d \<Longrightarrow> dict_set d k v = d @ [(k, v)]"
  by (induction d) auto

lemma prune_no_null:
  fixes v :: "'f pyval" and xs :: "'f pyval list" and kvs cleaned :: "(string \<times> 'f pyval) list"
  shows "(json_like v \<longrightarrow> v \<noteq> PNone \<longrightarrow> \<not> has_null (prune_nulls v))"
    and "(list_all json_like xs \<longrightarrow> list_all (\<lambda>x. \<not> has_null x) (prune_list xs))"
    and "(list_all json_like (map snd kvs) \<longrightarrow> list_all (\<lambda>x. \<not> has_null x) (map snd cleaned) \<longrightarrow>
      list_all (\<lambda>x. \<not> has_null x) (map snd (prune_items kvs cleaned)))"
proof (induction v and xs and kvs cleaned rule: prune_nulls_prune_list_prune_items.induct)
  case (1 kvs)
  then show ?case by (simp add: list_ex_iff list_all_iff)
next
  case (2 xs)
  then show ?case by (simp add: list_ex_iff list_all_iff)
next
  case (12 key item kvs cleaned)
  then show ?case by (auto intro!: dict_set_values)
qed (simp_all add: prune_nulls_not_None)

lemma prune_as_worded:
  fixes v :: "'f pyval" and xs :: "'f pyval list" and kvs cleaned :: "(string \<times> 'f pyval) list"
  shows "(distinct_keys v \<longrightarrow> prune_nulls v = without_nulls v)"
    and "(list_all distinct_keys xs \<longrightarrow>
      prune_list xs = map without_nulls (filter (\<lambda>x. x \<noteq> PNone) xs))"
    and "(distinct (map fst kvs) \<longrightarrow> list_all distinct_keys (map snd kvs) \<longrightarrow>
    fst ` set kvs \<inter> fst ` set cleaned = {} \<longrightarrow>
      prune_items kvs cleaned =
        cleaned @ map (\<lambda>kv. (fst kv, without_nulls (snd kv))) (filter (\<lambda>kv. snd kv \<noteq> PNone) kvs))"
proof (induction v and xs and kvs cleaned rule: prune_nulls_prune_list_prune_items.induct)
  case (12 key item kvs cleaned)
  show ?case
  proof (intro impI)
    assume d: "distinct (map fst ((key, item) # kvs))"
      and k: "list_all distinct_keys (map snd ((key, item) # kvs))"
      and f: "fst ` set ((key, item) # kvs) \<inter> fst ` set cleaned = {}"
    show "prune_items ((key, item) # kvs) cleaned =
       cleaned @ map (\<lambda>kv. (fst kv, without_nulls (snd kv)))
         (filter (\<lambda>kv. snd kv \<noteq> PNone) ((key, item) # kvs))"
    proof (cases "item = PNone")
      case True
      with 12(1) d k f show ?thesis by auto
    next
      case False
      have fresh: "key \<notin> fst ` set cleaned" using f by auto
      have ds: "dict_set cleaned key (prune_nulls item) = cleaned @ [(key, prune_nulls item)]"
        using fresh by (rule dict_set_fresh)
      have pi: "prune_nulls item = without_nulls item" using 12(2) False k by simp
      have disj: "fst ` set kvs \<inter> fst ` set (cleaned @ [(key, prune_nulls item)]) = {}"
        using d f by auto
      have "prune_items kvs (dict_set cleaned key (prune_nulls item)) =
          dict_set cleaned key (prune_nulls item) @
          map (\<lambda>kv. (fst kv, without_nulls (snd kv))) (filter (\<lambda>kv. snd kv \<noteq> PNone) kvs)"
        using 12(3) False d k disj ds by simp
      then show ?thesis using False ds pi by simp
    qed
  qed
qed simp_all

lemma get_quote_clean_run:
  "get_quote_clean w token symbol exchange segment s =
     (case get_quote w token symbol exchange segment s of
        (es, s', r) \<Rightarrow> (es, s', case r of
            Inl e \<Rightarrow> Inl e
          | Inr q \<Rightarrow> Inr (if is_success_dict q then prune_nulls q else q)))"
  by (simp add: get_quote_clean_def bind_def ret_def split: prod.splits sum.splits)

text \<open>
  C6. \<open>_prune_nulls\<close> returns a value without \<open>None\<close> at any depth for every JSON value
  other than \<open>None\<close> itself; on a value whose dicts have each key once it is the pruning
  as worded: the entries and elements that are \<open>None\<close> are dropped, every other one is
  kept, pruned in turn, with its key and in its order. \<open>get_quote_clean\<close> runs
  \<open>get_quote\<close> and prunes its result when that is a dict without the key \<open>error\<close>; every
  other result is returned as it is. So an answer \<open>q\<close> of the SDK is returned pruned if
  it is such a dict, and unchanged otherwise.
\<close>

theorem prune_nulls_removes_nulls:
  fixes v :: "'f pyval" and w :: "'f world"
  shows
  "(json_like v \<and> v \<noteq> PNone \<longrightarrow> \<not> has_null (prune_nulls v)) \<and>
   (distinct_keys v \<longrightarrow> prune_nulls v = without_nulls v) \<and>
   get_quote_clean w token symbol exchange segment s =
     (case get_quote w token symbol exchange segment s of
        (es, s', r) \<Rightarrow> (es, s', case r of
            Inl e \<Rightarrow> Inl e
          | Inr q \<Rightarrow> Inr (if is_success_dict q then prune_nulls q else q))) \<and>
   (token \<noteq> [] \<and> new_client w (PStr token) = None \<and>
    sdk_call w (PStr token) ''get_quote'' []
      [(''trading_symbol'', PStr (py_upper w (strip symbol))), (''exchange'', PStr exchange),
       (''segment'', PStr segment), (''timeout'', PInt 10)] = Inr q \<longrightarrow>
    snd (snd (get_quote_clean w token symbol exchange segment s)) =
      Inr (if is_success_dict q then prune_nulls q else q))"
proof (intro conjI impI)
  show "\<not> has_null (prune_nulls v)" if "json_like v \<and> v \<noteq> PNone"
    using that prune_no_null(1) [of v] by simp
  show "prune_nulls v = without_nulls v" if "distinct_keys v"
    using that prune_as_worded(1) [of v] by simp
  show "get_quote_clean w token symbol exchange segment s =
     (case get_quote w token symbol exchange segment s of
        (es, s', r) \<Rightarrow> (es, s', case r of
            Inl e \<Rightarrow> Inl e
          | Inr q \<Rightarrow> Inr (if is_success_dict q then prune_nulls q else q)))"
    by (rule get_quote_clean_run)
  show "snd (snd (get_quote_clean w token symbol exchange segment s)) =
      Inr (if is_success_dict q then prune_nulls q else q)"
    if "token \<noteq> [] \<and> new_client w (PStr token) = None \<and>
      sdk_call w (PStr token) ''get_quote'' []
        [(''trading_symbol'', PStr (py_upper w (strip symbol))), (''exchange'', PStr exchange),
         (''segment'', PStr segment), (''timeout'', PInt 10)] = Inr q"
    using that
    by (simp add: get_quote_clean_run get_quote_def handler_client_call_run timeout10_def)
qed

lemma example_nested_facts:
  "json_like example_nested" "example_nested \<noteq> PNone" "distinct_keys example_nested"
  "is_success_dict example_nested"
  "without_nulls example_nested = PDict
     [(''depth'', PList [PInt 1, PDict [(''y'', PStr ''a'')]]),
      (''ohlc'', PDict [(''open'', PInt 5)]),
      (''symbol'', PStr ''ACME'')]"
  "new_client example_nested_world (PStr ''tok'') = None"
  "sdk_call example_nested_world (PStr ''tok'') ''get_quote'' []
      [(''trading_symbol'', PStr (py_upper example_nested_world (strip ''acme ''))),
       (''exchange'', PStr ''NSE''), (''segment'', PStr ''CASH''), (''timeout'', PInt 10)] =
     Inr example_nested"
  by code_simp+

theorem prune_nulls_removes_nulls_witness:
  "\<not> has_null (prune_nulls example_nested) \<and>
   prune_nulls example_nested = PDict
     [(''depth'', PList [PInt 1, PDict [(''y'', PStr ''a'')]]),
      (''ohlc'', PDict [(''open'', PInt 5)]),
      (''symbol'', PStr ''ACME'')] \<and>
   snd (snd (get_quote_clean example_nested_world ''tok'' ''acme '' ''NSE'' ''CASH'' example_state)) =
     Inr (PDict
     [(''depth'', PList [PInt 1, PDict [(''y'', PStr ''a'')]]),
      (''ohlc'', PDict [(''open'', PInt 5)]),
      (''symbol'', PStr ''ACME'')])"
proof -
  note t = prune_nulls_removes_nulls [where v = example_nested and w = example_nested_world
      and token = "''tok''" and symbol = "''acme ''" and exchange = "''NSE''" and segment = "''CASH''"
      and s = example_state and q = example_nested]
  have a: "\<not> has_null (prune_nulls example_nested)"
    using mp [OF conjunct1 [OF t]] example_nested_facts(1,2) by simp
  have b: "prune_nulls example_nested = without_nulls example_nested"
    using mp [OF conjunct1 [OF conjunct2 [OF t]]] example_nested_facts(3) by simp
  have c: "snd (snd (get_quote_clean example_nested_world ''tok'' ''acme '' ''NSE'' ''CASH''
      example_state)) = Inr (if is_success_dict example_nested then prune_nulls example_nested
        else example_nested)"
    using mp [OF conjunct2 [OF conjunct2 [OF conjunct2 [OF t]]]] example_nested_facts(6,7)
    by simp
  show ?thesis using a b c example_nested_facts(4,5) by simp
qed

text \<open>
  Against C6 as worded: \<open>_prune_nulls(None)\<close> is \<open>None\<close>, and \<open>get_quote_clean\<close> returns
  the successful answer \<open>[None]\<close> of the SDK with its \<open>None\<close>, because it prunes dicts only.
\<close>

theorem none_and_lists_stay:
  "has_null (prune_nulls (PNone :: rat pyval)) \<and>
   get_quote_clean example_list_world ''tok'' ''ACME'' ''NSE'' ''CASH'' example_state =
     ([Sdk_client (PStr ''tok''),
       Sdk_method ''get_quote'' []
         [(''trading_symbol'', PStr ''ACME''), (''exchange'', PStr ''NSE''),
          (''segment'', PStr ''CASH''), (''timeout'', PInt 10)]],
      example_state, Inr (PList [PNone]))"
  by code_simp

section \<open>Candles to rows (\<open>_candles_to_rows\<close>)\<close>









section \<open>The token file of the CLI authenticator\<close>

lemma auth_finish_writes:
  assumes "auth_finish w args obj s = (es, s', r)"
  shows "s' = s \<and>
         filter is_write es =
           (if save_token args \<and> succeeded r
            then [Write_file ''.access_token'' (strip (normalize_access_token w obj) @ [CHR 0x0A])]
            else [])"
  using assms unfolding auth_finish_def Let_def
  by (auto elim!: seqE simp: GrowwAPI_eq is_write_def split: option.splits if_splits)

text \<open>
  Claim C9. A run of the CLI authenticator leaves the state as it found it, and its
  file writes are these: when \<open>--save-token\<close> is passed and the run ends without an
  exception, exactly one, of \<open>.access_token\<close>, with the stripped normalised token that
  \<open>GrowwAPI.get_access_token\<close> returned in this run followed by a newline; in every other
  run (no flag, or the run ended by an exit or an exception) none.
\<close>

theorem auth_main_token_file:
  assumes "auth_main w args s = (es, s', r)"
  shows "s' = s \<and>
         (save_token args \<and> succeeded r \<longrightarrow>
            (\<exists>c obj. Sdk_get_access_token c \<in> set es \<and> get_access_token w c = Inr obj \<and>
               filter is_write es =
                 [Write_file ''.access_token'' (strip (normalize_access_token w obj) @ [CHR 0x0A])])) \<and>
         (\<not> (save_token args \<and> succeeded r) \<longrightarrow> filter is_write es = [])"
proof -
  let ?r = "auth_resolve w args"
  from assms obtain m where run: "bind m (\<lambda>from_totp.
      bind (case from_totp of Some obj \<Rightarrow> ret obj
            | None \<Rightarrow> auth_approval_steps w (approval_api_key ?r) (approval_secret ?r))
           (auth_finish w args)) s = (es, s', r)"
    and m: "m = (if use_totp_initially (flow_arg args) ?r
            then totp_steps w auth_missing_totp_token auth_missing_totp (flow_arg args)
                   (legacy_api_key ?r) (legacy_secret ?r) (totp_token ?r) (totp ?r) (totp_secret ?r)
                   (totp_from_cfg ?r)
            else ret None)"
    unfolding auth_main_def Let_def by blast
  have pre: "\<And>es1 s1 r1. m s = (es1, s1, r1) \<Longrightarrow> s1 = s \<and> filter is_write es1 = [] \<and>
         (\<forall>obj. r1 = Inr (Some obj) \<longrightarrow>
            (\<exists>c. Sdk_get_access_token c \<in> set es1 \<and> get_access_token w c = Inr obj))"
    unfolding m by (auto split: if_splits dest: totp_steps_frame)
  from run show ?thesis
  proof (cases rule: bindE)
    case (fail e)
    with pre[of es s' "Inl e"] show ?thesis by simp
  next
    case (ok es1 s1 x es2)
    note p1 = pre[OF ok(1)]
    from ok(2) show ?thesis
    proof (cases rule: bindE)
      case (fail e)
      then show ?thesis using p1 ok(3)
        by (cases x) (auto dest: auth_approval_steps_frame)
    next
      case inner: (ok es3 s3 obj es4)
      have tok: "s3 = s1 \<and> filter is_write es3 = [] \<and>
                 (\<exists>c. Sdk_get_access_token c \<in> set (es1 @ es3) \<and> get_access_token w c = Inr obj)"
      proof (cases x)
        case None
        with inner(1) have "auth_approval_steps w (approval_api_key ?r) (approval_secret ?r) s1 = (es3, s3, Inr obj)"
          by simp
        from auth_approval_steps_frame[OF this] show ?thesis by auto
      next
        case (Some o')
        with inner(1) p1 show ?thesis by auto
      qed
      from auth_finish_writes[OF inner(2)] tok p1 ok(3) inner(3) show ?thesis
        by (auto split: if_splits)
    qed
  qed
qed

lemma example_auth_run:
  "auth_main example_world example_auth_args example_state =
     (example_auth_events, example_state, Inr 0)"
  by code_simp

theorem auth_main_token_file_witness:
  "auth_main example_world example_auth_args example_state =
     (example_auth_events, example_state, Inr 0) \<and>
   save_token example_auth_args \<and> succeeded (Inr (0::int) :: exc + int) \<and>
   (\<exists>c obj.
      Sdk_get_access_token c \<in> set example_auth_events \<and>
      get_access_token example_world c = Inr obj \<and>
      filter is_write example_auth_events =
      [Write_file ''.access_token'' (strip (normalize_access_token example_world obj) @ [CHR 0x0A])])"
proof -
  have flag: "save_token example_auth_args"
    by (simp add: example_auth_args_def)
  have ok: "succeeded (Inr (0::int) :: exc + int)"
    by simp
  note run = auth_main_token_file [OF example_auth_run]
  note written = mp [OF conjunct1 [OF conjunct2 [OF run]] conjI [OF flag ok]]
  show ?thesis
    by (rule conjI [OF example_auth_run conjI [OF flag conjI [OF ok written]]])
qed

section \<open>The trading gate\<close>

lemma six_cli:
  "set trading_methods = {''place_order'', ''modify_order'', ''cancel_order'',
     ''create_smart_order'', ''modify_smart_order'', ''cancel_smart_order''}"
  by (auto simp: trading_methods_def)

lemma six_gradio:
  "set gradio_trading_methods = {''place_order'', ''modify_order'', ''cancel_order'',
     ''create_smart_order'', ''modify_smart_order'', ''cancel_smart_order''}"
  by (auto simp: gradio_trading_methods_def)

lemma confirm_run:
  "name \<in> set trading_methods \<Longrightarrow>
   confirm_if_trading name s = (case stdin s of
       [] \<Rightarrow> ([Input confirm_prompt], s, Inl (EOFError ''EOF when reading a line''))
     | l # ls \<Rightarrow> ([Input confirm_prompt], s\<lparr>stdin := ls\<rparr>,
                 if strip l \<noteq> ''PLACE'' then Inl (SystemExit ''Aborted.'') else Inr ()))"
  by (simp add: confirm_if_trading_def input_line_def bind_def ret_def raise_def
           split: list.splits)

lemma trading_not_private: "name \<in> set trading_methods \<Longrightarrow> take 1 name \<noteq> ''_''"
  by (auto simp: trading_methods_def)

lemma strip_Nil: "strip [] = []"
  by (simp add: strip_def)

lemma cli_call_not_confirmed:
  assumes "c \<noteq> []" "confirm_if_trading (strip c) s = (es0, s0, Inl e)"
  shows "cli_call w token args (Some c) menu s =
     (if take 1 (strip c) = ''_'' \<or> \<not> has_attr w (strip c)
      then ([], s, Inl (SystemExit (''Unknown method: '' @ strip c)))
      else if \<not> is_callable w (strip c)
      then ([], s, Inl (SystemExit (''Attribute is not callable: '' @ strip c)))
      else (es0, s0, Inl e))"
proof -
  have "\<And>k :: ('a, int) prog. seq (confirm_if_trading (strip c)) k s = (es0, s0, Inl e)"
    using assms(2) by (simp add: seq_def bind_def)
  then show ?thesis
    using assms(1) by (simp add: cli_call_def Let_def raise_apply)
qed

lemma cli_call_no_input:
  assumes "c \<noteq> []" "strip c \<notin> set trading_methods"
  shows "events_all (\<lambda>ev. \<not> is_input ev) (cli_call w token args (Some c) menu)"
proof -
  have "confirm_if_trading (strip c) = (ret () :: ('a, unit) prog)"
    using assms(2) by (simp add: confirm_if_trading_def)
  then show ?thesis
    using assms(1)
    unfolding cli_call_def Let_def sdk_method_def print_response_def
    by (auto intro!: prog_intros simp: is_input_def split: pyval.split)
qed

lemma call_method_blocked:
  assumes "name \<in> set gradio_trading_methods"
  shows "call_method w tok name aj kj False s =
     (if tok = [] then ([], s, Inr not_connected)
      else if strip name = [] then ([], s, Inr (error_dict ''Method name is required''))
      else ([Sdk_client (PStr tok)], s, Inr (error_dict
              (case new_client w (PStr tok) of
                 Some m \<Rightarrow> m
               | None \<Rightarrow>
                   if \<not> has_attr w name then ''Unknown method: '' @ name
                   else if \<not> is_callable w name then ''Not callable: '' @ name
                   else trading_blocked))))"
  using assms
  by (simp add: call_method_def call_method_body_def require_no_trading_def get_client_def
        GrowwAPI_def catch_def lift_def seq_def bind_def ret_def raise_def emit_def
        split: option.splits)

lemma cli_call_needs_place:
  fixes w :: "'a world"
  assumes tr: "strip c \<in> set trading_methods"
    and ev: "ev \<in> set (fst (cli_call w token args (Some c) menu s))" "is_sdk_method ev"
  shows "\<exists>line rest. stdin s = line # rest \<and> strip line = ''PLACE''"
proof (rule ccontr)
  assume no: "\<not> (\<exists>line rest. stdin s = line # rest \<and> strip line = ''PLACE'')"
  from tr have ne: "c \<noteq> []"
    by (auto simp: strip_Nil trading_methods_def)
  obtain es0 :: "'a event list" and s0 e
    where "confirm_if_trading (strip c) s = (es0, s0, Inl e)"
    and "es0 = [Input confirm_prompt]"
    using no by (cases "stdin s") (auto simp: confirm_run [OF tr])
  with cli_call_not_confirmed [OF ne this(1), of w token args menu]
  have "set (fst (cli_call w token args (Some c) menu s)) \<subseteq> {Input confirm_prompt}"
    by (auto split: if_splits)
  with ev show False
    by (auto simp: is_sdk_method_def)
qed

text \<open>
  Claim C2. For a \<open>--call\<close> whose text, stripped, is one of the six trading methods, when
  the client has the method and it is callable: a typed line that is not \<open>PLACE\<close> after
  stripping ends the run with \<open>Aborted.\<close> right after the prompt, before any SDK method
  call; and in every run, whatever the client has, an SDK method call occurs only if a
  line was typed and is \<open>PLACE\<close> after stripping. For a \<open>--call\<close> text that is not empty
  and, stripped, is none of the six, no line of input is requested. In the web UI,
  with trading not allowed, \<open>call_method\<close> on one of the six names returns an error dict
  and calls no SDK method: the dict of the blocked action when the client could be made
  and has the method.
\<close>

theorem trading_gate:
  fixes w :: "'f world"
  shows
  "(strip c \<in> {''place_order'', ''modify_order'', ''cancel_order'',
               ''create_smart_order'', ''modify_smart_order'', ''cancel_smart_order''} \<longrightarrow>
      (has_attr w (strip c) \<and> is_callable w (strip c) \<longrightarrow>
         (\<forall>line rest. stdin s = line # rest \<and> strip line \<noteq> ''PLACE'' \<longrightarrow>
            cli_call w token args (Some c) menu s =
              ([Input confirm_prompt], s\<lparr>stdin := rest\<rparr>, Inl (SystemExit ''Aborted.'')))) \<and>
      (\<forall>ev \<in> set (fst (cli_call w token args (Some c) menu s)). is_sdk_method ev \<longrightarrow>
         (\<exists>line rest. stdin s = line # rest \<and> strip line = ''PLACE''))) \<and>
   (c \<noteq> [] \<and>
    strip c \<notin> {''place_order'', ''modify_order'', ''cancel_order'',
               ''create_smart_order'', ''modify_smart_order'', ''cancel_smart_order''} \<longrightarrow>
      events_all (\<lambda>ev. \<not> is_input ev) (cli_call w token args (Some c) menu)) \<and>
   (name \<in> {''place_order'', ''modify_order'', ''cancel_order'',
             ''create_smart_order'', ''modify_smart_order'', ''cancel_smart_order''} \<longrightarrow>
      call_method w tok name aj kj False s =
        (if tok = [] then ([], s, Inr not_connected)
         else if strip name = [] then ([], s, Inr (error_dict ''Method name is required''))
         else ([Sdk_client (PStr tok)], s, Inr (error_dict
                 (case new_client w (PStr tok) of
                    Some m \<Rightarrow> m
                  | None \<Rightarrow>
                      if \<not> has_attr w name then ''Unknown method: '' @ name
                      else if \<not> is_callable w name then ''Not callable: '' @ name
                      else trading_blocked)))))"
  unfolding six_cli [symmetric]
proof (intro conjI impI allI ballI)
  fix line rest
  assume tr: "strip c \<in> set trading_methods"
    and has: "has_attr w (strip c) \<and> is_callable w (strip c)"
    and typed: "stdin s = line # rest \<and> strip line \<noteq> ''PLACE''"
  from tr have ne: "c \<noteq> []"
    by (auto simp: strip_Nil trading_methods_def)
  from typed have "confirm_if_trading (strip c) s =
      ([Input confirm_prompt] :: 'f event list, s\<lparr>stdin := rest\<rparr>,
       Inl (SystemExit ''Aborted.''))"
    by (simp add: confirm_run [OF tr])
  from cli_call_not_confirmed [OF ne this, of w token args menu] has trading_not_private [OF tr]
  show "cli_call w token args (Some c) menu s =
      ([Input confirm_prompt], s\<lparr>stdin := rest\<rparr>, Inl (SystemExit ''Aborted.''))"
    by simp
next
  fix ev
  assume "strip c \<in> set trading_methods"
    "ev \<in> set (fst (cli_call w token args (Some c) menu s))" "is_sdk_method ev"
  then show "\<exists>line rest. stdin s = line # rest \<and> strip line = ''PLACE''"
    by (rule cli_call_needs_place)
next
  assume "c \<noteq> [] \<and> strip c \<notin> set trading_methods"
  then show "events_all (\<lambda>ev. \<not> is_input ev) (cli_call w token args (Some c) menu)"
    by (simp add: cli_call_no_input)
next
  assume "name \<in> set trading_methods"
  then have "name \<in> set gradio_trading_methods"
    by (simp add: six_cli six_gradio)
  then show "call_method w tok name aj kj False s =
        (if tok = [] then ([], s, Inr not_connected)
         else if strip name = [] then ([], s, Inr (error_dict ''Method name is required''))
         else ([Sdk_client (PStr tok)], s, Inr (error_dict
                 (case new_client w (PStr tok) of
                    Some m \<Rightarrow> m
                  | None \<Rightarrow>
                      if \<not> has_attr w name then ''Unknown method: '' @ name
                      else if \<not> is_callable w name then ''Not callable: '' @ name
                      else trading_blocked))))"
    by (rule call_method_blocked)
qed

lemma example_six_strip:
  assumes "n \<in> set [''place_order'', ''modify_order'', ''cancel_order'',
                      ''create_smart_order'', ''modify_smart_order'', ''cancel_smart_order'']"
  shows "strip n = n"
proof -
  have "list_all (\<lambda>n. strip n = n) [''place_order'', ''modify_order'', ''cancel_order'',
          ''create_smart_order'', ''modify_smart_order'', ''cancel_smart_order'']"
    by code_simp
  with assms show ?thesis
    unfolding list_all_iff by blast
qed

lemma example_trading_facts:
  "stdin (example_typed ''place'') = ''place'' # [] \<and> strip ''place'' \<noteq> ''PLACE''"
  "strip '' place_order '' \<in> {''place_order'', ''modify_order'', ''cancel_order'',
      ''create_smart_order'', ''modify_smart_order'', ''cancel_smart_order''}"
  "''get_quote'' \<noteq> [] \<and>
   strip ''get_quote'' \<notin> {''place_order'', ''modify_order'', ''cancel_order'',
      ''create_smart_order'', ''modify_smart_order'', ''cancel_smart_order''}"
  "''TOK'' \<noteq> []"
  "new_client example_world (PStr ''TOK'') = None"
  by code_simp+

lemma example_world_has: "has_attr example_world n \<and> is_callable example_world n"
  by (simp add: example_world_def)

lemma example_trading_runs:
  "cli_call example_world (PStr ''TOK'') example_call_args (Some '' place_order '') (ret 0)
     (example_typed (CHR 0xA0 # ''PLACE '')) =
     ([Input confirm_prompt, Sdk_method ''place_order'' [] [], Print ''?''],
      example_state, Inr 0)"
  "cli_call example_world (PStr ''TOK'') example_call_args (Some ''get_quote'') (ret 0)
     (example_typed ''x'') =
     ([Sdk_method ''get_quote'' [] [], Print ''?''], example_typed ''x'', Inr 0)"
  by code_simp+

theorem trading_gate_witness:
  "list_all (\<lambda>n. cli_call example_world (PStr ''TOK'') example_call_args (Some n) (ret 0)
                    (example_typed ''place'') =
                  ([Input confirm_prompt], (example_typed ''place'')\<lparr>stdin := []\<rparr>,
                   Inl (SystemExit ''Aborted.'')))
     [''place_order'', ''modify_order'', ''cancel_order'',
      ''create_smart_order'', ''modify_smart_order'', ''cancel_smart_order''] \<and>
   Sdk_method ''place_order'' [] [] \<in>
     set (fst (cli_call example_world (PStr ''TOK'') example_call_args (Some '' place_order '')
                 (ret 0) (example_typed (CHR 0xA0 # ''PLACE '')))) \<and>
   (\<exists>line rest. stdin (example_typed (CHR 0xA0 # ''PLACE '')) = line # rest \<and>
      strip line = ''PLACE'') \<and>
   list_all (\<lambda>ev. \<not> is_input ev)
     (fst (cli_call example_world (PStr ''TOK'') example_call_args (Some ''get_quote'') (ret 0)
             (example_typed ''x''))) \<and>
   list_all (\<lambda>n. call_method example_world ''TOK'' n [] [] False example_state =
                  ([Sdk_client (PStr ''TOK'')], example_state,
                   Inr (error_dict trading_blocked)))
     [''place_order'', ''modify_order'', ''cancel_order'',
      ''create_smart_order'', ''modify_smart_order'', ''cancel_smart_order'']"
proof -
  let ?six = "[''place_order'', ''modify_order'', ''cancel_order'',
               ''create_smart_order'', ''modify_smart_order'', ''cancel_smart_order'']"
  note f = example_trading_facts
  have c1: "\<forall>n \<in> set ?six.
      cli_call example_world (PStr ''TOK'') example_call_args (Some n) (ret 0)
          (example_typed ''place'') =
        ([Input confirm_prompt], (example_typed ''place'')\<lparr>stdin := []\<rparr>,
         Inl (SystemExit ''Aborted.''))"
  proof
    fix n assume n: "n \<in> set ?six"
    note s = example_six_strip [OF n]
    from n s have "strip n \<in> {''place_order'', ''modify_order'', ''cancel_order'',
        ''create_smart_order'', ''modify_smart_order'', ''cancel_smart_order''}"
      by simp
    then have tr: "strip n \<in> {''place_order'', ''modify_order'', ''cancel_order'',
        ''create_smart_order'', ''modify_smart_order'', ''cancel_smart_order''}" .
    note g = trading_gate [where c = n and w = example_world and s = "example_typed ''place''"
        and token = "PStr ''TOK''" and args = example_call_args and menu = "ret 0"]
    note g1 = mp [OF conjunct1 [OF mp [OF conjunct1 [OF g] tr]] example_world_has [of "strip n"]]
    from mp [OF spec [OF spec [OF g1]] f(1)]
    show "cli_call example_world (PStr ''TOK'') example_call_args (Some n) (ret 0)
          (example_typed ''place'') =
        ([Input confirm_prompt], (example_typed ''place'')\<lparr>stdin := []\<rparr>,
         Inl (SystemExit ''Aborted.''))" .
  qed
  have c2: "Sdk_method ''place_order'' [] [] \<in>
     set (fst (cli_call example_world (PStr ''TOK'') example_call_args (Some '' place_order '')
                 (ret 0) (example_typed (CHR 0xA0 # ''PLACE ''))))"
    by (simp add: example_trading_runs)
  have sdk: "is_sdk_method (Sdk_method ''place_order'' [] [] :: rat event)"
    by (simp add: is_sdk_method_def)
  note p = trading_gate [where c = "'' place_order ''" and w = example_world
      and s = "example_typed (CHR 0xA0 # ''PLACE '')" and token = "PStr ''TOK''"
      and args = example_call_args and menu = "ret 0"]
  note p1 = conjunct2 [OF mp [OF conjunct1 [OF p] f(2)]]
  from mp [OF bspec [OF p1 c2] sdk]
  have c3: "\<exists>line rest. stdin (example_typed (CHR 0xA0 # ''PLACE '')) = line # rest \<and>
      strip line = ''PLACE''" .
  note q = trading_gate [where c = "''get_quote''" and w = example_world
      and token = "PStr ''TOK''" and args = example_call_args and menu = "ret 0"]
  from mp [OF conjunct1 [OF conjunct2 [OF q]] f(3)]
  have "events_all (\<lambda>ev. \<not> is_input ev)
       (cli_call example_world (PStr ''TOK'') example_call_args (Some ''get_quote'') (ret 0))" .
  note c4 = events_all_run [OF this, of "example_typed ''x''"]
  have c5: "\<forall>n \<in> set ?six.
      call_method example_world ''TOK'' n [] [] False example_state =
        ([Sdk_client (PStr ''TOK'')], example_state, Inr (error_dict trading_blocked))"
  proof
    fix n assume n: "n \<in> set ?six"
    note s = example_six_strip [OF n]
    from n have ne: "strip n \<noteq> []"
      unfolding s by auto
    from n have tr: "n \<in> {''place_order'', ''modify_order'', ''cancel_order'',
        ''create_smart_order'', ''modify_smart_order'', ''cancel_smart_order''}"
      by simp
    note g = trading_gate [where name = n and w = example_world and tok = "''TOK''"
        and aj = "[]" and kj = "[]" and s = example_state]
    from mp [OF conjunct2 [OF conjunct2 [OF g]] tr]
    have "call_method example_world ''TOK'' n [] [] False example_state =
        (if ''TOK'' = [] then ([], example_state, Inr not_connected)
         else if strip n = [] then ([], example_state, Inr (error_dict ''Method name is required''))
         else ([Sdk_client (PStr ''TOK'')], example_state, Inr (error_dict
                 (case new_client example_world (PStr ''TOK'') of
                    Some m \<Rightarrow> m
                  | None \<Rightarrow>
                      if \<not> has_attr example_world n then ''Unknown method: '' @ n
                      else if \<not> is_callable example_world n then ''Not callable: '' @ n
                      else trading_blocked))))" .
    with ne f(4,5) example_world_has [of n]
    show "call_method example_world ''TOK'' n [] [] False example_state =
        ([Sdk_client (PStr ''TOK'')], example_state, Inr (error_dict trading_blocked))"
      by simp
  qed
  show ?thesis
    unfolding list_all_iff [of _ ?six]
    by (intro conjI c1 c2 c3 c4 c5)
qed

end
